theory Spec2Isabelle
  imports Complex_Main
begin

section \<open>Errors, files and data frames\<close>

text \<open>
  The Python exceptions the flux functions of \<^verbatim>\<open>cflx_proc.py\<close> can raise. None of the
  functions catches an exception, so every raise is an \<open>Inl\<close> result that the caller
  passes on.
  \<^item> \<open>FileNotFoundError p\<close>: \<^verbatim>\<open>open(file_path, "r")\<close> on a path that does not exist;
  \<^item> \<open>ValueError\<close>: \<^verbatim>\<open>pd.to_numeric\<close> on a token that is not a number, an assignment
    of an array whose length is not the frame's, an empty series given to
    \<^verbatim>\<open>cumulative_trapezoid\<close>;
  \<^item> \<open>KeyError c\<close>: a column or dictionary key \<open>c\<close> that is not there;
  \<^item> \<open>UnboundLocalError v\<close>: a local variable read before any assignment.
\<close>

datatype error =
    FileNotFoundError string
  | ValueError string
  | KeyError string
  | UnboundLocalError string

text \<open>
  A text file is modelled after \<^verbatim>\<open>preprocess_txt\<close> has split it: the header names, each
  with the tokens of its column. A token is either the text of a number (with its value)
  or any other text. Files are taken to be rectangular and their headers free of
  repeated names; numbers are finite reals (the float rounding of the source is not
  modelled).
\<close>

datatype token = Numeric real | Text string

type_synonym raw_frame = "(string \<times> token list) list"

text \<open>A numeric data frame: the columns in order, each with its values by row.\<close>

type_synonym frame = "(string \<times> real list) list"

text \<open>
  A frame whose cells may be non-finite: \<open>None\<close> stands for NaN (and for the infinities
  a division by zero gives, which the source never computes with again).
\<close>

type_synonym oframe = "(string \<times> real option list) list"

text \<open>The run directories: a path leads to the content of a file, or to nothing.\<close>

type_synonym files = "string \<Rightarrow> raw_frame option"

definition columns :: "(string \<times> 'a) list \<Rightarrow> string list" where
  "columns df = map fst df"

definition nrows :: "(string \<times> 'a list) list \<Rightarrow> nat" where
  "nrows df = (case df of [] \<Rightarrow> 0 | cv # rest \<Rightarrow> length (snd cv))"

definition rect :: "(string \<times> 'a list) list \<Rightarrow> bool" where
  "rect df = list_all (\<lambda>cv. length (snd cv) = nrows df) df"

text \<open>\<^verbatim>\<open>df[c] = v\<close>: replaces the column where it stands, or appends it.\<close>

fun assign :: "string \<Rightarrow> 'a \<Rightarrow> (string \<times> 'a) list \<Rightarrow> (string \<times> 'a) list" where
  "assign c v [] = [(c, v)]"
| "assign c v (kw # df) = (if fst kw = c then (c, v) # df else kw # assign c v df)"

text \<open>\<^verbatim>\<open>df.loc[:, cs]\<close>: the columns \<open>cs\<close> in that order; a missing one is a KeyError.\<close>

fun loc_cols :: "(string \<times> 'a) list \<Rightarrow> string list \<Rightarrow> error + (string \<times> 'a) list" where
  "loc_cols df [] = Inr []"
| "loc_cols df (c # cs) =
     (case map_of df c of
        None \<Rightarrow> Inl (KeyError c)
      | Some v \<Rightarrow>
          (case loc_cols df cs of Inl e \<Rightarrow> Inl e | Inr f \<Rightarrow> Inr ((c, v) # f)))"

text \<open>\<^verbatim>\<open>df[cs]\<close> read as the list of the columns' values.\<close>

fun getcols :: "(string \<times> 'a) list \<Rightarrow> string list \<Rightarrow> error + 'a list" where
  "getcols df [] = Inr []"
| "getcols df (c # cs) =
     (case map_of df c of
        None \<Rightarrow> Inl (KeyError c)
      | Some v \<Rightarrow>
          (case getcols df cs of Inl e \<Rightarrow> Inl e | Inr vs \<Rightarrow> Inr (v # vs)))"

text \<open>\<^verbatim>\<open>df.rename(columns=m)\<close>.\<close>

definition rename_cols :: "(string \<times> string) list \<Rightarrow> (string \<times> 'a) list \<Rightarrow> (string \<times> 'a) list" where
  "rename_cols m df =
     map (\<lambda>cv. (case map_of m (fst cv) of Some c' \<Rightarrow> c' | None \<Rightarrow> fst cv, snd cv)) df"

text \<open>\<^verbatim>\<open>df.apply(lambda x: ...)\<close>: a function of the column's name and values, column by column.\<close>

definition apply_cols :: "(string \<Rightarrow> 'a \<Rightarrow> 'b) \<Rightarrow> (string \<times> 'a) list \<Rightarrow> (string \<times> 'b) list" where
  "apply_cols g df = map (\<lambda>cv. (fst cv, g (fst cv) (snd cv))) df"

text \<open>\<^verbatim>\<open>df[cs].sum(axis=1)\<close> over a frame of \<open>n\<close> rows: the sum of the columns, row by row.\<close>

fun row_sum :: "nat \<Rightarrow> real list list \<Rightarrow> real list" where
  "row_sum n [] = replicate n 0"
| "row_sum n (c # cs) = map2 (+) c (row_sum n cs)"

text \<open>
  \<^verbatim>\<open>list(set(sp_list) & set(df.columns))\<close>. Python leaves the order of the result open; the
  model takes the order of \<open>sp_list\<close>. The result is only summed over and copied by name.
\<close>

definition present :: "string list \<Rightarrow> (string \<times> 'a) list \<Rightarrow> string list" where
  "present sp_list df = remdups (filter (\<lambda>sp. sp \<in> set (columns df)) sp_list)"

text \<open>\<^verbatim>\<open>for sp in sps: tdf[sp] = df[sp]\<close>.\<close>

fun copy_cols :: "string list \<Rightarrow> (string \<times> 'a) list \<Rightarrow> (string \<times> 'a) list \<Rightarrow> error + (string \<times> 'a) list" where
  "copy_cols [] df tdf = Inr tdf"
| "copy_cols (sp # sps) df tdf =
     (case map_of df sp of
        None \<Rightarrow> Inl (KeyError sp)
      | Some v \<Rightarrow> copy_cols sps df (assign sp v tdf))"

text \<open>
  The frames an assembler returns carry string columns too (\<^verbatim>\<open>units\<close>, \<^verbatim>\<open>flx_type\<close>,
  \<^verbatim>\<open>runname\<close>, \<^verbatim>\<open>var\<close>), each one value for all rows. \<^verbatim>\<open>pd.concat([a, b], axis=0)\<close> is
  the rows of \<open>a\<close> followed by those of \<open>b\<close>; a column that one of them lacks has no entry
  in its rows (pandas shows NaN there).
\<close>

datatype cell = Val real | NaN | Str string

type_synonym row = "(string \<times> cell) list"

record tagged =
  numeric :: oframe
  labels :: "(string \<times> string) list"

fun cell_of :: "real option \<Rightarrow> cell" where
  "cell_of (Some x) = Val x"
| "cell_of None = NaN"

definition row_at :: "tagged \<Rightarrow> nat \<Rightarrow> row" where
  "row_at t i =
     map (\<lambda>cv. (fst cv, cell_of (snd cv ! i))) (numeric t) @
     map (\<lambda>ls. (fst ls, Str (snd ls))) (labels t)"

definition rows_of :: "tagged \<Rightarrow> row list" where
  "rows_of t = map (row_at t) [0..<nrows (numeric t)]"

definition pd_concat :: "tagged \<Rightarrow> tagged \<Rightarrow> row list" where
  "pd_concat a b = rows_of a @ rows_of b"

definition finite_frame :: "frame \<Rightarrow> oframe" where
  "finite_frame df = map (\<lambda>cv. (fst cv, map Some (snd cv))) df"

section \<open>Reading the simulator's text files\<close>

text \<open>
  \<^verbatim>\<open>os.path.join(a, *p)\<close> on a POSIX system, as \<^verbatim>\<open>posixpath.join\<close> computes it: a
  component that starts with the separator discards what was joined before it; a
  component is appended as it is when the path so far is empty or ends with the
  separator, and behind a separator otherwise.
\<close>

definition join_step :: "string \<Rightarrow> string \<Rightarrow> string" where
  "join_step path b =
     (if take 1 b = ''/'' then b
      else if path = [] \<or> last path = CHR ''/'' then path @ b
      else path @ ''/'' @ b)"

definition path_join :: "string \<Rightarrow> string list \<Rightarrow> string" where
  "path_join a p = foldl join_step a p"

text \<open>\<^verbatim>\<open>df.map(pd.to_numeric)\<close>: every token must be a number.\<close>

fun to_numeric :: "token list \<Rightarrow> error + real list" where
  "to_numeric [] = Inr []"
| "to_numeric (Numeric x # ts) =
     (case to_numeric ts of Inl e \<Rightarrow> Inl e | Inr xs \<Rightarrow> Inr (x # xs))"
| "to_numeric (Text s # ts) = Inl (ValueError s)"

fun df_map_numeric :: "raw_frame \<Rightarrow> error + frame" where
  "df_map_numeric [] = Inr []"
| "df_map_numeric (cv # rest) =
     (case to_numeric (snd cv) of
        Inl e \<Rightarrow> Inl e
      | Inr xs \<Rightarrow>
          (case df_map_numeric rest of Inl e \<Rightarrow> Inl e | Inr f \<Rightarrow> Inr ((fst cv, xs) # f)))"

text \<open>\<^verbatim>\<open>preprocess_txt(..., map_numeric=False)\<close>: the tokens as read.\<close>

definition preprocess_txt_raw :: "files \<Rightarrow> string \<Rightarrow> string \<Rightarrow> string \<Rightarrow> string \<Rightarrow> error + raw_frame" where
  "preprocess_txt_raw fs outdir runname fn run_subdir =
     (let file_path = path_join outdir [runname, run_subdir, fn] in
      case fs file_path of
        None \<Rightarrow> Inl (FileNotFoundError file_path)
      | Some df \<Rightarrow> Inr df)"

text \<open>\<^verbatim>\<open>preprocess_txt\<close> with \<^verbatim>\<open>map_numeric=True\<close>, its default.\<close>

definition preprocess_txt :: "files \<Rightarrow> string \<Rightarrow> string \<Rightarrow> string \<Rightarrow> string \<Rightarrow> error + frame" where
  "preprocess_txt fs outdir runname fn run_subdir =
     (case preprocess_txt_raw fs outdir runname fn run_subdir of
        Inl e \<Rightarrow> Inl e
      | Inr df \<Rightarrow> df_map_numeric df)"

text \<open>
  \<^verbatim>\<open>get_data\<close> with \<^verbatim>\<open>get_int=True\<close> (no caller passes anything else): the flux file and
  its \<^verbatim>\<open>int_\<close> counterpart.
\<close>

definition get_data :: "files \<Rightarrow> string \<Rightarrow> string \<Rightarrow> string \<Rightarrow> string \<Rightarrow> string \<Rightarrow> error + frame \<times> frame" where
  "get_data fs outdir runname var_fn cdvar run_subdir =
     (let fn = var_fn @ ''-'' @ cdvar @ ''.txt'' in
      case preprocess_txt fs outdir runname fn run_subdir of
        Inl e \<Rightarrow> Inl e
      | Inr df \<Rightarrow>
          (case preprocess_txt fs outdir runname (''int_'' @ fn) run_subdir of
             Inl e \<Rightarrow> Inl e
           | Inr dfint \<Rightarrow> Inr (df, dfint)))"

section \<open>Unit conversion\<close>

text \<open>
  Every assembler starts with the same three lines:
  \<^verbatim>\<open>ton_g = 1 / 1e6\<close>, \<^verbatim>\<open>m2_ha = 10e3\<close>, \<^verbatim>\<open>conv_factor = ton_g * m2_ha\<close>.
\<close>

definition ton_g :: real where
  "ton_g = 1 / 1000000"

definition m2_ha :: real where
  "m2_ha = 10 * 10 ^ 3"

definition conv_factor :: real where
  "conv_factor = ton_g * m2_ha"

section \<open>CO2 fluxes\<close>

text \<open>
  Lines 357-360 and 369-373 of \<^verbatim>\<open>co2_flx\<close>: when some of the species are columns of
  \<open>df\<close>, copy them into \<open>tdf\<close> and store their row-wise sum under \<open>name\<close>.
\<close>

definition add_source_sum :: "string \<Rightarrow> string list \<Rightarrow> frame \<Rightarrow> frame \<Rightarrow> error + frame" where
  "add_source_sum name sps df tdf =
     (if length sps > 0 then
        (case copy_cols sps df tdf of
           Inl e \<Rightarrow> Inl e
         | Inr tdf1 \<Rightarrow>
             (case getcols df sps of
                Inl e \<Rightarrow> Inl e
              | Inr cs \<Rightarrow> Inr (assign name (row_sum (nrows df) cs) tdf1)))
      else Inr tdf)"

text \<open>\<^verbatim>\<open>tdf["co2flx_adv_noinorg"] = tdf["co2flx_adv"] + tdf["co2flx_inorg"]\<close>, inside the same \<^verbatim>\<open>if\<close>.\<close>

definition add_adv_noinorg :: "string list \<Rightarrow> frame \<Rightarrow> error + frame" where
  "add_adv_noinorg sps tdf =
     (if length sps > 0 then
        (case map_of tdf ''co2flx_adv'' of
           None \<Rightarrow> Inl (KeyError ''co2flx_adv'')
         | Some a \<Rightarrow>
             (case map_of tdf ''co2flx_inorg'' of
                None \<Rightarrow> Inl (KeyError ''co2flx_inorg'')
              | Some b \<Rightarrow> Inr (assign ''co2flx_adv_noinorg'' (map2 (+) a b) tdf)))
      else Inr tdf)"

text \<open>The columns \<^verbatim>\<open>co2_flx\<close> builds for one of the two tables, before the unit conversion.\<close>

definition co2_components :: "string list \<Rightarrow> string list \<Rightarrow> frame \<Rightarrow> error + frame" where
  "co2_components organic_sp_list inorganic_sp_list df =
     (let org_sp = present organic_sp_list df;
          inorg_sp = present inorganic_sp_list df in
      case loc_cols df [''time'', ''dif'', ''tflx'', ''adv''] of
        Inl e \<Rightarrow> Inl e
      | Inr sel \<Rightarrow>
          (let tdf = rename_cols [(''time'', ''time''), (''dif'', ''co2flx_dif''),
                                  (''tflx'', ''co2flx_tflx''), (''adv'', ''co2flx_adv'')] sel in
           case add_source_sum ''co2flx_resp'' org_sp df tdf of
             Inl e \<Rightarrow> Inl e
           | Inr tdf1 \<Rightarrow>
               (case add_source_sum ''co2flx_inorg'' inorg_sp df tdf1 of
                  Inl e \<Rightarrow> Inl e
                | Inr tdf2 \<Rightarrow> add_adv_noinorg inorg_sp tdf2)))"

text \<open>\<^verbatim>\<open>x * k if x.name not in ["time", "units"] else x\<close>.\<close>

definition scale_col :: "real \<Rightarrow> string \<Rightarrow> real list \<Rightarrow> real list" where
  "scale_col k name x = (if name \<notin> set [''time'', ''units''] then map (\<lambda>v. v * k) x else x)"

text \<open>\<^verbatim>\<open>x * tdfint["time"] if x.name not in names else x\<close>.\<close>

definition times_col :: "string list \<Rightarrow> real list \<Rightarrow> string \<Rightarrow> real list \<Rightarrow> real list" where
  "times_col names t name x = (if name \<notin> set names then map2 (*) x t else x)"

definition mul_by_time :: "string list \<Rightarrow> frame \<Rightarrow> error + frame" where
  "mul_by_time names df =
     (case map_of df ''time'' of
        None \<Rightarrow> Inl (KeyError ''time'')
      | Some t \<Rightarrow> Inr (apply_cols (times_col names t) df))"

definition co2_flx :: "files \<Rightarrow> string \<Rightarrow> string \<Rightarrow> string \<Rightarrow> string \<Rightarrow> string list \<Rightarrow> string list \<Rightarrow> bool \<Rightarrow> real \<Rightarrow> error + row list" where
  "co2_flx fs outdir runname var_fn cdvar organic_sp_list inorganic_sp_list convert_units co2_g_mol =
     (case get_data fs outdir runname var_fn cdvar ''flx'' of
        Inl e \<Rightarrow> Inl e
      | Inr (df, dfint) \<Rightarrow>
          (case co2_components organic_sp_list inorganic_sp_list df of
             Inl e \<Rightarrow> Inl e
           | Inr tdf0 \<Rightarrow>
               (case co2_components organic_sp_list inorganic_sp_list dfint of
                  Inl e \<Rightarrow> Inl e
                | Inr tdfint0 \<Rightarrow>
                    (let k = (if convert_units then co2_g_mol * conv_factor else co2_g_mol);
                         tdfint1 = apply_cols (scale_col k) tdfint0;
                         tdf = apply_cols (scale_col k) tdf0;
                         units_int = (if convert_units then ''ton ha-1'' else ''g m-2'');
                         units = (if convert_units then ''ton ha-1 yr-1'' else ''g m-2 yr-1'') in
                     case mul_by_time [''time'', ''units''] tdfint1 of
                       Inl e \<Rightarrow> Inl e
                     | Inr tdfint \<Rightarrow>
                         Inr (pd_concat
                           \<lparr>numeric = finite_frame tdf,
                            labels = [(''units'', units), (''flx_type'', ''flx''),
                                      (''runname'', runname), (''var'', cdvar)]\<rparr>
                           \<lparr>numeric = finite_frame tdfint,
                            labels = [(''units'', units_int), (''flx_type'', ''int_flx''),
                                      (''runname'', runname), (''var'', cdvar)]\<rparr>)))))"

section \<open>Carbonate alkalinity fluxes\<close>

text \<open>
  The four potential columns \<^verbatim>\<open>carbAlk_adv\<close> adds to one table: advective first, then
  advective plus storage, each for a silicate and for a carbonate feedstock. \<open>sfx\<close> is
  the unit part of the column names, \<open>k\<close> the unit factor.
\<close>

definition add_calk_potentials :: "string \<Rightarrow> real \<Rightarrow> real \<Rightarrow> real \<Rightarrow> frame \<Rightarrow> error + frame" where
  "add_calk_potentials sfx sil cc k tdf =
     (case map_of tdf ''calkflx_adv'' of
        None \<Rightarrow> Inl (KeyError ''calkflx_adv'')
      | Some a \<Rightarrow>
          (case map_of tdf ''calkflx_tot'' of
             None \<Rightarrow> Inl (KeyError ''calkflx_tot'')
           | Some t \<Rightarrow>
               Inr (assign (''co2pot_tot_'' @ sfx @ ''_cc'') (map (\<lambda>v. v * cc * k) t)
                   (assign (''co2pot_tot_'' @ sfx @ ''_sil'') (map (\<lambda>v. v * sil * k) t)
                   (assign (''co2pot_adv_'' @ sfx @ ''_cc'') (map (\<lambda>v. v * cc * k) a)
                   (assign (''co2pot_adv_'' @ sfx @ ''_sil'') (map (\<lambda>v. v * sil * k) a) tdf))))))"

definition calk_components :: "frame \<Rightarrow> error + frame" where
  "calk_components df =
     (case loc_cols df [''time'', ''tflx'', ''adv''] of
        Inl e \<Rightarrow> Inl e
      | Inr sel \<Rightarrow>
          (let tdf = rename_cols [(''time'', ''time''), (''tflx'', ''calkflx_tflx''),
                                  (''adv'', ''calkflx_adv'')] sel in
           case map_of tdf ''calkflx_adv'' of
             None \<Rightarrow> Inl (KeyError ''calkflx_adv'')
           | Some a \<Rightarrow>
               (case map_of tdf ''calkflx_tflx'' of
                  None \<Rightarrow> Inl (KeyError ''calkflx_tflx'')
                | Some t \<Rightarrow> Inr (assign ''calkflx_tot'' (map2 (+) a t) tdf))))"

definition carbAlk_adv :: "files \<Rightarrow> string \<Rightarrow> string \<Rightarrow> string \<Rightarrow> string \<Rightarrow> bool \<Rightarrow> real \<Rightarrow> real \<Rightarrow> error + row list" where
  "carbAlk_adv fs outdir runname var_fn cdvar convert_units co2potential_g_mol_sil co2potential_g_mol_cc =
     (case get_data fs outdir runname var_fn cdvar ''flx'' of
        Inl e \<Rightarrow> Inl e
      | Inr (df, dfint) \<Rightarrow>
          (case calk_components df of
             Inl e \<Rightarrow> Inl e
           | Inr tdf0 \<Rightarrow>
               (case calk_components dfint of
                  Inl e \<Rightarrow> Inl e
                | Inr tdfint0 \<Rightarrow>
                    (let k = (if convert_units then conv_factor else 1);
                         sfx = (if convert_units then ''tonHaYr'' else ''gm2Yr'');
                         sfx_int = (if convert_units then ''tonHa'' else ''gm2'') in
                     case add_calk_potentials sfx co2potential_g_mol_sil co2potential_g_mol_cc k tdf0 of
                       Inl e \<Rightarrow> Inl e
                     | Inr tdf \<Rightarrow>
                         (case add_calk_potentials sfx_int co2potential_g_mol_sil co2potential_g_mol_cc k tdfint0 of
                            Inl e \<Rightarrow> Inl e
                          | Inr tdfint1 \<Rightarrow>
                              (case mul_by_time [''time''] tdfint1 of
                                 Inl e \<Rightarrow> Inl e
                               | Inr tdfint \<Rightarrow>
                                   Inr (pd_concat
                                     \<lparr>numeric = finite_frame tdf,
                                      labels = [(''units'', ''mol m-2 yr''), (''flx_type'', ''flx''),
                                                (''runname'', runname), (''var'', cdvar)]\<rparr>
                                     \<lparr>numeric = finite_frame tdfint,
                                      labels = [(''units'', ''mol m-2''), (''flx_type'', ''int_flx''),
                                                (''runname'', runname), (''var'', cdvar)]\<rparr>)))))))"

section \<open>Cation fluxes\<close>

text \<open>
  \<^verbatim>\<open>tmpdf.loc[:, (np.abs(tmpdf) > 1e-7).any(axis=0) | tmpdf.columns.isin(columns_to_keep)]\<close>:
  a column stays when one of its values is above the threshold in absolute value, or
  when it is one of \<^verbatim>\<open>time\<close>, \<^verbatim>\<open>adv\<close>, \<^verbatim>\<open>tflx\<close>, \<^verbatim>\<open>res\<close>.
\<close>

definition columns_to_keep :: "string list" where
  "columns_to_keep = [''time'', ''adv'', ''tflx'', ''res'']"

definition trim_negligible :: "frame \<Rightarrow> frame" where
  "trim_negligible df =
     filter (\<lambda>cv. list_ex (\<lambda>v. \<bar>v\<bar> > 1 / 10 ^ 7) (snd cv) \<or> fst cv \<in> set columns_to_keep) df"

text \<open>\<^verbatim>\<open>df.columns.difference(exclude, sort=False)\<close>.\<close>

definition columns_difference :: "(string \<times> 'a) list \<Rightarrow> string list \<Rightarrow> string list" where
  "columns_difference df exclude = filter (\<lambda>c. c \<notin> set exclude) (remdups (columns df))"

text \<open>
  Lines 950-969: the sum of the source columns \<open>srcs\<close> under \<open>name\<close>, or a column of
  zeros when there is none.
\<close>

definition source_sum :: "string \<Rightarrow> string list \<Rightarrow> frame \<Rightarrow> error + frame" where
  "source_sum name srcs df =
     (if length srcs > 0 then
        (case getcols df srcs of
           Inl e \<Rightarrow> Inl e
         | Inr cs \<Rightarrow> Inr (assign name (row_sum (nrows df) cs) df))
      else Inr (assign name (replicate (nrows df) 0) df))"

text \<open>
  Lines 970-1004 for one table: \<^verbatim>\<open>adv_cat = -tflx - noncarbsld_source - carbsld_source / 2\<close>,
  \<^verbatim>\<open>tot_cat = -noncarbsld_source - carbsld_source / 2\<close>, each times the charge, the molar
  mass of CO2 and the unit factor \<open>k\<close>, stored under \<open>adv_name\<close> and \<open>tot_name\<close>.
\<close>

definition cation_potentials :: "string \<Rightarrow> string \<Rightarrow> real \<Rightarrow> real \<Rightarrow> real \<Rightarrow> frame \<Rightarrow> error + frame" where
  "cation_potentials adv_name tot_name ccharge co2potential_g_mol k df =
     (case map_of df ''tflx'' of
        None \<Rightarrow> Inl (KeyError ''tflx'')
      | Some tflx \<Rightarrow>
          (case map_of df ''noncarbsld_source'' of
             None \<Rightarrow> Inl (KeyError ''noncarbsld_source'')
           | Some noncarb \<Rightarrow>
               (case map_of df ''carbsld_source'' of
                  None \<Rightarrow> Inl (KeyError ''carbsld_source'')
                | Some carb \<Rightarrow>
                    (let adv_cat = map2 (\<lambda>t nc. - t - fst nc - snd nc / 2) tflx (zip noncarb carb);
                         tot_cat = map2 (\<lambda>n c. - n - c / 2) noncarb carb in
                     Inr (assign tot_name (map (\<lambda>v. v * ccharge * co2potential_g_mol * k) tot_cat)
                         (assign adv_name (map (\<lambda>v. v * ccharge * co2potential_g_mol * k) adv_cat) df))))))"

text \<open>
  One table of \<^verbatim>\<open>build_cation_df\<close> after trimming: \<open>srcs\<close> are its non-carbonate source
  columns and \<open>inorg\<close> its carbonate ones, as lines 940-946 computed them.
\<close>

definition cation_table :: "string list \<Rightarrow> string list \<Rightarrow> string \<Rightarrow> string \<Rightarrow> real \<Rightarrow> real \<Rightarrow> real \<Rightarrow> frame \<Rightarrow> error + frame" where
  "cation_table srcs inorg adv_name tot_name ccharge co2potential_g_mol k df =
     (case source_sum ''noncarbsld_source'' srcs df of
        Inl e \<Rightarrow> Inl e
      | Inr df1 \<Rightarrow>
          (case source_sum ''carbsld_source'' inorg df1 of
             Inl e \<Rightarrow> Inl e
           | Inr df2 \<Rightarrow>
               (case cation_potentials adv_name tot_name ccharge co2potential_g_mol k df2 of
                  Inl e \<Rightarrow> Inl e
                | Inr df3 \<Rightarrow> Inr (assign ''charge'' (replicate (nrows df3) ccharge) df3))))"

text \<open>
  \<^verbatim>\<open>build_cation_df\<close>. It returns the concatenated table and the two tables it was made
  of; of the latter the callers read numeric columns only, so the model returns their
  numeric part. As in the source, the non-carbonate sources of the integrated table are
  what is left of its columns after \<open>exclude_cols\<close>, the exclusion list of the
  instantaneous table (\<open>exclude_cols_int\<close> is computed and not used), and the threshold
  is the literal \<^verbatim>\<open>1e-7\<close>.
\<close>

definition build_cation_df :: "string \<Rightarrow> string \<Rightarrow> real \<Rightarrow> frame \<Rightarrow> frame \<Rightarrow> string list \<Rightarrow> real \<Rightarrow> bool \<Rightarrow> error + row list \<times> frame \<times> frame" where
  "build_cation_df runname cation ccharge tmpdf0 tmpdfint0 inorganic_sp_list co2potential_g_mol convert_units =
     (let tmpdf = trim_negligible tmpdf0;
          tmpdfint = trim_negligible tmpdfint0;
          inorg_sp = present inorganic_sp_list tmpdf;
          inorg_sp_int = present inorganic_sp_list tmpdfint;
          exclude_cols = inorg_sp @ [''time'', ''tflx'', ''adv'', ''res''];
          exclude_cols_int = inorg_sp_int @ [''time'', ''tflx'', ''adv'', ''res''];
          noninorg_sources = columns_difference tmpdf exclude_cols;
          noninorg_sources_int = columns_difference tmpdfint exclude_cols;
          k = (if convert_units then conv_factor else 1);
          sfx = (if convert_units then ''tonHaYr'' else ''gm2Yr'');
          sfx_int = (if convert_units then ''tonHa'' else ''gm2'') in
      case cation_table noninorg_sources inorg_sp (''co2pot_adv_'' @ sfx) (''co2pot_tot_'' @ sfx)
             ccharge co2potential_g_mol k tmpdf of
        Inl e \<Rightarrow> Inl e
      | Inr df \<Rightarrow>
          (case cation_table noninorg_sources_int inorg_sp_int (''co2pot_adv_'' @ sfx_int)
                  (''co2pot_tot_'' @ sfx_int) ccharge co2potential_g_mol k tmpdfint of
             Inl e \<Rightarrow> Inl e
           | Inr dfint \<Rightarrow>
               Inr (pd_concat
                      \<lparr>numeric = finite_frame df,
                       labels = [(''units'', ''mol m-2 yr''), (''flx_type'', ''flx''),
                                 (''runname'', runname), (''cation'', cation)]\<rparr>
                      \<lparr>numeric = finite_frame dfint,
                       labels = [(''units'', ''mol m-2''), (''flx_type'', ''int_flx''),
                                 (''runname'', runname), (''cation'', cation)]\<rparr>,
                    df, dfint)))"

text \<open>\<^verbatim>\<open>find_cations\<close>: the keys of the charge dictionary whose flux file exists.\<close>

definition find_cations :: "files \<Rightarrow> string \<Rightarrow> string \<Rightarrow> string \<Rightarrow> (string \<times> real) list \<Rightarrow> string list" where
  "find_cations fs outdir runname var_fn catvars_charge =
     filter (\<lambda>key. fs (path_join outdir [runname, ''flx'', var_fn @ ''-'' @ key @ ''.txt'']) \<noteq> None)
       (map fst catvars_charge)"

text \<open>Arithmetic on cells that may be NaN: a NaN operand gives NaN.\<close>

fun oadd :: "real option \<Rightarrow> real option \<Rightarrow> real option" where
  "oadd (Some x) (Some y) = Some (x + y)"
| "oadd _ _ = None"

fun osub :: "real option \<Rightarrow> real option \<Rightarrow> real option" where
  "osub (Some x) (Some y) = Some (x - y)"
| "osub _ _ = None"

fun omul :: "real option \<Rightarrow> real option \<Rightarrow> real option" where
  "omul (Some x) (Some y) = Some (x * y)"
| "omul _ _ = None"

text \<open>Float division: by zero it gives an infinity or NaN and does not raise.\<close>

fun odiv :: "real option \<Rightarrow> real option \<Rightarrow> real option" where
  "odiv (Some x) (Some y) = (if y = 0 then None else Some (x / y))"
| "odiv _ _ = None"

text \<open>
  \<^verbatim>\<open>a + b\<close> on two columns with the default index: rows by position, and NaN in the
  rows only the longer one has.
\<close>

fun add_pad :: "real option list \<Rightarrow> real option list \<Rightarrow> real option list" where
  "add_pad [] ys = map (\<lambda>y. None) ys"
| "add_pad (x # xs) [] = map (\<lambda>y. None) (x # xs)"
| "add_pad (x # xs) (y # ys) = oadd x y # add_pad xs ys"

text \<open>
  \<^verbatim>\<open>a + b\<close> on two frames: column by column, by name. (The frames added in
  \<^verbatim>\<open>sumCat_adv\<close> have the same columns; a column only one of them had would be NaN.)
\<close>

definition frame_add :: "oframe \<Rightarrow> oframe \<Rightarrow> oframe" where
  "frame_add a b =
     map (\<lambda>cv. (fst cv, (case map_of b (fst cv) of
                           Some ys \<Rightarrow> add_pad (snd cv) ys
                         | None \<Rightarrow> map (\<lambda>y. None) (snd cv)))) a @
     map (\<lambda>cv. (fst cv, map (\<lambda>y. None) (snd cv))) (filter (\<lambda>cv. fst cv \<notin> set (columns a)) b)"

text \<open>\<^verbatim>\<open>df.drop(columns=c)\<close>.\<close>

definition drop_col :: "string \<Rightarrow> (string \<times> 'a) list \<Rightarrow> error + (string \<times> 'a) list" where
  "drop_col c df =
     (if c \<in> set (columns df) then Inr (filter (\<lambda>cv. fst cv \<noteq> c) df) else Inl (KeyError c))"

text \<open>A column aligned to an index of \<open>n\<close> rows: NaN in the rows it does not have.\<close>

definition reindex :: "nat \<Rightarrow> real option list \<Rightarrow> real option list" where
  "reindex n xs = take n xs @ replicate (n - length xs) None"

text \<open>
  Lines 815-822: \<^verbatim>\<open>outdf.drop(columns="time") + tdf.drop(columns="time")\<close>, then
  \<^verbatim>\<open>insert(0, "time", tdf["time"])\<close>.
\<close>

definition add_cation :: "oframe \<Rightarrow> oframe \<Rightarrow> error + oframe" where
  "add_cation outdf tdf =
     (case drop_col ''time'' outdf of
        Inl e \<Rightarrow> Inl e
      | Inr a \<Rightarrow>
          (case drop_col ''time'' tdf of
             Inl e \<Rightarrow> Inl e
           | Inr b \<Rightarrow>
               (let s = frame_add a b in
                case map_of tdf ''time'' of
                  None \<Rightarrow> Inl (KeyError ''time'')
                | Some t \<Rightarrow> Inr ((''time'', reindex (nrows s) t) # s))))"

text \<open>
  Lines 763-788 for one of the two tables of a cation: the five columns renamed, and
  all but \<^verbatim>\<open>time\<close> times the charge.
\<close>

definition charge_columns :: "real \<Rightarrow> frame \<Rightarrow> error + frame" where
  "charge_columns ccharge df =
     (case loc_cols df [''time'', ''tflx'', ''adv'', ''carbsld_source'', ''noncarbsld_source''] of
        Inl e \<Rightarrow> Inl e
      | Inr sel \<Rightarrow>
          Inr (apply_cols (\<lambda>name x. if name \<notin> set [''time''] then map (\<lambda>v. v * ccharge) x else x)
                 (rename_cols [(''time'', ''time''), (''tflx'', ''tflx_charge''),
                               (''adv'', ''adv_charge''),
                               (''carbsld_source'', ''carbsld_source_charge''),
                               (''noncarbsld_source'', ''noncarbsld_source_charge'')] sel)))"

text \<open>
  Lines 793-807: the two potential columns of each table, copied from the tables
  \<^verbatim>\<open>build_cation_df\<close> returned, in the order of the source. \<open>sfx\<close> and \<open>sfx_int\<close> are the
  unit parts of the column names.
\<close>

definition copy_potentials :: "string \<Rightarrow> string \<Rightarrow> frame \<Rightarrow> frame \<Rightarrow> frame \<Rightarrow> frame \<Rightarrow> error + frame \<times> frame" where
  "copy_potentials sfx sfx_int nonintdf intdf tdf0 tdfint0 =
     (case copy_cols [''co2pot_adv_'' @ sfx] nonintdf tdf0 of
        Inl e \<Rightarrow> Inl e
      | Inr tdf1 \<Rightarrow>
     (case copy_cols [''co2pot_adv_'' @ sfx_int] intdf tdfint0 of
        Inl e \<Rightarrow> Inl e
      | Inr tdfint1 \<Rightarrow>
     (case copy_cols [''co2pot_tot_'' @ sfx] nonintdf tdf1 of
        Inl e \<Rightarrow> Inl e
      | Inr tdf \<Rightarrow>
     (case copy_cols [''co2pot_tot_'' @ sfx_int] intdf tdfint1 of
        Inl e \<Rightarrow> Inl e
      | Inr tdfint \<Rightarrow> Inr (tdf, tdfint)))))"

text \<open>
  The loop of \<^verbatim>\<open>sumCat_adv\<close> over the cations found. The state is \<^verbatim>\<open>out_dict\<close> and the
  pair \<^verbatim>\<open>outdf\<close>, \<^verbatim>\<open>outdfint\<close>, which is \<open>None\<close> as long as the two variables are unbound.
  \<^verbatim>\<open>build_cation_df\<close> is called without \<^verbatim>\<open>convert_units\<close>, so with its default
  \<^verbatim>\<open>True\<close>; the names of the potential columns read back follow the \<^verbatim>\<open>convert_units\<close>
  of \<^verbatim>\<open>sumCat_adv\<close>.
\<close>

fun sumCat_loop :: "files \<Rightarrow> string \<Rightarrow> string \<Rightarrow> string \<Rightarrow> (string \<times> real) list \<Rightarrow> bool \<Rightarrow> string list \<Rightarrow> string list \<Rightarrow> (string \<times> row list) list \<times> (oframe \<times> oframe) option \<Rightarrow> error + (string \<times> row list) list \<times> (oframe \<times> oframe) option" where
  "sumCat_loop fs outdir runname var_fn catvars_charge convert_units catvars_exist [] st = Inr st"
| "sumCat_loop fs outdir runname var_fn catvars_charge convert_units catvars_exist (cat # cats) st =
     (case map_of catvars_charge cat of
        None \<Rightarrow> Inl (KeyError cat)
      | Some ccharge \<Rightarrow>
     (case get_data fs outdir runname var_fn cat ''flx'' of
        Inl e \<Rightarrow> Inl e
      | Inr (tmpdf, tmpdfint) \<Rightarrow>
     (case build_cation_df runname cat ccharge tmpdf tmpdfint [''cc'', ''dlm'', ''arg''] 44.01 True of
        Inl e \<Rightarrow> Inl e
      | Inr (outdf_cat, nonintdf, intdf) \<Rightarrow>
     (let out_dict = assign cat outdf_cat (fst st);
          sfx = (if convert_units then ''tonHaYr'' else ''gm2Yr'');
          sfx_int = (if convert_units then ''tonHa'' else ''gm2'') in
      case charge_columns ccharge nonintdf of
        Inl e \<Rightarrow> Inl e
      | Inr tdf0 \<Rightarrow>
     (case charge_columns ccharge intdf of
        Inl e \<Rightarrow> Inl e
      | Inr tdfint0 \<Rightarrow>
     (case copy_potentials sfx sfx_int nonintdf intdf tdf0 tdfint0 of
        Inl e \<Rightarrow> Inl e
      | Inr (tdf, tdfint) \<Rightarrow>
          (if (case catvars_exist of [] \<Rightarrow> False | c0 # rest \<Rightarrow> cat = c0) then
             sumCat_loop fs outdir runname var_fn catvars_charge convert_units catvars_exist cats
               (out_dict, Some (finite_frame tdf, finite_frame tdfint))
           else
             (case snd st of
                None \<Rightarrow> Inl (UnboundLocalError ''outdf'')
              | Some accum \<Rightarrow>
                  (case add_cation (fst accum) (finite_frame tdf) of
                     Inl e \<Rightarrow> Inl e
                   | Inr outdf \<Rightarrow>
                       (case add_cation (snd accum) (finite_frame tdfint) of
                          Inl e \<Rightarrow> Inl e
                        | Inr outdfint \<Rightarrow>
                            sumCat_loop fs outdir runname var_fn catvars_charge convert_units
                              catvars_exist cats (out_dict, Some (outdf, outdfint))))))))))))"

text \<open>\<^verbatim>\<open>sep.join(xs)\<close>.\<close>

fun str_join :: "string \<Rightarrow> string list \<Rightarrow> string" where
  "str_join sep [] = []"
| "str_join sep [x] = x"
| "str_join sep (x # y # xs) = x @ sep @ str_join sep (y # xs)"

text \<open>
  \<^verbatim>\<open>sumCat_adv\<close>. After the loop, line 825 reads \<^verbatim>\<open>outdfint\<close>, which no line has
  assigned when no cation was found.
\<close>

definition sumCat_adv :: "files \<Rightarrow> string \<Rightarrow> string \<Rightarrow> string \<Rightarrow> (string \<times> real) list \<Rightarrow> bool \<Rightarrow> error + row list \<times> (string \<times> row list) list" where
  "sumCat_adv fs outdir runname var_fn catvars_charge convert_units =
     (let catvars_exist = find_cations fs outdir runname var_fn catvars_charge in
      case sumCat_loop fs outdir runname var_fn catvars_charge convert_units catvars_exist
             catvars_exist ([], None) of
        Inl e \<Rightarrow> Inl e
      | Inr (out_dict, accum) \<Rightarrow>
          (case accum of
             None \<Rightarrow> Inl (UnboundLocalError ''outdfint'')
           | Some (outdf, outdfint0) \<Rightarrow>
               (case map_of outdfint0 ''time'' of
                  None \<Rightarrow> Inl (KeyError ''time'')
                | Some t \<Rightarrow>
                    (let outdfint = apply_cols (\<lambda>name x. if name \<notin> set [''time'']
                                                 then map2 omul x t else x) outdfint0 in
                     Inr (pd_concat
                            \<lparr>numeric = outdf,
                             labels = [(''units'', ''mol m-2 yr x charge''), (''flx_type'', ''flx''),
                                       (''runname'', runname), (''var'', str_join ''+'' catvars_exist)]\<rparr>
                            \<lparr>numeric = outdfint,
                             labels = [(''units'', ''mol m-2 x charge''), (''flx_type'', ''int_flx''),
                                       (''runname'', runname), (''var'', str_join ''+'' catvars_exist)]\<rparr>,
                          out_dict)))))"

section \<open>Feedstock dissolution\<close>

text \<open>The molar masses of the solid species, in g/mol.\<close>

definition molar_mass_dict :: "(string \<times> real) list" where
  "molar_mass_dict =
     [(''amsi'', 60.085), (''qtz'', 60.085), (''gb'', 78.004), (''gt'', 88.854),
      (''hm'', 159.692), (''gps'', 172.168), (''arg'', 100.089), (''cc'', 100.089),
      (''dlm'', 184.403), (''ab'', 262.225), (''kfs'', 278.33), (''an'', 278.311),
      (''fo'', 140.694), (''fa'', 203.778), (''en'', 100.389), (''fer'', 131.931),
      (''dp'', 216.553), (''hb'', 248.09), (''tm'', 812.374), (''antp'', 780.976),
      (''mscv'', 398.311), (''plgp'', 417.262), (''ct'', 277.113), (''ka'', 258.162),
      (''anl'', 220.155), (''nph'', 142.055), (''nabd'', 367.609), (''kbd'', 372.978),
      (''cabd'', 366.625), (''mgbd'', 363.996), (''ill'', 383.90), (''g1'', 30),
      (''g2'', 30), (''g3'', 30), (''amnt'', 80.043), (''gbas'', 120.496)]"

text \<open>
  \<^verbatim>\<open>scipy.integrate.cumulative_trapezoid(y, x, initial=0)\<close>: the running sum of
  \<^verbatim>\<open>diff(x) * (y[1:] + y[:-1]) / 2\<close> behind a leading zero. An empty series is refused.
\<close>

fun trapezoid_steps :: "real list \<Rightarrow> real list \<Rightarrow> real list" where
  "trapezoid_steps (y0 # y1 # ys) (x0 # x1 # xs) =
     (x1 - x0) * (y1 + y0) / 2 # trapezoid_steps (y1 # ys) (x1 # xs)"
| "trapezoid_steps ys xs = []"

fun cumsum_from :: "real \<Rightarrow> real list \<Rightarrow> real list" where
  "cumsum_from s [] = []"
| "cumsum_from s (d # ds) = (s + d) # cumsum_from (s + d) ds"

definition cumulative_trapezoid :: "real list \<Rightarrow> real list \<Rightarrow> error + real list" where
  "cumulative_trapezoid y x =
     (if y = [] then Inl (ValueError ''At least one point is required'')
      else Inr (0 # cumsum_from 0 (trapezoid_steps y x)))"

text \<open>
  \<^verbatim>\<open>drop_duplicates(subset="time", keep="first")\<close> on rows given as pairs of the time and the
  rest: a row goes when an earlier row has its time. \<open>seen\<close> are the times met so far.
\<close>

fun drop_duplicates_first :: "real list \<Rightarrow> (real \<times> 'a) list \<Rightarrow> (real \<times> 'a) list" where
  "drop_duplicates_first seen [] = []"
| "drop_duplicates_first seen (r # rs) =
     (if fst r \<in> set seen then drop_duplicates_first seen rs
      else r # drop_duplicates_first (fst r # seen) rs)"

text \<open>
  \<^verbatim>\<open>pd.merge(df, dfdust_nodup, on="time", how="outer")\<close>, of which only the columns
  \<^verbatim>\<open>time\<close> and \<^verbatim>\<open>int_dust_g_m2_yr\<close> are read afterwards: the union of the keys in
  ascending order, a key of the left frame once for each of its rows there, with the
  value of the right frame (whose times are distinct) or NaN. (The flux table is taken
  to have no column \<^verbatim>\<open>int_dust_g_m2_yr\<close> of its own.)
\<close>

definition merge_outer :: "real list \<Rightarrow> (real \<times> real) list \<Rightarrow> (real \<times> real option) list" where
  "merge_outer left right =
     concat (map (\<lambda>k. replicate (max 1 (count_list left k)) (k, map_of right k))
                 (sort (remdups (left @ map fst right))))"

text \<open>
  \<^verbatim>\<open>Series.interpolate()\<close> with its defaults: linear in the row position, NaN runs
  between two values filled on the straight line, NaN after the last value filled with
  it, NaN before the first value left. \<open>fill_gap a k\<close> has met \<open>k\<close> NaN since the value \<open>a\<close>.
\<close>

fun fill_gap :: "real \<Rightarrow> nat \<Rightarrow> real option list \<Rightarrow> real option list" where
  "fill_gap a k [] = replicate k (Some a)"
| "fill_gap a k (None # vs) = fill_gap a (Suc k) vs"
| "fill_gap a k (Some b # vs) =
     map (\<lambda>j. Some (a + (b - a) * real j / real (Suc k))) [1..<Suc k] @ Some b # fill_gap b 0 vs"

fun interpolate :: "real option list \<Rightarrow> real option list" where
  "interpolate [] = []"
| "interpolate (None # vs) = None # interpolate vs"
| "interpolate (Some a # vs) = Some a # fill_gap a 0 vs"

text \<open>
  Lines 491-506: the dust column of the feedstock. \<open>dfdust\<close> is the dust table with its
  numeric columns first and \<^verbatim>\<open>dustsp1\<close>, \<^verbatim>\<open>dustsp2\<close> last; a number never equals the
  feedstock's name.
\<close>

definition feedstock_dust_index :: "string \<Rightarrow> raw_frame \<Rightarrow> string" where
  "feedstock_dust_index feedstock dfdust =
     (let columns_with_fs = map fst (filter (\<lambda>cv. list_ex (\<lambda>t. t = Text feedstock) (snd cv)) dfdust);
          fscol = (case columns_with_fs of [] \<Rightarrow> ''not found'' | c # rest \<Rightarrow> c);
          dust_dx = (if fscol = ''dustsp1'' then ''1''
                     else if fscol = ''dustsp2'' then ''2''
                     else ''1'') in
      dust_dx)"

text \<open>
  Lines 481-506 and the two columns line 510 reads: the number of rows of \<^verbatim>\<open>dust.txt\<close>,
  the dust rate of the feedstock and the time, all rows of the file.
\<close>

definition dust_columns :: "files \<Rightarrow> string \<Rightarrow> string \<Rightarrow> string \<Rightarrow> error + nat \<times> real list \<times> real list" where
  "dust_columns fs outdir runname feedstock =
     (case preprocess_txt_raw fs outdir runname ''dust.txt'' ''flx'' of
        Inl e \<Rightarrow> Inl e
      | Inr dfdust0 \<Rightarrow>
     (case map_of dfdust0 ''dustsp1'' of
        None \<Rightarrow> Inl (KeyError ''dustsp1'')
      | Some sp1 \<Rightarrow>
     (case map_of dfdust0 ''dustsp2'' of
        None \<Rightarrow> Inl (KeyError ''dustsp2'')
      | Some sp2 \<Rightarrow>
     (let others = filter (\<lambda>cv. fst cv \<notin> set [''dustsp1'', ''dustsp2'']) dfdust0 in
      case df_map_numeric others of
        Inl e \<Rightarrow> Inl e
      | Inr dfnum \<Rightarrow>
     (let dfdust = others @ [(''dustsp1'', sp1), (''dustsp2'', sp2)];
          dust_dx = feedstock_dust_index feedstock dfdust in
      case map_of dfnum (''dust'' @ dust_dx @ ''_g_m2_yr'') of
        None \<Rightarrow> Inl (KeyError (''dust'' @ dust_dx @ ''_g_m2_yr''))
      | Some rate \<Rightarrow>
     (case map_of dfnum ''time'' of
        None \<Rightarrow> Inl (KeyError ''time'')
      | Some t \<Rightarrow> Inr (nrows dfdust0, rate, t)))))))"

text \<open>
  Lines 518-527: the outer merge on \<^verbatim>\<open>time\<close>, the interpolation of the integral, and
  the rows whose time is one of \<open>df\<close>, in ton/ha.
\<close>

definition merge_interpolate :: "real list \<Rightarrow> (real \<times> real) list \<Rightarrow> real option list" where
  "merge_interpolate df_time dfdust_nodup =
     (let df_merged = merge_outer df_time dfdust_nodup;
          interpolated = zip (map fst df_merged) (interpolate (map snd df_merged)) in
      map (\<lambda>r. map_option (\<lambda>v. v / 100) (snd r))
        (filter (\<lambda>r. fst r \<in> set df_time) interpolated))"

text \<open>
  Lines 513-531: the integrated dust on the rows of \<open>df\<close>, in ton/ha. \<open>t\<close> and \<open>int_dust\<close>
  are the time and the integral columns of the \<open>n\<close> rows of the dust table. Rows with a
  repeated time are dropped here, after the integration, and only when the row counts
  differ.
\<close>

definition match_dust :: "nat \<Rightarrow> real list \<Rightarrow> real list \<Rightarrow> frame \<Rightarrow> error + real option list" where
  "match_dust n t int_dust df =
     (if n \<noteq> nrows df then
        (case map_of df ''time'' of
           None \<Rightarrow> Inl (KeyError ''time'')
         | Some df_time \<Rightarrow>
             Inr (merge_interpolate df_time (drop_duplicates_first [] (zip t int_dust))))
      else Inr (map (\<lambda>v. Some (v / 100)) int_dust))"

text \<open>Lines 481-531: the integrated dust application read from \<^verbatim>\<open>dust.txt\<close>.\<close>

definition dust_from_txt :: "files \<Rightarrow> string \<Rightarrow> string \<Rightarrow> string \<Rightarrow> frame \<Rightarrow> error + real option list" where
  "dust_from_txt fs outdir runname feedstock df =
     (case dust_columns fs outdir runname feedstock of
        Inl e \<Rightarrow> Inl e
      | Inr (n, rate, t) \<Rightarrow>
          (case cumulative_trapezoid rate t of
             Inl e \<Rightarrow> Inl e
           | Inr int_dust \<Rightarrow> match_dust n t int_dust df))"

text \<open>\<^verbatim>\<open>dfint[c] = values\<close> for an array: its length must be the frame's.\<close>

definition assign_values :: "string \<Rightarrow> real option list \<Rightarrow> oframe \<Rightarrow> error + oframe" where
  "assign_values c vs df =
     (if length vs \<noteq> nrows df
      then Inl (ValueError ''Length of values does not match length of index'')
      else Inr (assign c vs df))"

text \<open>A column computed from two columns of the same frame, row by row.\<close>

definition col_op :: "(real option \<Rightarrow> real option \<Rightarrow> real option) \<Rightarrow> string \<Rightarrow> string \<Rightarrow> oframe \<Rightarrow> error + real option list" where
  "col_op f a b df =
     (case map_of df a of
        None \<Rightarrow> Inl (KeyError a)
      | Some x \<Rightarrow>
          (case map_of df b of
             None \<Rightarrow> Inl (KeyError b)
           | Some y \<Rightarrow> Inr (map2 f x y)))"

text \<open>Lines 549-565: the derived columns, each assigned before the next is computed.\<close>

definition dissolution_columns :: "string \<Rightarrow> oframe \<Rightarrow> error + oframe" where
  "dissolution_columns feedstock t0 =
     (case col_op osub ''int_dust_ton_ha_yr'' ''adv'' t0 of
        Inl e \<Rightarrow> Inl e
      | Inr dma \<Rightarrow>
     (let t1 = assign ''dust_minus_adv'' dma t0 in
      case map_of t1 feedstock of
        None \<Rightarrow> Inl (KeyError feedstock)
      | Some fsc \<Rightarrow>
     (let t2 = assign ''total_dissolution'' fsc t1 in
      case col_op odiv ''adv'' ''int_dust_ton_ha_yr'' t2 of
        Inl e \<Rightarrow> Inl e
      | Inr fadv \<Rightarrow>
     (let t3 = assign ''fraction_sld_advected'' fadv t2 in
      case col_op osub ''int_dust_ton_ha_yr'' ''adv'' t3 of
        Inl e \<Rightarrow> Inl e
      | Inr d1 \<Rightarrow>
     (case map_of t3 feedstock of
        None \<Rightarrow> Inl (KeyError feedstock)
      | Some fsc3 \<Rightarrow>
     (case map_of t3 ''int_dust_ton_ha_yr'' of
        None \<Rightarrow> Inl (KeyError ''int_dust_ton_ha_yr'')
      | Some dust3 \<Rightarrow>
     (let t4 = assign ''fraction_sld_remaining'' (map2 odiv (map2 osub d1 fsc3) dust3) t3 in
      case col_op odiv ''total_dissolution'' ''dust_minus_adv'' t4 of
        Inl e \<Rightarrow> Inl e
      | Inr frd \<Rightarrow>
     (let t5 = assign ''fraction_remaining_dissolved'' frd t4 in
      case col_op odiv ''total_dissolution'' ''int_dust_ton_ha_yr'' t5 of
        Inl e \<Rightarrow> Inl e
      | Inr ftd \<Rightarrow> Inr (assign ''fraction_total_dissolved'' ftd t5)))))))))"

text \<open>
  Lines 543-568: the advected and the dissolved mass in ton/ha, the four columns kept,
  and the derived columns.
\<close>

definition sld_fractions :: "string \<Rightarrow> (string \<times> real) list \<Rightarrow> oframe \<Rightarrow> error + oframe" where
  "sld_fractions feedstock mm_dict dfint1 =
     (case map_of dfint1 ''adv'' of
        None \<Rightarrow> Inl (KeyError ''adv'')
      | Some adv \<Rightarrow>
     (case map_of mm_dict feedstock of
        None \<Rightarrow> Inl (KeyError feedstock)
      | Some mm \<Rightarrow>
     (let dfint2 = assign ''adv'' (map (map_option (\<lambda>v. v * mm * conv_factor)) adv) dfint1 in
      case map_of dfint2 feedstock of
        None \<Rightarrow> Inl (KeyError feedstock)
      | Some fsc \<Rightarrow>
     (let dfint3 = assign feedstock (map (map_option (\<lambda>v. v * mm * conv_factor)) fsc) dfint2 in
      case loc_cols dfint3 [''time'', ''int_dust_ton_ha_yr'', ''adv'', feedstock] of
        Inl e \<Rightarrow> Inl e
      | Inr tdfint \<Rightarrow> dissolution_columns feedstock tdfint))))"

text \<open>
  Lines 477-541: the integrated frame with its column \<^verbatim>\<open>int_dust_ton_ha_yr\<close>, from
  \<^verbatim>\<open>dust.txt\<close> or from the \<^verbatim>\<open>rain\<close> column.
\<close>

definition add_int_dust :: "files \<Rightarrow> string \<Rightarrow> string \<Rightarrow> string \<Rightarrow> bool \<Rightarrow> (string \<times> real) list \<Rightarrow> frame \<Rightarrow> frame \<Rightarrow> error + oframe" where
  "add_int_dust fs outdir runname feedstock dust_from_file mm_dict df dfint =
     (if dust_from_file then
        (case dust_from_txt fs outdir runname feedstock df of
           Inl e \<Rightarrow> Inl e
         | Inr intdust \<Rightarrow> assign_values ''int_dust_ton_ha_yr'' intdust (finite_frame dfint))
      else
        (case map_of dfint ''rain'' of
           None \<Rightarrow> Inl (KeyError ''rain'')
         | Some rain \<Rightarrow>
             (case map_of mm_dict feedstock of
                None \<Rightarrow> Inl (KeyError feedstock)
              | Some mm \<Rightarrow>
                  Inr (assign ''int_dust_ton_ha_yr''
                         (map (\<lambda>v. Some (- 1 * v * mm * conv_factor)) rain)
                         (finite_frame dfint)))))"

definition sld_flx :: "files \<Rightarrow> string \<Rightarrow> string \<Rightarrow> string \<Rightarrow> string \<Rightarrow> bool \<Rightarrow> (string \<times> real) list \<Rightarrow> error + oframe" where
  "sld_flx fs outdir runname feedstock var_fn dust_from_file mm_dict =
     (case get_data fs outdir runname var_fn feedstock ''flx'' of
        Inl e \<Rightarrow> Inl e
      | Inr (df, dfint0) \<Rightarrow>
     (case mul_by_time [''time''] dfint0 of
        Inl e \<Rightarrow> Inl e
      | Inr dfint \<Rightarrow>
     (case add_int_dust fs outdir runname feedstock dust_from_file mm_dict df dfint of
        Inl e \<Rightarrow> Inl e
      | Inr dfint1 \<Rightarrow> sld_fractions feedstock mm_dict dfint1)))"

section \<open>The orchestrator\<close>

text \<open>
  What \<^verbatim>\<open>to_pickle\<close> wrote: the path of each artifact with the table saved there. The
  directories (\<^verbatim>\<open>os.makedirs\<close>) are not modelled.
\<close>

datatype artifact = PklRows "row list" | PklFrame oframe

type_synonym store = "string \<Rightarrow> artifact option"

text \<open>\<^verbatim>\<open>feedstock\<close> is one name or a list of names.\<close>

datatype feedstock_arg = Single string | Multiple "string list"

text \<open>
  Each of the four blocks of \<^verbatim>\<open>cflx_calc\<close> takes the store and returns it with what
  the block saved, and the exception that ended the block, if one did. \<^verbatim>\<open>cflx_calc\<close>
  has no \<^verbatim>\<open>try\<close>: an exception ends the whole call, and the blocks after it do not run.
\<close>

definition co2_block :: "files \<Rightarrow> string \<Rightarrow> string \<Rightarrow> bool \<Rightarrow> string \<Rightarrow> string list \<Rightarrow> store \<Rightarrow> store \<times> error option" where
  "co2_block fs outdir runname convert_units savehere calc_list st =
     (if ''co2_flx'' \<in> set calc_list then
        (case co2_flx fs outdir runname ''flx_gas'' ''pco2'' [''g1'', ''g2'', ''g3'']
                [''arg'', ''cc'', ''dlm''] convert_units 44.01 of
           Inl e \<Rightarrow> (st, Some e)
         | Inr co2df \<Rightarrow> (st(path_join savehere [''co2_flxs.pkl''] \<mapsto> PklRows co2df), None))
      else (st, None))"

definition carbAlk_block :: "files \<Rightarrow> string \<Rightarrow> string \<Rightarrow> bool \<Rightarrow> string \<Rightarrow> string list \<Rightarrow> store \<Rightarrow> store \<times> error option" where
  "carbAlk_block fs outdir runname convert_units savehere calc_list st =
     (if ''carbAlk_adv'' \<in> set calc_list then
        (case carbAlk_adv fs outdir runname ''flx_co2sp'' ''ALK'' convert_units 88.02 44.01 of
           Inl e \<Rightarrow> (st, Some e)
         | Inr cAlkdf \<Rightarrow> (st(path_join savehere [''carbAlk_flxs.pkl''] \<mapsto> PklRows cAlkdf), None))
      else (st, None))"

text \<open>\<^verbatim>\<open>for name, df in sumCatdict.items(): df.to_pickle(...)\<close>.\<close>

fun save_cations :: "string \<Rightarrow> (string \<times> row list) list \<Rightarrow> store \<Rightarrow> store" where
  "save_cations savehere [] st = st"
| "save_cations savehere (nd # rest) st =
     save_cations savehere rest
       (st(path_join savehere [''cationflx_'' @ fst nd @ ''.pkl''] \<mapsto> PklRows (snd nd)))"

definition sumCat_block :: "files \<Rightarrow> string \<Rightarrow> string \<Rightarrow> string \<Rightarrow> string list \<Rightarrow> store \<Rightarrow> store \<times> error option" where
  "sumCat_block fs outdir runname savehere calc_list st =
     (if ''sumCat_adv'' \<in> set calc_list then
        (case sumCat_adv fs outdir runname ''flx_aq''
                [(''ca'', 2), (''mg'', 2), (''k'', 1), (''na'', 1)] True of
           Inl e \<Rightarrow> (st, Some e)
         | Inr (sumCatdf, sumCatdict) \<Rightarrow>
             (save_cations savehere sumCatdict
                (st(path_join savehere [''cationflx_sum.pkl''] \<mapsto> PklRows sumCatdf)), None))
      else (st, None))"

text \<open>\<^verbatim>\<open>for fs in feedstock\<close>: each feedstock's table is saved before the next is computed.\<close>

fun sld_loop :: "files \<Rightarrow> string \<Rightarrow> string \<Rightarrow> string \<Rightarrow> string list \<Rightarrow> store \<Rightarrow> store \<times> error option" where
  "sld_loop fs outdir runname savehere [] st = (st, None)"
| "sld_loop fs outdir runname savehere (f # rest) st =
     (case sld_flx fs outdir runname f ''flx_sld'' True molar_mass_dict of
        Inl e \<Rightarrow> (st, Some e)
      | Inr rockdf \<Rightarrow>
          sld_loop fs outdir runname savehere rest
            (st(path_join savehere [''rockflx_'' @ f @ ''.pkl''] \<mapsto> PklFrame rockdf)))"

definition sld_block :: "files \<Rightarrow> string \<Rightarrow> string \<Rightarrow> feedstock_arg \<Rightarrow> string \<Rightarrow> string list \<Rightarrow> store \<Rightarrow> store \<times> error option" where
  "sld_block fs outdir runname feedstock savehere calc_list st =
     (if ''sld_flx'' \<in> set calc_list then
        sld_loop fs outdir runname savehere
          (case feedstock of Single f \<Rightarrow> [f] | Multiple fl \<Rightarrow> fl) st
      else (st, None))"

text \<open>
  \<^verbatim>\<open>cflx_calc\<close>. Its parameter \<^verbatim>\<open>dust_from_file\<close> is not read by any line of its body;
  \<^verbatim>\<open>convert_units\<close> goes to \<^verbatim>\<open>co2_flx\<close> and \<^verbatim>\<open>carbAlk_adv\<close> only.
\<close>

definition cflx_calc :: "files \<Rightarrow> store \<Rightarrow> string \<Rightarrow> string \<Rightarrow> feedstock_arg \<Rightarrow> bool \<Rightarrow> bool \<Rightarrow> string \<Rightarrow> string list \<Rightarrow> store \<times> error option" where
  "cflx_calc fs st outdir runname feedstock dust_from_file convert_units save_dir calc_list =
     (let savehere = path_join outdir [runname, save_dir] in
      case co2_block fs outdir runname convert_units savehere calc_list st of
        (st1, Some e) \<Rightarrow> (st1, Some e)
      | (st1, None) \<Rightarrow>
     (case carbAlk_block fs outdir runname convert_units savehere calc_list st1 of
        (st2, Some e) \<Rightarrow> (st2, Some e)
      | (st2, None) \<Rightarrow>
     (case sumCat_block fs outdir runname savehere calc_list st2 of
        (st3, Some e) \<Rightarrow> (st3, Some e)
      | (st3, None) \<Rightarrow> sld_block fs outdir runname feedstock savehere calc_list st3)))"

section \<open>Reading tables\<close>

text \<open>What the properties below say about tables is stated with these functions.\<close>

definition has_cols :: "(string \<times> 'a) list \<Rightarrow> string list \<Rightarrow> bool" where
  "has_cols df cs = list_all (\<lambda>c. c \<in> set (columns df)) cs"

text \<open>The value of column \<open>c\<close> in row \<open>i\<close> of a numeric frame (0 where there is none).\<close>

definition val :: "frame \<Rightarrow> string \<Rightarrow> nat \<Rightarrow> real" where
  "val df c i =
     (case map_of df c of Some vs \<Rightarrow> (if i < length vs then vs ! i else 0) | None \<Rightarrow> 0)"

text \<open>The cell of column \<open>c\<close> in row \<open>i\<close>: \<open>None\<close> when it is missing or not finite.\<close>

definition value_at :: "oframe \<Rightarrow> string \<Rightarrow> nat \<Rightarrow> real option" where
  "value_at df c i =
     (case map_of df c of Some vs \<Rightarrow> (if i < length vs then vs ! i else None) | None \<Rightarrow> None)"

text \<open>A column of a concatenated table, row by row.\<close>

definition column_of :: "string \<Rightarrow> row list \<Rightarrow> cell option list" where
  "column_of c rows = map (\<lambda>r. map_of r c) rows"

text \<open>
  A flux table with all organic and carbonate source columns, in which every row
  satisfies \<open>adv = - dif - (g1 + g2 + g3) - (arg + cc + dlm) - tflx\<close>.
\<close>

definition mass_balanced :: "frame \<Rightarrow> bool" where
  "mass_balanced df =
     (has_cols df [''time'', ''dif'', ''tflx'', ''adv'', ''g1'', ''g2'', ''g3'', ''arg'', ''cc'', ''dlm''] \<and>
      rect df \<and>
      list_all (\<lambda>i. val df ''adv'' i =
                  - val df ''dif'' i - (val df ''g1'' i + val df ''g2'' i + val df ''g3'' i)
                  - (val df ''arg'' i + val df ''cc'' i + val df ''dlm'' i) - val df ''tflx'' i)
        [0..<nrows df])"

text \<open>
  A row of the CO2 table with
  \<open>co2flx_adv = - co2flx_dif - co2flx_resp - co2flx_inorg - co2flx_tflx\<close>.
\<close>

definition row_balanced :: "row \<Rightarrow> bool" where
  "row_balanced r =
     (case (map_of r ''co2flx_adv'', map_of r ''co2flx_dif'', map_of r ''co2flx_resp'',
            map_of r ''co2flx_inorg'', map_of r ''co2flx_tflx'') of
        (Some (Val a), Some (Val d), Some (Val rs), Some (Val io), Some (Val t)) \<Rightarrow>
          a = - d - rs - io - t
      | _ \<Rightarrow> False)"

text \<open>
  \<open>p\<close> is the path of the first file that \<^verbatim>\<open>get_data\<close> does not find for a variable:
  its flux file, or the \<^verbatim>\<open>int_\<close> counterpart when the flux file is there and numeric.
\<close>

definition missing_input :: "files \<Rightarrow> string \<Rightarrow> string \<Rightarrow> string \<Rightarrow> string \<Rightarrow> string \<Rightarrow> bool" where
  "missing_input fs outdir runname var_fn cdvar p =
     (let fn = var_fn @ ''-'' @ cdvar @ ''.txt'';
          file_path = path_join outdir [runname, ''flx'', fn];
          int_path = path_join outdir [runname, ''flx'', ''int_'' @ fn] in
      (fs file_path = None \<and> p = file_path) \<or>
      (\<not> isl (preprocess_txt fs outdir runname fn ''flx'') \<and> fs int_path = None \<and> p = int_path))"

section \<open>Example runs\<close>

text \<open>
  The run \<^verbatim>\<open>o/r\<close> with the synthetic \<^verbatim>\<open>flx_gas-pco2.txt\<close> of the end-to-end example and
  an \<^verbatim>\<open>int_\<close> file with the same columns, and no other file.
\<close>

definition example_gas :: raw_frame where
  "example_gas =
     [(''time'', [Numeric 1, Numeric 2, Numeric 3]),
      (''dif'', [Numeric (- 1), Numeric (- 1), Numeric (- 1)]),
      (''tflx'', [Numeric 0.5, Numeric 0.4, Numeric 0.3]),
      (''adv'', [Numeric 0.4, Numeric 0.5, Numeric 0.6]),
      (''cc'', [Numeric 0.1, Numeric 0.1, Numeric 0.1])]"

definition example_gas_files :: files where
  "example_gas_files =
     [''o/r/flx/flx_gas-pco2.txt'' \<mapsto> example_gas,
      ''o/r/flx/int_flx_gas-pco2.txt'' \<mapsto> example_gas]"

text \<open>A gas flux table with all six source columns whose two rows are in balance.\<close>

definition example_balanced :: frame where
  "example_balanced =
     [(''time'', [1, 2]), (''dif'', [- 1, - 2]), (''tflx'', [0.2, 0.4]),
      (''g1'', [0.1, 0.2]), (''g2'', [0.1, 0.2]), (''g3'', [0.1, 0.2]),
      (''arg'', [0.05, 0.1]), (''cc'', [0.1, 0.2]), (''dlm'', [0.05, 0.1]),
      (''adv'', [0.3, 0.6])]"

definition example_balanced_files :: files where
  "example_balanced_files =
     [''o/r/flx/flx_gas-pco2.txt'' \<mapsto> map (\<lambda>cv. (fst cv, map Numeric (snd cv))) example_balanced,
      ''o/r/flx/int_flx_gas-pco2.txt'' \<mapsto> map (\<lambda>cv. (fst cv, map Numeric (snd cv))) example_balanced]"

text \<open>
  The two tables of a cation whose carbonate column \<^verbatim>\<open>cc\<close> is negligible at every
  instantaneous time point and not negligible in the integrated file.
\<close>

definition example_cation :: frame where
  "example_cation =
     [(''time'', [1, 2]), (''tflx'', [0.1, 0.1]), (''adv'', [0.2, 0.2]), (''res'', [0, 0]),
      (''cc'', [0, 0]), (''ka'', [0.3, 0.3])]"

definition example_cation_int :: frame where
  "example_cation_int =
     [(''time'', [1, 2]), (''tflx'', [0.1, 0.1]), (''adv'', [0.2, 0.2]), (''res'', [0, 0]),
      (''cc'', [0.5, 0.5]), (''ka'', [0.3, 0.3])]"

text \<open>The second and the third component of what \<^verbatim>\<open>build_cation_df\<close> returns.\<close>

definition instantaneous_table :: "error + row list \<times> frame \<times> frame \<Rightarrow> frame" where
  "instantaneous_table res = (case res of Inl e \<Rightarrow> [] | Inr (rows, df, dfint) \<Rightarrow> df)"

definition integrated_table :: "error + row list \<times> frame \<times> frame \<Rightarrow> frame" where
  "integrated_table res = (case res of Inl e \<Rightarrow> [] | Inr (rows, df, dfint) \<Rightarrow> dfint)"

text \<open>
  The run \<^verbatim>\<open>o/r\<close> with the two carbonate alkalinity files and no other file.
\<close>

definition example_alk :: raw_frame where
  "example_alk =
     [(''time'', [Numeric 1, Numeric 2]),
      (''tflx'', [Numeric 0.1, Numeric 0.2]),
      (''adv'', [Numeric 0.3, Numeric 0.4])]"

definition example_alk_files :: files where
  "example_alk_files =
     [''o/r/flx/flx_co2sp-ALK.txt'' \<mapsto> example_alk,
      ''o/r/flx/int_flx_co2sp-ALK.txt'' \<mapsto> example_alk]"

text \<open>Nothing saved yet.\<close>

definition empty_store :: store where
  "empty_store = (\<lambda>p. None)"

text \<open>
  A run made of two one-year runs: \<^verbatim>\<open>dust.txt\<close> has the time 1 twice, the end of the
  first year (100 g/m2/yr of calcite) and the start of the second (50 g/m2/yr). The
  flux files of \<^verbatim>\<open>cc\<close> have three rows, those of \<^verbatim>\<open>amnt\<close>, which \<^verbatim>\<open>dust.txt\<close> does not
  name, have four.
\<close>

definition example_dust :: raw_frame where
  "example_dust =
     [(''time'', [Numeric 0, Numeric 1, Numeric 1, Numeric 2]),
      (''dust1_g_m2_yr'', [Numeric 100, Numeric 100, Numeric 50, Numeric 50]),
      (''dust2_g_m2_yr'', [Numeric 0, Numeric 0, Numeric 0, Numeric 0]),
      (''dustsp1'', [Text ''cc'', Text ''cc'', Text ''cc'', Text ''cc'']),
      (''dustsp2'', [Text ''gbas'', Text ''gbas'', Text ''gbas'', Text ''gbas''])]"

definition example_sld_cc :: raw_frame where
  "example_sld_cc =
     [(''time'', [Numeric 0, Numeric 1, Numeric 2]),
      (''cc'', [Numeric 0, Numeric 0.004, Numeric 0.003]),
      (''adv'', [Numeric 0, Numeric 0.001, Numeric 0.001]),
      (''rain'', [Numeric 0, Numeric (- 0.01), Numeric (- 0.01)])]"

definition example_sld_amnt :: raw_frame where
  "example_sld_amnt =
     [(''time'', [Numeric 0, Numeric 1, Numeric 1, Numeric 2]),
      (''amnt'', [Numeric 0, Numeric 0.004, Numeric 0.004, Numeric 0.003]),
      (''adv'', [Numeric 0, Numeric 0.001, Numeric 0.001, Numeric 0.001]),
      (''rain'', [Numeric 0, Numeric (- 0.01), Numeric (- 0.01), Numeric (- 0.01)])]"

definition example_sld_files :: files where
  "example_sld_files =
     [''o/r/flx/flx_sld-cc.txt'' \<mapsto> example_sld_cc,
      ''o/r/flx/int_flx_sld-cc.txt'' \<mapsto> example_sld_cc,
      ''o/r/flx/flx_sld-amnt.txt'' \<mapsto> example_sld_amnt,
      ''o/r/flx/int_flx_sld-amnt.txt'' \<mapsto> example_sld_amnt,
      ''o/r/flx/dust.txt'' \<mapsto> example_dust]"

text \<open>A column of a saved feedstock table, and of the table \<^verbatim>\<open>sld_flx\<close> returns.\<close>

definition saved_column :: "store \<Rightarrow> string \<Rightarrow> string \<Rightarrow> real option list option" where
  "saved_column st p c = (case st p of Some (PklFrame t) \<Rightarrow> map_of t c | _ \<Rightarrow> None)"

definition result_column :: "string \<Rightarrow> error + oframe \<Rightarrow> real option list option" where
  "result_column c res = (case res of Inl e \<Rightarrow> None | Inr out \<Rightarrow> map_of out c)"

text \<open>
  The flux tables of a feedstock as the simulator writes them: rectangular, of the same
  number of rows, with the columns \<^verbatim>\<open>sld_flx\<close> reads.
\<close>

definition flux_tables_ok :: "frame \<Rightarrow> frame \<Rightarrow> string \<Rightarrow> bool" where
  "flux_tables_ok df dfint feedstock =
     (rect df \<and> rect dfint \<and> nrows dfint = nrows df \<and> has_cols df [''time''] \<and>
      has_cols dfint [''time'', ''adv'', feedstock])"

text \<open>
  What claim C3 describes, written from its words and not from the source: of the rows
  of \<^verbatim>\<open>dust.txt\<close> with the same time only the first is kept, and the dust rate of
  the rows kept is integrated.
\<close>

definition keep_first_then_integrate :: "real list \<Rightarrow> real list \<Rightarrow> error + real list" where
  "keep_first_then_integrate rate t =
     (let kept = drop_duplicates_first [] (zip t rate) in
      cumulative_trapezoid (map snd kept) (map fst kept))"

text \<open>
  The run \<^verbatim>\<open>o/r\<close> with the flux file of calcium and without its \<^verbatim>\<open>int_\<close> counterpart.
\<close>

definition example_aq_files :: files where
  "example_aq_files =
     [''o/r/flx/flx_aq-ca.txt'' \<mapsto> map (\<lambda>cv. (fst cv, map Numeric (snd cv))) example_cation]"

text \<open>The run \<^verbatim>\<open>o/r\<close> with the flux files of \<^verbatim>\<open>cc\<close> and no \<^verbatim>\<open>dust.txt\<close>.\<close>

definition example_nodust_files :: files where
  "example_nodust_files =
     [''o/r/flx/flx_sld-cc.txt'' \<mapsto> example_sld_cc,
      ''o/r/flx/int_flx_sld-cc.txt'' \<mapsto> example_sld_cc]"

section \<open>Facts about frames\<close>

lemmas frame_defs = columns_def nrows_def rename_cols_def apply_cols_def present_def
  row_at_def rows_of_def pd_concat_def finite_frame_def Let_def

lemmas read_defs = join_step_def path_join_def preprocess_txt_raw_def preprocess_txt_def get_data_def

lemmas unit_defs = conv_factor_def ton_g_def m2_ha_def

lemmas co2_defs = add_source_sum_def add_adv_noinorg_def co2_components_def scale_col_def
  times_col_def mul_by_time_def co2_flx_def

lemma upt_2: "[0..<2] = [0, 1]"
  by (simp add: upt_rec)

lemma upt_3: "[0..<3] = [0, 1, 2]"
  by (simp add: upt_rec)

lemma map_of_assign: "map_of (assign c v df) k = (if k = c then Some v else map_of df k)"
  by (induction df) auto

lemma map_of_apply_cols: "map_of (apply_cols g df) k = map_option (g k) (map_of df k)"
  by (induction df) (auto simp: apply_cols_def)

lemma map_of_finite_frame: "map_of (finite_frame df) k = map_option (map Some) (map_of df k)"
  by (induction df) (auto simp: finite_frame_def)

lemma in_columns_iff: "c \<in> set (columns df) \<longleftrightarrow> map_of df c \<noteq> None"
  by (induction df) (auto simp: columns_def)

lemma rect_length: "rect df \<Longrightarrow> map_of df c = Some vs \<Longrightarrow> length vs = nrows df"
  by (auto simp: rect_def list_all_iff dest!: map_of_SomeD)

lemma has_cols_Cons: "has_cols df (c # cs) \<longleftrightarrow> (\<exists>v. map_of df c = Some v) \<and> has_cols df cs"
  by (auto simp: has_cols_def in_columns_iff)

lemma length_row_sum: "list_all (\<lambda>c. length c = n) cs \<Longrightarrow> length (row_sum n cs) = n"
  by (induction cs) auto

lemma nth_row_sum:
  "list_all (\<lambda>c. length c = n) cs \<Longrightarrow> i < n \<Longrightarrow> row_sum n cs ! i = sum_list (map (\<lambda>c. c ! i) cs)"
  by (induction cs) (auto simp: length_row_sum)

lemma val_eq: "map_of df c = Some vs \<Longrightarrow> i < length vs \<Longrightarrow> val df c i = vs ! i"
  by (simp add: val_def)

section \<open>The mass balance of the CO2 table\<close>

text \<open>
  With all source columns there, \<^verbatim>\<open>co2_flx\<close> builds these thirteen columns for a
  table before it converts the units.
\<close>

lemma co2_components_balanced:
  assumes "mass_balanced df"
  shows "\<exists>t dif tflx adv g1 g2 g3 arg cc dlm.
     map_of df ''time'' = Some t \<and> map_of df ''dif'' = Some dif \<and> map_of df ''tflx'' = Some tflx \<and>
     map_of df ''adv'' = Some adv \<and> map_of df ''g1'' = Some g1 \<and> map_of df ''g2'' = Some g2 \<and>
     map_of df ''g3'' = Some g3 \<and> map_of df ''arg'' = Some arg \<and> map_of df ''cc'' = Some cc \<and>
     map_of df ''dlm'' = Some dlm \<and>
     co2_components [''g1'', ''g2'', ''g3''] [''arg'', ''cc'', ''dlm''] df =
       Inr [(''time'', t), (''co2flx_dif'', dif), (''co2flx_tflx'', tflx), (''co2flx_adv'', adv),
            (''g1'', g1), (''g2'', g2), (''g3'', g3),
            (''co2flx_resp'', row_sum (nrows df) [g1, g2, g3]),
            (''arg'', arg), (''cc'', cc), (''dlm'', dlm),
            (''co2flx_inorg'', row_sum (nrows df) [arg, cc, dlm]),
            (''co2flx_adv_noinorg'', map2 (+) adv (row_sum (nrows df) [arg, cc, dlm]))]"
proof -
  from assms obtain t dif tflx adv g1 g2 g3 arg cc dlm where c:
    "map_of df ''time'' = Some t" "map_of df ''dif'' = Some dif" "map_of df ''tflx'' = Some tflx"
    "map_of df ''adv'' = Some adv" "map_of df ''g1'' = Some g1" "map_of df ''g2'' = Some g2"
    "map_of df ''g3'' = Some g3" "map_of df ''arg'' = Some arg" "map_of df ''cc'' = Some cc"
    "map_of df ''dlm'' = Some dlm"
    unfolding mass_balanced_def has_cols_Cons by blast
  have p1: "present [''g1'', ''g2'', ''g3''] df = [''g1'', ''g2'', ''g3'']"
    by (simp add: present_def in_columns_iff c)
  have p2: "present [''arg'', ''cc'', ''dlm''] df = [''arg'', ''cc'', ''dlm'']"
    by (simp add: present_def in_columns_iff c)
  show ?thesis
    using c by (simp add: co2_components_def p1 p2 rename_cols_def add_source_sum_def add_adv_noinorg_def)
qed

lemma row_balanced_row_at:
  assumes "map_of f ''co2flx_adv'' = Some a" "map_of f ''co2flx_dif'' = Some d"
    "map_of f ''co2flx_resp'' = Some rs" "map_of f ''co2flx_inorg'' = Some io"
    "map_of f ''co2flx_tflx'' = Some t"
    "i < length a" "i < length d" "i < length rs" "i < length io" "i < length t"
    "a ! i = - (d ! i) - rs ! i - io ! i - t ! i"
  shows "row_balanced (row_at \<lparr>numeric = finite_frame f, labels = ls\<rparr> i)"
proof -
  have m: "map_of (map (\<lambda>cv. (fst cv, cell_of (snd cv ! i))) g) c =
           map_option (\<lambda>vs. cell_of (vs ! i)) (map_of g c)" for g :: oframe and c
    by (induction g) auto
  show ?thesis
    using assms by (simp add: row_balanced_def row_at_def m map_of_finite_frame)
qed

lemma balanced_scaled:
  fixes a d rs io t k :: real
  assumes "a = - d - rs - io - t"
  shows "a * k = - (d * k) - rs * k - io * k - t * k"
    and "a * k * x = - (d * k * x) - rs * k * x - io * k * x - t * k * x"
  unfolding assms by (simp_all add: algebra_simps)

text \<open>
  C2. When the instantaneous and the integrated \<^verbatim>\<open>flx_gas\<close> table both have the three
  organic and the three carbonate source columns and each of their rows satisfies
  \<open>adv = - dif - (g1 + g2 + g3) - (arg + cc + dlm) - tflx\<close>, then \<^verbatim>\<open>co2_flx\<close> returns a
  table, one row for each input row, and each of its rows satisfies
  \<open>co2flx_adv = - co2flx_dif - co2flx_resp - co2flx_inorg - co2flx_tflx\<close>, whichever
  unit is asked for and whatever the molar mass.
\<close>

theorem co2_flx_mass_balance:
  assumes gd: "get_data fs outdir runname var_fn cdvar ''flx'' = Inr (df, dfint)"
    and b1: "mass_balanced df" and b2: "mass_balanced dfint"
  shows "\<exists>rows. co2_flx fs outdir runname var_fn cdvar [''g1'', ''g2'', ''g3'']
                  [''arg'', ''cc'', ''dlm''] convert_units co2_g_mol = Inr rows \<and>
                length rows = nrows df + nrows dfint \<and>
                list_all row_balanced rows"
proof -
  define k where "k = (if convert_units then co2_g_mol * conv_factor else co2_g_mol)"
  from co2_components_balanced[OF b1] obtain t dif tflx adv g1 g2 g3 arg cc dlm where c:
    "map_of df ''time'' = Some t" "map_of df ''dif'' = Some dif" "map_of df ''tflx'' = Some tflx"
    "map_of df ''adv'' = Some adv" "map_of df ''g1'' = Some g1" "map_of df ''g2'' = Some g2"
    "map_of df ''g3'' = Some g3" "map_of df ''arg'' = Some arg" "map_of df ''cc'' = Some cc"
    "map_of df ''dlm'' = Some dlm"
    and comp: "co2_components [''g1'', ''g2'', ''g3''] [''arg'', ''cc'', ''dlm''] df =
       Inr [(''time'', t), (''co2flx_dif'', dif), (''co2flx_tflx'', tflx), (''co2flx_adv'', adv),
            (''g1'', g1), (''g2'', g2), (''g3'', g3),
            (''co2flx_resp'', row_sum (nrows df) [g1, g2, g3]),
            (''arg'', arg), (''cc'', cc), (''dlm'', dlm),
            (''co2flx_inorg'', row_sum (nrows df) [arg, cc, dlm]),
            (''co2flx_adv_noinorg'', map2 (+) adv (row_sum (nrows df) [arg, cc, dlm]))]"
    by blast
  from co2_components_balanced[OF b2] obtain t' dif' tflx' adv' g1' g2' g3' arg' cc' dlm' where c':
    "map_of dfint ''time'' = Some t'" "map_of dfint ''dif'' = Some dif'" "map_of dfint ''tflx'' = Some tflx'"
    "map_of dfint ''adv'' = Some adv'" "map_of dfint ''g1'' = Some g1'" "map_of dfint ''g2'' = Some g2'"
    "map_of dfint ''g3'' = Some g3'" "map_of dfint ''arg'' = Some arg'" "map_of dfint ''cc'' = Some cc'"
    "map_of dfint ''dlm'' = Some dlm'"
    and comp': "co2_components [''g1'', ''g2'', ''g3''] [''arg'', ''cc'', ''dlm''] dfint =
       Inr [(''time'', t'), (''co2flx_dif'', dif'), (''co2flx_tflx'', tflx'), (''co2flx_adv'', adv'),
            (''g1'', g1'), (''g2'', g2'), (''g3'', g3'),
            (''co2flx_resp'', row_sum (nrows dfint) [g1', g2', g3']),
            (''arg'', arg'), (''cc'', cc'), (''dlm'', dlm'),
            (''co2flx_inorg'', row_sum (nrows dfint) [arg', cc', dlm']),
            (''co2flx_adv_noinorg'', map2 (+) adv' (row_sum (nrows dfint) [arg', cc', dlm']))]"
    by blast
  define n where "n = nrows df"
  define n' where "n' = nrows dfint"
  have r: "rect df" and r': "rect dfint" using b1 b2 by (simp_all add: mass_balanced_def)
  have len: "length t = n" "length dif = n" "length tflx = n" "length adv = n" "length g1 = n"
    "length g2 = n" "length g3 = n" "length arg = n" "length cc = n" "length dlm = n"
    using c rect_length[OF r] by (simp_all add: n_def)
  have len': "length t' = n'" "length dif' = n'" "length tflx' = n'" "length adv' = n'" "length g1' = n'"
    "length g2' = n'" "length g3' = n'" "length arg' = n'" "length cc' = n'" "length dlm' = n'"
    using c' rect_length[OF r'] by (simp_all add: n'_def)
  have bal: "adv ! i = - (dif ! i) - row_sum n [g1, g2, g3] ! i - row_sum n [arg, cc, dlm] ! i - tflx ! i"
    if "i < n" for i
  proof -
    have "val df ''adv'' i = - val df ''dif'' i - (val df ''g1'' i + val df ''g2'' i + val df ''g3'' i)
                  - (val df ''arg'' i + val df ''cc'' i + val df ''dlm'' i) - val df ''tflx'' i"
      using b1 that by (simp add: mass_balanced_def list_all_iff n_def)
    then show ?thesis
      using that c len by (simp add: val_eq nth_row_sum)
  qed
  have bal': "adv' ! i = - (dif' ! i) - row_sum n' [g1', g2', g3'] ! i - row_sum n' [arg', cc', dlm'] ! i - tflx' ! i"
    if "i < n'" for i
  proof -
    have "val dfint ''adv'' i = - val dfint ''dif'' i - (val dfint ''g1'' i + val dfint ''g2'' i + val dfint ''g3'' i)
                  - (val dfint ''arg'' i + val dfint ''cc'' i + val dfint ''dlm'' i) - val dfint ''tflx'' i"
      using b2 that by (simp add: mass_balanced_def list_all_iff n'_def)
    then show ?thesis
      using that c' len' by (simp add: val_eq nth_row_sum)
  qed
  define tdf where "tdf = apply_cols (scale_col k)
     [(''time'', t), (''co2flx_dif'', dif), (''co2flx_tflx'', tflx), (''co2flx_adv'', adv),
            (''g1'', g1), (''g2'', g2), (''g3'', g3),
            (''co2flx_resp'', row_sum n [g1, g2, g3]),
            (''arg'', arg), (''cc'', cc), (''dlm'', dlm),
            (''co2flx_inorg'', row_sum n [arg, cc, dlm]),
            (''co2flx_adv_noinorg'', map2 (+) adv (row_sum n [arg, cc, dlm]))]"
  define tdfint where "tdfint = apply_cols (times_col [''time'', ''units''] t') (apply_cols (scale_col k)
     [(''time'', t'), (''co2flx_dif'', dif'), (''co2flx_tflx'', tflx'), (''co2flx_adv'', adv'),
            (''g1'', g1'), (''g2'', g2'), (''g3'', g3'),
            (''co2flx_resp'', row_sum n' [g1', g2', g3']),
            (''arg'', arg'), (''cc'', cc'), (''dlm'', dlm'),
            (''co2flx_inorg'', row_sum n' [arg', cc', dlm']),
            (''co2flx_adv_noinorg'', map2 (+) adv' (row_sum n' [arg', cc', dlm']))])"
  define ls where "ls = [(''units'', if convert_units then ''ton ha-1 yr-1'' else ''g m-2 yr-1''),
     (''flx_type'', ''flx''), (''runname'', runname), (''var'', cdvar)]"
  define ls' where "ls' = [(''units'', if convert_units then ''ton ha-1'' else ''g m-2''),
     (''flx_type'', ''int_flx''), (''runname'', runname), (''var'', cdvar)]"
  have res: "co2_flx fs outdir runname var_fn cdvar [''g1'', ''g2'', ''g3'']
                  [''arg'', ''cc'', ''dlm''] convert_units co2_g_mol =
     Inr (pd_concat \<lparr>numeric = finite_frame tdf, labels = ls\<rparr>
                    \<lparr>numeric = finite_frame tdfint, labels = ls'\<rparr>)"
    by (simp add: co2_flx_def gd comp comp' Let_def mul_by_time_def apply_cols_def scale_col_def
        tdf_def tdfint_def k_def ls_def ls'_def n_def n'_def)
  have nr: "nrows (finite_frame tdf) = n" "nrows (finite_frame tdfint) = n'"
    by (simp_all add: nrows_def finite_frame_def tdf_def tdfint_def apply_cols_def scale_col_def
        times_col_def len len')
  have rows1: "row_balanced (row_at \<lparr>numeric = finite_frame tdf, labels = ls\<rparr> i)" if "i < n" for i
    using that bal[OF that] len
    by (intro row_balanced_row_at[where a = "map (\<lambda>v. v * k) adv" and d = "map (\<lambda>v. v * k) dif"
          and rs = "map (\<lambda>v. v * k) (row_sum n [g1, g2, g3])"
          and io = "map (\<lambda>v. v * k) (row_sum n [arg, cc, dlm])" and t = "map (\<lambda>v. v * k) tflx"])
       (simp_all add: tdf_def apply_cols_def scale_col_def balanced_scaled(1))
  have rows2: "row_balanced (row_at \<lparr>numeric = finite_frame tdfint, labels = ls'\<rparr> i)" if "i < n'" for i
    using that bal'[OF that] len'
    by (intro row_balanced_row_at[where a = "map2 (*) (map (\<lambda>v. v * k) adv') t'"
          and d = "map2 (*) (map (\<lambda>v. v * k) dif') t'"
          and rs = "map2 (*) (map (\<lambda>v. v * k) (row_sum n' [g1', g2', g3'])) t'"
          and io = "map2 (*) (map (\<lambda>v. v * k) (row_sum n' [arg', cc', dlm'])) t'"
          and t = "map2 (*) (map (\<lambda>v. v * k) tflx') t'"])
       (simp_all add: tdfint_def apply_cols_def scale_col_def times_col_def balanced_scaled(2))
  show ?thesis
    unfolding res
    by (auto simp: pd_concat_def rows_of_def nr list_all_iff n_def[symmetric] n'_def[symmetric]
        intro: rows1 rows2)
qed

lemma example_balanced_get_data:
  "get_data example_balanced_files ''o'' ''r'' ''flx_gas'' ''pco2'' ''flx'' =
     Inr (example_balanced, example_balanced)"
  by (simp add: read_defs example_balanced_files_def example_balanced_def)

lemma example_balanced_ok: "mass_balanced example_balanced"
  by (simp add: mass_balanced_def has_cols_def columns_def rect_def nrows_def val_def
      example_balanced_def upt_2)

theorem co2_flx_mass_balance_witness:
  "get_data example_balanced_files ''o'' ''r'' ''flx_gas'' ''pco2'' ''flx'' =
     Inr (example_balanced, example_balanced) \<and>
   mass_balanced example_balanced \<and>
   (\<exists>rows. co2_flx example_balanced_files ''o'' ''r'' ''flx_gas'' ''pco2'' [''g1'', ''g2'', ''g3'']
              [''arg'', ''cc'', ''dlm''] True 44.01 = Inr rows \<and>
            length rows = 4 \<and> list_all row_balanced rows)"
proof -
  have n: "nrows example_balanced + nrows example_balanced = 4"
    by (simp add: nrows_def example_balanced_def)
  show ?thesis
    using co2_flx_mass_balance [OF example_balanced_get_data example_balanced_ok
        example_balanced_ok, of True "44.01"]
    unfolding n
    by (simp only: example_balanced_get_data example_balanced_ok simp_thms)
qed

section \<open>The end-to-end example\<close>

lemmas example_gas_eval = read_defs example_gas_files_def example_gas_def co2_defs frame_defs
  unit_defs upt_3 column_of_def

text \<open>
  C5, as the code has it. On the synthetic input \<^verbatim>\<open>co2_flx\<close> (with its default
  \<^verbatim>\<open>convert_units=True\<close>) returns \<open>co2flx_adv_noinorg = co2flx_adv + co2flx_inorg\<close>
  row by row, in ton/ha/yr: the sums 0.5, 0.6, 0.7 of the input are scaled by
  \<open>44.01 * 0.01\<close> like every other column, and in the integrated rows by the time as
  well. The integrated rows of \<open>dif\<close>, \<open>tflx\<close>, \<open>adv\<close> and \<open>cc\<close> are the input values times
  \<open>44.01 * 0.01\<close> times the time.
\<close>

theorem co2_flx_example:
  "map_sum id (column_of ''co2flx_adv_noinorg'')
     (co2_flx example_gas_files ''o'' ''r'' ''flx_gas'' ''pco2'' [''g1'', ''g2'', ''g3'']
        [''arg'', ''cc'', ''dlm''] True 44.01) =
     Inr [Some (Val (0.5 * 44.01 * 0.01)), Some (Val (0.6 * 44.01 * 0.01)),
          Some (Val (0.7 * 44.01 * 0.01)),
          Some (Val (0.5 * 44.01 * 0.01 * 1)), Some (Val (0.6 * 44.01 * 0.01 * 2)),
          Some (Val (0.7 * 44.01 * 0.01 * 3))] \<and>
   map_sum id (column_of ''co2flx_adv'')
     (co2_flx example_gas_files ''o'' ''r'' ''flx_gas'' ''pco2'' [''g1'', ''g2'', ''g3'']
        [''arg'', ''cc'', ''dlm''] True 44.01) =
     Inr [Some (Val (0.4 * 44.01 * 0.01)), Some (Val (0.5 * 44.01 * 0.01)),
          Some (Val (0.6 * 44.01 * 0.01)),
          Some (Val (0.4 * 44.01 * 0.01 * 1)), Some (Val (0.5 * 44.01 * 0.01 * 2)),
          Some (Val (0.6 * 44.01 * 0.01 * 3))] \<and>
   map_sum id (column_of ''co2flx_inorg'')
     (co2_flx example_gas_files ''o'' ''r'' ''flx_gas'' ''pco2'' [''g1'', ''g2'', ''g3'']
        [''arg'', ''cc'', ''dlm''] True 44.01) =
     Inr [Some (Val (0.1 * 44.01 * 0.01)), Some (Val (0.1 * 44.01 * 0.01)),
          Some (Val (0.1 * 44.01 * 0.01)),
          Some (Val (0.1 * 44.01 * 0.01 * 1)), Some (Val (0.1 * 44.01 * 0.01 * 2)),
          Some (Val (0.1 * 44.01 * 0.01 * 3))] \<and>
   map_sum id (column_of ''co2flx_dif'')
     (co2_flx example_gas_files ''o'' ''r'' ''flx_gas'' ''pco2'' [''g1'', ''g2'', ''g3'']
        [''arg'', ''cc'', ''dlm''] True 44.01) =
     Inr [Some (Val (- 1 * 44.01 * 0.01)), Some (Val (- 1 * 44.01 * 0.01)),
          Some (Val (- 1 * 44.01 * 0.01)),
          Some (Val (- 1 * 44.01 * 0.01 * 1)), Some (Val (- 1 * 44.01 * 0.01 * 2)),
          Some (Val (- 1 * 44.01 * 0.01 * 3))] \<and>
   map_sum id (column_of ''co2flx_tflx'')
     (co2_flx example_gas_files ''o'' ''r'' ''flx_gas'' ''pco2'' [''g1'', ''g2'', ''g3'']
        [''arg'', ''cc'', ''dlm''] True 44.01) =
     Inr [Some (Val (0.5 * 44.01 * 0.01)), Some (Val (0.4 * 44.01 * 0.01)),
          Some (Val (0.3 * 44.01 * 0.01)),
          Some (Val (0.5 * 44.01 * 0.01 * 1)), Some (Val (0.4 * 44.01 * 0.01 * 2)),
          Some (Val (0.3 * 44.01 * 0.01 * 3))] \<and>
   map_sum id (column_of ''time'')
     (co2_flx example_gas_files ''o'' ''r'' ''flx_gas'' ''pco2'' [''g1'', ''g2'', ''g3'']
        [''arg'', ''cc'', ''dlm''] True 44.01) =
     Inr [Some (Val 1), Some (Val 2), Some (Val 3), Some (Val 1), Some (Val 2), Some (Val 3)] \<and>
   map_sum id (column_of ''flx_type'')
     (co2_flx example_gas_files ''o'' ''r'' ''flx_gas'' ''pco2'' [''g1'', ''g2'', ''g3'']
        [''arg'', ''cc'', ''dlm''] True 44.01) =
     Inr [Some (Str ''flx''), Some (Str ''flx''), Some (Str ''flx''),
          Some (Str ''int_flx''), Some (Str ''int_flx''), Some (Str ''int_flx'')]"
  by (simp add: example_gas_eval)

text \<open>
  C5, as the claim states it, fails: the first three rows of \<open>co2flx_adv_noinorg\<close> are
  not 0.5, 0.6, 0.7, with either value of \<^verbatim>\<open>convert_units\<close>.
\<close>

theorem co2_flx_example_unscaled_counterexample:
  "map_sum id (take 3 \<circ> column_of ''co2flx_adv_noinorg'')
     (co2_flx example_gas_files ''o'' ''r'' ''flx_gas'' ''pco2'' [''g1'', ''g2'', ''g3'']
        [''arg'', ''cc'', ''dlm''] True 44.01) \<noteq>
     Inr [Some (Val 0.5), Some (Val 0.6), Some (Val 0.7)] \<and>
   map_sum id (take 3 \<circ> column_of ''co2flx_adv_noinorg'')
     (co2_flx example_gas_files ''o'' ''r'' ''flx_gas'' ''pco2'' [''g1'', ''g2'', ''g3'']
        [''arg'', ''cc'', ''dlm''] False 44.01) \<noteq>
     Inr [Some (Val 0.5), Some (Val 0.6), Some (Val 0.7)]"
  by (simp add: example_gas_eval)

theorem co2_flx_example_witness:
  "map_sum id (column_of ''co2flx_adv_noinorg'')
     (co2_flx example_gas_files ''o'' ''r'' ''flx_gas'' ''pco2'' [''g1'', ''g2'', ''g3'']
        [''arg'', ''cc'', ''dlm''] True 44.01) =
     Inr [Some (Val 0.22005), Some (Val 0.26406), Some (Val 0.30807),
          Some (Val 0.22005), Some (Val 0.52812), Some (Val 0.92421)]"
  using co2_flx_example by simp

section \<open>The source sums of a cation\<close>

lemmas cation_defs = columns_to_keep_def trim_negligible_def columns_difference_def source_sum_def
  cation_potentials_def cation_table_def build_cation_df_def

text \<open>
  C7 fails on the code. The claim: in the integrated table of a cation the carbonate sum
  is the sum of that table's own carbonate columns and the other sum leaves them out.
  Here \<^verbatim>\<open>cc\<close> is trimmed from the instantaneous table and kept in the integrated one:
  the integrated \<open>carbsld_source\<close> is \<open>cc\<close>, and the integrated \<open>noncarbsld_source\<close> is
  \<open>cc + ka\<close>, because line 946 takes the exclusion list of the instantaneous table.
\<close>

theorem build_cation_df_integrated_double_count:
  "map_of (integrated_table (build_cation_df ''r'' ''ca'' 2 example_cation example_cation_int
             [''cc'', ''dlm'', ''arg''] 44.01 True)) ''carbsld_source'' = Some [0.5, 0.5] \<and>
   map_of (integrated_table (build_cation_df ''r'' ''ca'' 2 example_cation example_cation_int
             [''cc'', ''dlm'', ''arg''] 44.01 True)) ''noncarbsld_source'' = Some [0.5 + 0.3, 0.5 + 0.3] \<and>
   map_of (instantaneous_table (build_cation_df ''r'' ''ca'' 2 example_cation example_cation_int
             [''cc'', ''dlm'', ''arg''] 44.01 True)) ''carbsld_source'' = Some [0, 0] \<and>
   map_of (instantaneous_table (build_cation_df ''r'' ''ca'' 2 example_cation example_cation_int
             [''cc'', ''dlm'', ''arg''] 44.01 True)) ''noncarbsld_source'' = Some [0.3, 0.3]"
  by (simp add: cation_defs frame_defs unit_defs example_cation_def example_cation_int_def
      integrated_table_def instantaneous_table_def)

section \<open>No cation file\<close>

lemmas sumcat_defs = join_step_def path_join_def find_cations_def sumCat_adv_def

text \<open>
  C4 fails on the code for the empty set. In a run with no \<^verbatim>\<open>flx_aq\<close> file the loop of
  \<^verbatim>\<open>sumCat_adv\<close> has nothing to go through, and line 825 reads \<^verbatim>\<open>outdfint\<close> before any
  assignment.
\<close>

theorem sumCat_adv_no_cation_unbound:
  "find_cations example_gas_files ''o'' ''r'' ''flx_aq''
     [(''ca'', 2), (''mg'', 2), (''k'', 1), (''na'', 1)] = [] \<and>
   sumCat_adv example_gas_files ''o'' ''r'' ''flx_aq''
     [(''ca'', 2), (''mg'', 2), (''k'', 1), (''na'', 1)] True = Inl (UnboundLocalError ''outdfint'')"
  by (simp add: sumcat_defs example_gas_files_def)

section \<open>Failures in the orchestrator\<close>

lemmas calk_defs = add_calk_potentials_def calk_components_def carbAlk_adv_def mul_by_time_def times_col_def
lemmas path_defs = join_step_def path_join_def
lemmas block_defs = co2_block_def carbAlk_block_def sumCat_block_def sld_block_def cflx_calc_def

lemma example_alk_co2_missing:
  "co2_flx example_alk_files ''o'' ''r'' ''flx_gas'' ''pco2'' ogs igs cu m =
     Inl (FileNotFoundError ''o/r/flx/flx_gas-pco2.txt'')"
  by (simp add: co2_flx_def read_defs example_alk_files_def)

text \<open>
  C1, as the claim states it, fails. In the run with only the alkalinity files,
  \<^verbatim>\<open>carbAlk_adv\<close> on its own completes; but \<^verbatim>\<open>cflx_calc\<close> asked for \<^verbatim>\<open>co2_flx\<close> and
  \<^verbatim>\<open>carbAlk_adv\<close> ends with the FileNotFoundError of \<^verbatim>\<open>co2_flx\<close> and has saved no
  \<^verbatim>\<open>carbAlk_flxs.pkl\<close>.
\<close>

theorem cflx_calc_abort_counterexample:
  "\<not> isl (carbAlk_adv example_alk_files ''o'' ''r'' ''flx_co2sp'' ''ALK'' True 88.02 44.01) \<and>
   snd (cflx_calc example_alk_files empty_store ''o'' ''r'' (Single ''cc'') True True
          ''postproc_flxs'' [''co2_flx'', ''carbAlk_adv'']) =
     Some (FileNotFoundError ''o/r/flx/flx_gas-pco2.txt'') \<and>
   fst (cflx_calc example_alk_files empty_store ''o'' ''r'' (Single ''cc'') True True
          ''postproc_flxs'' [''co2_flx'', ''carbAlk_adv'']) ''o/r/postproc_flxs/carbAlk_flxs.pkl'' = None"
proof -
  have "\<not> isl (carbAlk_adv example_alk_files ''o'' ''r'' ''flx_co2sp'' ''ALK'' True 88.02 44.01)"
    by (simp add: calk_defs read_defs frame_defs example_alk_files_def example_alk_def)
  moreover have "cflx_calc example_alk_files empty_store ''o'' ''r'' (Single ''cc'') True True
          ''postproc_flxs'' [''co2_flx'', ''carbAlk_adv''] =
       (empty_store, Some (FileNotFoundError ''o/r/flx/flx_gas-pco2.txt''))"
    by (simp add: cflx_calc_def co2_block_def example_alk_co2_missing)
  ultimately show ?thesis by (simp add: empty_store_def)
qed

section \<open>The dissolution fractions\<close>

text \<open>
  A key of the molar mass dictionary is not the name of a column that \<^verbatim>\<open>sld_flx\<close>
  makes, so the feedstock's column is never overwritten by one of them.
\<close>

lemma molar_mass_key_not_reserved:
  "map_of molar_mass_dict f = Some m \<Longrightarrow>
   f \<notin> set [''time'', ''int_dust_ton_ha_yr'', ''adv'', ''dust_minus_adv'', ''total_dissolution'',
              ''fraction_sld_advected'', ''fraction_sld_remaining'',
              ''fraction_remaining_dissolved'', ''fraction_total_dissolved'']"
  by (auto simp: molar_mass_dict_def split: if_splits)

lemma sld_fractions_eval:
  assumes "map_of dfint1 ''time'' = Some T" "map_of dfint1 ''int_dust_ton_ha_yr'' = Some D"
    "map_of dfint1 ''adv'' = Some A0" "map_of dfint1 feedstock = Some F0"
    "map_of molar_mass_dict feedstock = Some mm"
    "A = map (map_option (\<lambda>v. v * mm * conv_factor)) A0"
    "F = map (map_option (\<lambda>v. v * mm * conv_factor)) F0"
  shows "sld_fractions feedstock molar_mass_dict dfint1 =
    Inr [(''time'', T), (''int_dust_ton_ha_yr'', D), (''adv'', A), (feedstock, F),
         (''dust_minus_adv'', map2 osub D A), (''total_dissolution'', F),
         (''fraction_sld_advected'', map2 odiv A D),
         (''fraction_sld_remaining'', map2 odiv (map2 osub (map2 osub D A) F) D),
         (''fraction_remaining_dissolved'', map2 odiv F (map2 osub D A)),
         (''fraction_total_dissolved'', map2 odiv F D)]"
proof -
  have neq: "feedstock \<noteq> ''time''" "feedstock \<noteq> ''int_dust_ton_ha_yr''" "feedstock \<noteq> ''adv''"
    "feedstock \<noteq> ''dust_minus_adv''" "feedstock \<noteq> ''total_dissolution''"
    "feedstock \<noteq> ''fraction_sld_advected''" "feedstock \<noteq> ''fraction_sld_remaining''"
    "feedstock \<noteq> ''fraction_remaining_dissolved''" "feedstock \<noteq> ''fraction_total_dissolved''"
    using molar_mass_key_not_reserved[OF assms(5)] by auto
  show ?thesis
    using assms(1-5) neq unfolding assms(6,7)
    by (simp add: sld_fractions_def map_of_assign dissolution_columns_def col_op_def Let_def)
qed

lemma sld_fractions_Inr_cols:
  assumes "sld_fractions feedstock mm_dict dfint1 = Inr out"
  shows "\<exists>T D A0 F0 mm. map_of dfint1 ''time'' = Some T \<and>
      map_of dfint1 ''int_dust_ton_ha_yr'' = Some D \<and> map_of dfint1 ''adv'' = Some A0 \<and>
      map_of dfint1 feedstock = Some F0 \<and> map_of mm_dict feedstock = Some mm"
  using assms
  by (auto simp: sld_fractions_def map_of_assign Let_def split: option.splits sum.splits if_splits)

lemma sld_flx_Inr_fractions:
  assumes "sld_flx fs outdir runname feedstock var_fn dust_from_file mm_dict = Inr out"
  shows "\<exists>df dfint0 dfint dfint1.
      get_data fs outdir runname var_fn feedstock ''flx'' = Inr (df, dfint0) \<and>
      mul_by_time [''time''] dfint0 = Inr dfint \<and>
      add_int_dust fs outdir runname feedstock dust_from_file mm_dict df dfint = Inr dfint1 \<and>
      sld_fractions feedstock mm_dict dfint1 = Inr out"
  using assms by (auto simp: sld_flx_def split: sum.splits)

lemma value_at_Cons:
  "value_at ((c, vs) # df) k i =
     (if k = c then (if i < length vs then vs ! i else None) else value_at df k i)"
  by (simp add: value_at_def)

lemma value_at_Nil: "value_at [] k i = None"
  by (simp add: value_at_def)

lemma fractions_sum:
  fixes a d t :: real
  assumes "d \<noteq> 0"
  shows "a / d + (d - a - t) / d + t / d = 1"
  using assms by (simp add: field_simps)

text \<open>
  A row given by its cells: with \<open>int_dust_ton_ha_yr\<close> a positive \<open>d\<close>, the advected mass
  \<open>a\<close> and the dissolved mass \<open>t\<close>, the fractions are \<open>a / d\<close>, \<open>(d - a - t) / d\<close> and
  \<open>t / d\<close>.
\<close>

lemma sld_flx_fractions_row:
  assumes ok: "sld_flx fs outdir runname feedstock var_fn dust_from_file molar_mass_dict = Inr out"
    and d: "value_at out ''int_dust_ton_ha_yr'' i = Some d" and pos: "0 < d"
    and a: "value_at out ''adv'' i = Some a"
    and t: "value_at out ''total_dissolution'' i = Some t"
  shows "value_at out ''fraction_sld_advected'' i = Some (a / d) \<and>
         value_at out ''fraction_sld_remaining'' i = Some ((d - a - t) / d) \<and>
         value_at out ''fraction_total_dissolved'' i = Some (t / d) \<and>
         a / d + (d - a - t) / d + t / d = 1"
proof -
  from sld_flx_Inr_fractions[OF ok] obtain dfint1 where
    fr: "sld_fractions feedstock molar_mass_dict dfint1 = Inr out" by blast
  from sld_fractions_Inr_cols[OF fr] obtain T D A0 F0 mm where c:
    "map_of dfint1 ''time'' = Some T" "map_of dfint1 ''int_dust_ton_ha_yr'' = Some D"
    "map_of dfint1 ''adv'' = Some A0" "map_of dfint1 feedstock = Some F0"
    "map_of molar_mass_dict feedstock = Some mm" by blast
  define A where "A = map (map_option (\<lambda>v. v * mm * conv_factor)) A0"
  define F where "F = map (map_option (\<lambda>v. v * mm * conv_factor)) F0"
  have out: "out = [(''time'', T), (''int_dust_ton_ha_yr'', D), (''adv'', A), (feedstock, F),
         (''dust_minus_adv'', map2 osub D A), (''total_dissolution'', F),
         (''fraction_sld_advected'', map2 odiv A D),
         (''fraction_sld_remaining'', map2 odiv (map2 osub (map2 osub D A) F) D),
         (''fraction_remaining_dissolved'', map2 odiv F (map2 osub D A)),
         (''fraction_total_dissolved'', map2 odiv F D)]"
    using sld_fractions_eval[OF c A_def F_def] fr by simp
  have neq: "feedstock \<noteq> ''time''" "feedstock \<noteq> ''int_dust_ton_ha_yr''" "feedstock \<noteq> ''adv''"
    "feedstock \<noteq> ''dust_minus_adv''" "feedstock \<noteq> ''total_dissolution''"
    "feedstock \<noteq> ''fraction_sld_advected''" "feedstock \<noteq> ''fraction_sld_remaining''"
    "feedstock \<noteq> ''fraction_remaining_dissolved''" "feedstock \<noteq> ''fraction_total_dissolved''"
    using molar_mass_key_not_reserved[OF c(5)] by auto
  have D: "i < length D" "D ! i = Some d"
    using d neq by (auto simp: out value_at_Cons split: if_splits)
  have A: "i < length A" "A ! i = Some a"
    using a neq by (auto simp: out value_at_Cons split: if_splits)
  have F: "i < length F" "F ! i = Some t"
    using t neq by (auto simp: out value_at_Cons split: if_splits)
  have "value_at out ''fraction_sld_advected'' i = Some (a / d)"
    using D A F pos neq by (simp add: out value_at_Cons)
  moreover have "value_at out ''fraction_sld_remaining'' i = Some ((d - a - t) / d)"
    using D A F pos neq by (simp add: out value_at_Cons)
  moreover have "value_at out ''fraction_total_dissolved'' i = Some (t / d)"
    using D A F pos neq by (simp add: out value_at_Cons)
  moreover have "a / d + (d - a - t) / d + t / d = 1"
    using pos by (intro fractions_sum) simp
  ultimately show ?thesis by blast
qed

lemmas sld_defs = sld_flx_def add_int_dust_def dust_from_txt_def dust_columns_def match_dust_def
  merge_interpolate_def feedstock_dust_index_def cumulative_trapezoid_def merge_outer_def
  assign_values_def col_op_def dissolution_columns_def sld_fractions_def mul_by_time_def
  times_col_def molar_mass_dict_def

lemma example_sld_cc_table:
  "sld_flx example_sld_files ''o'' ''r'' ''cc'' ''flx_sld'' True molar_mass_dict =
   Inr [(''time'', [Some 0, Some 1, Some 2]),
      (''int_dust_ton_ha_yr'', [Some 0, Some 1, Some (3 / 2)]),
      (''adv'',
       [Some 0, Some (100089 / 100000000), Some (100089 / 50000000)]),
      (''cc'',
       [Some 0, Some (100089 / 25000000), Some (300267 / 50000000)]),
      (''dust_minus_adv'',
       [Some 0, Some (99899911 / 100000000), Some (74899911 / 50000000)]),
      (''total_dissolution'',
       [Some 0, Some (100089 / 25000000), Some (300267 / 50000000)]),
      (''fraction_sld_advected'',
       [None, Some (100089 / 100000000), Some (33363 / 25000000)]),
      (''fraction_sld_remaining'',
       [None, Some (19899911 / 20000000), Some (6216637 / 6250000)]),
      (''fraction_remaining_dissolved'',
       [None, Some (400356 / 99899911), Some (100089 / 24966637)]),
      (''fraction_total_dissolved'',
       [None, Some (100089 / 25000000), Some (100089 / 25000000)])]"
  by (simp add: sld_defs read_defs frame_defs unit_defs example_sld_files_def example_sld_cc_def
      example_dust_def)

section \<open>The first failure ends the call\<close>

lemma get_data_missing:
  assumes "missing_input fs outdir runname var_fn cdvar p"
  shows "get_data fs outdir runname var_fn cdvar ''flx'' = Inl (FileNotFoundError p)"
  using assms
  by (auto simp: missing_input_def get_data_def preprocess_txt_def preprocess_txt_raw_def Let_def
      split: sum.splits option.splits)

lemma co2_flx_missing:
  "missing_input fs outdir runname var_fn cdvar p \<Longrightarrow>
   co2_flx fs outdir runname var_fn cdvar ogs igs cu m = Inl (FileNotFoundError p)"
  by (simp add: co2_flx_def get_data_missing)

lemma carbAlk_adv_missing:
  "missing_input fs outdir runname var_fn cdvar p \<Longrightarrow>
   carbAlk_adv fs outdir runname var_fn cdvar cu a b = Inl (FileNotFoundError p)"
  by (simp add: carbAlk_adv_def get_data_missing)

lemma sld_flx_missing:
  "missing_input fs outdir runname var_fn feedstock p \<Longrightarrow>
   sld_flx fs outdir runname feedstock var_fn d mmd = Inl (FileNotFoundError p)"
  by (simp add: sld_flx_def get_data_missing)

lemma sld_flx_dust_missing:
  assumes "get_data fs outdir runname var_fn feedstock ''flx'' = Inr (df, dfint)"
    and "map_of dfint ''time'' = Some t"
    and "fs (path_join outdir [runname, ''flx'', ''dust.txt'']) = None"
  shows "sld_flx fs outdir runname feedstock var_fn True mmd =
     Inl (FileNotFoundError (path_join outdir [runname, ''flx'', ''dust.txt'']))"
  using assms
  by (simp add: sld_flx_def mul_by_time_def add_int_dust_def dust_from_txt_def dust_columns_def
      preprocess_txt_raw_def Let_def)

lemma sumCat_loop_append_True:
  "sumCat_loop fs outdir runname var_fn cc True ex (pre @ cats) st =
     (case sumCat_loop fs outdir runname var_fn cc True ex pre st of
        Inl e \<Rightarrow> Inl e
      | Inr st' \<Rightarrow> sumCat_loop fs outdir runname var_fn cc True ex cats st')"
  by (induction pre arbitrary: st)
     (simp_all add: Let_def split: option.splits sum.splits prod.splits)

lemma sumCat_loop_append_False:
  "sumCat_loop fs outdir runname var_fn cc False ex (pre @ cats) st =
     (case sumCat_loop fs outdir runname var_fn cc False ex pre st of
        Inl e \<Rightarrow> Inl e
      | Inr st' \<Rightarrow> sumCat_loop fs outdir runname var_fn cc False ex cats st')"
  by (induction pre arbitrary: st)
     (simp_all add: Let_def split: option.splits sum.splits prod.splits)

lemma sumCat_loop_append:
  "sumCat_loop fs outdir runname var_fn cc cu ex (pre @ cats) st =
     (case sumCat_loop fs outdir runname var_fn cc cu ex pre st of
        Inl e \<Rightarrow> Inl e
      | Inr st' \<Rightarrow> sumCat_loop fs outdir runname var_fn cc cu ex cats st')"
  by (cases cu) (simp_all only: sumCat_loop_append_True sumCat_loop_append_False)

lemma sumCat_loop_missing:
  assumes "map_of cc cat = Some ch" "missing_input fs outdir runname var_fn cat p"
  shows "sumCat_loop fs outdir runname var_fn cc cu ex (cat # post) st = Inl (FileNotFoundError p)"
  using assms by (simp add: get_data_missing)

lemma find_cations_key:
  "cat \<in> set (find_cations fs outdir runname var_fn cc) \<Longrightarrow> \<exists>ch. map_of cc cat = Some ch"
proof -
  assume "cat \<in> set (find_cations fs outdir runname var_fn cc)"
  then have "cat \<in> fst ` set cc" by (auto simp: find_cations_def)
  then have "map_of cc cat \<noteq> None" by (simp add: map_of_eq_None_iff)
  then show ?thesis by blast
qed

lemma sumCat_adv_missing:
  assumes fc: "find_cations fs outdir runname var_fn cc = pre @ cat # post"
    and pre: "sumCat_loop fs outdir runname var_fn cc cu (pre @ cat # post) pre ([], None) = Inr acc"
    and m: "missing_input fs outdir runname var_fn cat p"
  shows "sumCat_adv fs outdir runname var_fn cc cu = Inl (FileNotFoundError p)"
proof -
  have "cat \<in> set (find_cations fs outdir runname var_fn cc)" by (simp add: fc)
  then obtain ch where ch: "map_of cc cat = Some ch" using find_cations_key by blast
  show ?thesis
    unfolding sumCat_adv_def Let_def fc sumCat_loop_append pre
    by (simp add: sumCat_loop_missing[OF ch m] del: sumCat_loop.simps)
qed

lemma sld_loop_append:
  "sld_loop fs outdir runname savehere (pre @ rest) st =
     (case sld_loop fs outdir runname savehere pre st of
        (st', None) \<Rightarrow> sld_loop fs outdir runname savehere rest st'
      | (st', Some e) \<Rightarrow> (st', Some e))"
  by (induction pre arbitrary: st) (auto split: sum.splits)

lemma cflx_calc_co2_fails:
  assumes "''co2_flx'' \<in> set calc_list"
    and "co2_flx fs outdir runname ''flx_gas'' ''pco2'' [''g1'', ''g2'', ''g3'']
           [''arg'', ''cc'', ''dlm''] convert_units 44.01 = Inl e"
  shows "cflx_calc fs st outdir runname feedstock dust_from_file convert_units save_dir calc_list =
           (st, Some e)"
  using assms by (simp add: cflx_calc_def co2_block_def)

lemma cflx_calc_carbAlk_fails:
  assumes "co2_block fs outdir runname convert_units (path_join outdir [runname, save_dir])
             calc_list st = (st1, None)"
    and "''carbAlk_adv'' \<in> set calc_list"
    and "carbAlk_adv fs outdir runname ''flx_co2sp'' ''ALK'' convert_units 88.02 44.01 = Inl e"
  shows "cflx_calc fs st outdir runname feedstock dust_from_file convert_units save_dir calc_list =
           (st1, Some e)"
  using assms by (simp add: cflx_calc_def carbAlk_block_def)

lemma cflx_calc_sumCat_fails:
  assumes "co2_block fs outdir runname convert_units (path_join outdir [runname, save_dir])
             calc_list st = (st1, None)"
    and "carbAlk_block fs outdir runname convert_units (path_join outdir [runname, save_dir])
             calc_list st1 = (st2, None)"
    and "''sumCat_adv'' \<in> set calc_list"
    and "sumCat_adv fs outdir runname ''flx_aq''
           [(''ca'', 2), (''mg'', 2), (''k'', 1), (''na'', 1)] True = Inl e"
  shows "cflx_calc fs st outdir runname feedstock dust_from_file convert_units save_dir calc_list =
           (st2, Some e)"
  using assms by (simp add: cflx_calc_def sumCat_block_def)

lemma cflx_calc_sld_fails:
  assumes "co2_block fs outdir runname convert_units (path_join outdir [runname, save_dir])
             calc_list st = (st1, None)"
    and "carbAlk_block fs outdir runname convert_units (path_join outdir [runname, save_dir])
             calc_list st1 = (st2, None)"
    and "sumCat_block fs outdir runname (path_join outdir [runname, save_dir])
             calc_list st2 = (st3, None)"
    and "''sld_flx'' \<in> set calc_list"
    and "(case feedstock of Single g \<Rightarrow> [g] | Multiple fl \<Rightarrow> fl) = fpre @ f # fpost"
    and "sld_loop fs outdir runname (path_join outdir [runname, save_dir]) fpre st3 = (st4, None)"
    and "sld_flx fs outdir runname f ''flx_sld'' True molar_mass_dict = Inl e"
  shows "cflx_calc fs st outdir runname feedstock dust_from_file convert_units save_dir calc_list =
           (st4, Some e)"
  using assms by (simp add: cflx_calc_def sld_block_def sld_loop_append)

text \<open>
  C1, as the code has it. \<^verbatim>\<open>cflx_calc\<close> runs the selected metrics in the order
  \<^verbatim>\<open>co2_flx\<close>, \<^verbatim>\<open>carbAlk_adv\<close>, \<^verbatim>\<open>sumCat_adv\<close>, \<^verbatim>\<open>sld_flx\<close> and wraps none of them.
  When a selected metric comes to a file that is missing (the flux file of its variable
  or the \<^verbatim>\<open>int_\<close> counterpart; for a cation that was found, the \<^verbatim>\<open>int_\<close> file; for a
  feedstock also \<^verbatim>\<open>dust.txt\<close>), it raises a FileNotFoundError that carries
  \<^verbatim>\<open>os.path.join(outdir, runname, "flx", file)\<close>, and this error ends the call: what the
  metrics, cations and feedstocks before it saved stays saved, and nothing after it
  runs. The same holds for any other exception of a selected metric.
\<close>

theorem cflx_calc_stops_at_first_failure:
  "(''co2_flx'' \<in> set calc_list \<and>
    missing_input fs outdir runname ''flx_gas'' ''pco2'' p \<longrightarrow>
      cflx_calc fs st outdir runname feedstock dust_from_file convert_units save_dir calc_list =
        (st, Some (FileNotFoundError p))) \<and>
   (co2_block fs outdir runname convert_units (path_join outdir [runname, save_dir]) calc_list st =
      (st1, None) \<and>
    ''carbAlk_adv'' \<in> set calc_list \<and>
    missing_input fs outdir runname ''flx_co2sp'' ''ALK'' p \<longrightarrow>
      cflx_calc fs st outdir runname feedstock dust_from_file convert_units save_dir calc_list =
        (st1, Some (FileNotFoundError p))) \<and>
   (co2_block fs outdir runname convert_units (path_join outdir [runname, save_dir]) calc_list st =
      (st1, None) \<and>
    carbAlk_block fs outdir runname convert_units (path_join outdir [runname, save_dir]) calc_list st1 =
      (st2, None) \<and>
    ''sumCat_adv'' \<in> set calc_list \<and>
    find_cations fs outdir runname ''flx_aq'' [(''ca'', 2), (''mg'', 2), (''k'', 1), (''na'', 1)] =
      pre @ cat # post \<and>
    sumCat_loop fs outdir runname ''flx_aq'' [(''ca'', 2), (''mg'', 2), (''k'', 1), (''na'', 1)] True
      (pre @ cat # post) pre ([], None) = Inr acc \<and>
    missing_input fs outdir runname ''flx_aq'' cat p \<longrightarrow>
      cflx_calc fs st outdir runname feedstock dust_from_file convert_units save_dir calc_list =
        (st2, Some (FileNotFoundError p))) \<and>
   (co2_block fs outdir runname convert_units (path_join outdir [runname, save_dir]) calc_list st =
      (st1, None) \<and>
    carbAlk_block fs outdir runname convert_units (path_join outdir [runname, save_dir]) calc_list st1 =
      (st2, None) \<and>
    sumCat_block fs outdir runname (path_join outdir [runname, save_dir]) calc_list st2 =
      (st3, None) \<and>
    ''sld_flx'' \<in> set calc_list \<and>
    (case feedstock of Single g \<Rightarrow> [g] | Multiple fl \<Rightarrow> fl) = fpre @ f # fpost \<and>
    sld_loop fs outdir runname (path_join outdir [runname, save_dir]) fpre st3 = (st4, None) \<and>
    (missing_input fs outdir runname ''flx_sld'' f p \<or>
     (\<exists>df dfint t. get_data fs outdir runname ''flx_sld'' f ''flx'' = Inr (df, dfint) \<and>
        map_of dfint ''time'' = Some t) \<and>
     fs (path_join outdir [runname, ''flx'', ''dust.txt'']) = None \<and>
     p = path_join outdir [runname, ''flx'', ''dust.txt'']) \<longrightarrow>
      cflx_calc fs st outdir runname feedstock dust_from_file convert_units save_dir calc_list =
        (st4, Some (FileNotFoundError p))) \<and>
   (''co2_flx'' \<in> set calc_list \<and>
    co2_flx fs outdir runname ''flx_gas'' ''pco2'' [''g1'', ''g2'', ''g3'']
      [''arg'', ''cc'', ''dlm''] convert_units 44.01 = Inl e \<longrightarrow>
      cflx_calc fs st outdir runname feedstock dust_from_file convert_units save_dir calc_list =
        (st, Some e)) \<and>
   (co2_block fs outdir runname convert_units (path_join outdir [runname, save_dir]) calc_list st =
      (st1, None) \<and>
    ''carbAlk_adv'' \<in> set calc_list \<and>
    carbAlk_adv fs outdir runname ''flx_co2sp'' ''ALK'' convert_units 88.02 44.01 = Inl e \<longrightarrow>
      cflx_calc fs st outdir runname feedstock dust_from_file convert_units save_dir calc_list =
        (st1, Some e)) \<and>
   (co2_block fs outdir runname convert_units (path_join outdir [runname, save_dir]) calc_list st =
      (st1, None) \<and>
    carbAlk_block fs outdir runname convert_units (path_join outdir [runname, save_dir]) calc_list st1 =
      (st2, None) \<and>
    ''sumCat_adv'' \<in> set calc_list \<and>
    sumCat_adv fs outdir runname ''flx_aq'' [(''ca'', 2), (''mg'', 2), (''k'', 1), (''na'', 1)] True =
      Inl e \<longrightarrow>
      cflx_calc fs st outdir runname feedstock dust_from_file convert_units save_dir calc_list =
        (st2, Some e)) \<and>
   (co2_block fs outdir runname convert_units (path_join outdir [runname, save_dir]) calc_list st =
      (st1, None) \<and>
    carbAlk_block fs outdir runname convert_units (path_join outdir [runname, save_dir]) calc_list st1 =
      (st2, None) \<and>
    sumCat_block fs outdir runname (path_join outdir [runname, save_dir]) calc_list st2 =
      (st3, None) \<and>
    ''sld_flx'' \<in> set calc_list \<and>
    (case feedstock of Single g \<Rightarrow> [g] | Multiple fl \<Rightarrow> fl) = fpre @ f # fpost \<and>
    sld_loop fs outdir runname (path_join outdir [runname, save_dir]) fpre st3 = (st4, None) \<and>
    sld_flx fs outdir runname f ''flx_sld'' True molar_mass_dict = Inl e \<longrightarrow>
      cflx_calc fs st outdir runname feedstock dust_from_file convert_units save_dir calc_list =
        (st4, Some e))"
proof (intro conjI impI; elim conjE)
  assume "''co2_flx'' \<in> set calc_list" "missing_input fs outdir runname ''flx_gas'' ''pco2'' p"
  then show "cflx_calc fs st outdir runname feedstock dust_from_file convert_units save_dir calc_list =
      (st, Some (FileNotFoundError p))"
    by (intro cflx_calc_co2_fails co2_flx_missing)
next
  assume "co2_block fs outdir runname convert_units (path_join outdir [runname, save_dir]) calc_list st =
      (st1, None)" "''carbAlk_adv'' \<in> set calc_list"
    "missing_input fs outdir runname ''flx_co2sp'' ''ALK'' p"
  then show "cflx_calc fs st outdir runname feedstock dust_from_file convert_units save_dir calc_list =
      (st1, Some (FileNotFoundError p))"
    by (intro cflx_calc_carbAlk_fails carbAlk_adv_missing)
next
  assume "co2_block fs outdir runname convert_units (path_join outdir [runname, save_dir]) calc_list st =
      (st1, None)"
    "carbAlk_block fs outdir runname convert_units (path_join outdir [runname, save_dir]) calc_list st1 =
      (st2, None)" "''sumCat_adv'' \<in> set calc_list"
    "find_cations fs outdir runname ''flx_aq'' [(''ca'', 2), (''mg'', 2), (''k'', 1), (''na'', 1)] =
      pre @ cat # post"
    "sumCat_loop fs outdir runname ''flx_aq'' [(''ca'', 2), (''mg'', 2), (''k'', 1), (''na'', 1)] True
      (pre @ cat # post) pre ([], None) = Inr acc"
    "missing_input fs outdir runname ''flx_aq'' cat p"
  then show "cflx_calc fs st outdir runname feedstock dust_from_file convert_units save_dir calc_list =
      (st2, Some (FileNotFoundError p))"
    by (intro cflx_calc_sumCat_fails sumCat_adv_missing)
next
  assume b: "co2_block fs outdir runname convert_units (path_join outdir [runname, save_dir]) calc_list st =
      (st1, None)"
    "carbAlk_block fs outdir runname convert_units (path_join outdir [runname, save_dir]) calc_list st1 =
      (st2, None)"
    "sumCat_block fs outdir runname (path_join outdir [runname, save_dir]) calc_list st2 =
      (st3, None)" "''sld_flx'' \<in> set calc_list"
    "(case feedstock of Single g \<Rightarrow> [g] | Multiple fl \<Rightarrow> fl) = fpre @ f # fpost"
    "sld_loop fs outdir runname (path_join outdir [runname, save_dir]) fpre st3 = (st4, None)"
  assume "missing_input fs outdir runname ''flx_sld'' f p \<or>
     (\<exists>df dfint t. get_data fs outdir runname ''flx_sld'' f ''flx'' = Inr (df, dfint) \<and>
        map_of dfint ''time'' = Some t) \<and>
     fs (path_join outdir [runname, ''flx'', ''dust.txt'']) = None \<and>
     p = path_join outdir [runname, ''flx'', ''dust.txt'']"
  then have "sld_flx fs outdir runname f ''flx_sld'' True molar_mass_dict = Inl (FileNotFoundError p)"
    by (auto intro: sld_flx_missing sld_flx_dust_missing)
  with b show "cflx_calc fs st outdir runname feedstock dust_from_file convert_units save_dir calc_list =
      (st4, Some (FileNotFoundError p))"
    by (intro cflx_calc_sld_fails)
next
  assume "''co2_flx'' \<in> set calc_list"
    "co2_flx fs outdir runname ''flx_gas'' ''pco2'' [''g1'', ''g2'', ''g3'']
      [''arg'', ''cc'', ''dlm''] convert_units 44.01 = Inl e"
  then show "cflx_calc fs st outdir runname feedstock dust_from_file convert_units save_dir calc_list =
      (st, Some e)"
    by (rule cflx_calc_co2_fails)
next
  assume "co2_block fs outdir runname convert_units (path_join outdir [runname, save_dir]) calc_list st =
      (st1, None)" "''carbAlk_adv'' \<in> set calc_list"
    "carbAlk_adv fs outdir runname ''flx_co2sp'' ''ALK'' convert_units 88.02 44.01 = Inl e"
  then show "cflx_calc fs st outdir runname feedstock dust_from_file convert_units save_dir calc_list =
      (st1, Some e)"
    by (rule cflx_calc_carbAlk_fails)
next
  assume "co2_block fs outdir runname convert_units (path_join outdir [runname, save_dir]) calc_list st =
      (st1, None)"
    "carbAlk_block fs outdir runname convert_units (path_join outdir [runname, save_dir]) calc_list st1 =
      (st2, None)" "''sumCat_adv'' \<in> set calc_list"
    "sumCat_adv fs outdir runname ''flx_aq'' [(''ca'', 2), (''mg'', 2), (''k'', 1), (''na'', 1)] True =
      Inl e"
  then show "cflx_calc fs st outdir runname feedstock dust_from_file convert_units save_dir calc_list =
      (st2, Some e)"
    by (rule cflx_calc_sumCat_fails)
next
  assume "co2_block fs outdir runname convert_units (path_join outdir [runname, save_dir]) calc_list st =
      (st1, None)"
    "carbAlk_block fs outdir runname convert_units (path_join outdir [runname, save_dir]) calc_list st1 =
      (st2, None)"
    "sumCat_block fs outdir runname (path_join outdir [runname, save_dir]) calc_list st2 =
      (st3, None)" "''sld_flx'' \<in> set calc_list"
    "(case feedstock of Single g \<Rightarrow> [g] | Multiple fl \<Rightarrow> fl) = fpre @ f # fpost"
    "sld_loop fs outdir runname (path_join outdir [runname, save_dir]) fpre st3 = (st4, None)"
    "sld_flx fs outdir runname f ''flx_sld'' True molar_mass_dict = Inl e"
  then show "cflx_calc fs st outdir runname feedstock dust_from_file convert_units save_dir calc_list =
      (st4, Some e)"
    by (rule cflx_calc_sld_fails)
qed

lemma example_gas_co2_block:
  "snd (co2_block example_gas_files ''o'' ''r'' True ''o/r/postproc_flxs''
          [''co2_flx'', ''carbAlk_adv'', ''sumCat_adv'', ''sld_flx''] empty_store) = None \<and>
   fst (co2_block example_gas_files ''o'' ''r'' True ''o/r/postproc_flxs''
          [''co2_flx'', ''carbAlk_adv'', ''sumCat_adv'', ''sld_flx''] empty_store)
     ''o/r/postproc_flxs/co2_flxs.pkl'' \<noteq> None"
  by (simp add: co2_block_def example_gas_eval split: sum.splits)

lemma no_block:
  "''co2_flx'' \<notin> set cl \<Longrightarrow> co2_block fs outdir runname cu sh cl st = (st, None)"
  "''carbAlk_adv'' \<notin> set cl \<Longrightarrow> carbAlk_block fs outdir runname cu sh cl st = (st, None)"
  "''sumCat_adv'' \<notin> set cl \<Longrightarrow> sumCat_block fs outdir runname sh cl st = (st, None)"
  by (simp_all add: co2_block_def carbAlk_block_def sumCat_block_def)

theorem cflx_calc_stops_at_first_failure_witness:
  "cflx_calc example_alk_files empty_store ''o/'' ''r'' (Single ''cc'') True True ''postproc_flxs''
     [''co2_flx'', ''carbAlk_adv''] =
     (empty_store, Some (FileNotFoundError ''o/r/flx/flx_gas-pco2.txt'')) \<and>
   cflx_calc example_gas_files empty_store ''o'' ''r'' (Single ''cc'') True True ''postproc_flxs''
     [''co2_flx'', ''carbAlk_adv'', ''sumCat_adv'', ''sld_flx''] =
     (fst (co2_block example_gas_files ''o'' ''r'' True ''o/r/postproc_flxs''
             [''co2_flx'', ''carbAlk_adv'', ''sumCat_adv'', ''sld_flx''] empty_store),
      Some (FileNotFoundError ''o/r/flx/flx_co2sp-ALK.txt'')) \<and>
   fst (co2_block example_gas_files ''o'' ''r'' True ''o/r/postproc_flxs''
          [''co2_flx'', ''carbAlk_adv'', ''sumCat_adv'', ''sld_flx''] empty_store)
     ''o/r/postproc_flxs/co2_flxs.pkl'' \<noteq> None \<and>
   cflx_calc example_aq_files empty_store ''o'' ''r'' (Single ''cc'') True True ''postproc_flxs''
     [''sumCat_adv'', ''sld_flx''] =
     (empty_store, Some (FileNotFoundError ''o/r/flx/int_flx_aq-ca.txt'')) \<and>
   snd (cflx_calc example_sld_files empty_store ''o'' ''r'' (Multiple [''cc'', ''gbas'']) True True
          ''postproc_flxs'' [''sld_flx'']) =
     Some (FileNotFoundError ''o/r/flx/flx_sld-gbas.txt'') \<and>
   saved_column
     (fst (cflx_calc example_sld_files empty_store ''o'' ''r'' (Multiple [''cc'', ''gbas'']) True True
             ''postproc_flxs'' [''sld_flx'']))
     ''o/r/postproc_flxs/rockflx_cc.pkl'' ''int_dust_ton_ha_yr'' = Some [Some 0, Some 1, Some 1.5] \<and>
   cflx_calc example_nodust_files empty_store ''o'' ''r'' (Single ''cc'') True True ''postproc_flxs''
     [''sld_flx''] = (empty_store, Some (FileNotFoundError ''o/r/flx/dust.txt'')) \<and>
   cflx_calc example_gas_files empty_store ''o'' ''r'' (Single ''cc'') True True ''postproc_flxs''
     [''sumCat_adv'', ''sld_flx''] = (empty_store, Some (UnboundLocalError ''outdfint''))"
proof (intro conjI)
  have m1: "missing_input example_alk_files ''o/'' ''r'' ''flx_gas'' ''pco2''
              ''o/r/flx/flx_gas-pco2.txt''"
    by (simp add: missing_input_def path_defs example_alk_files_def)
  show "cflx_calc example_alk_files empty_store ''o/'' ''r'' (Single ''cc'') True True ''postproc_flxs''
     [''co2_flx'', ''carbAlk_adv''] =
     (empty_store, Some (FileNotFoundError ''o/r/flx/flx_gas-pco2.txt''))"
    using cflx_calc_stops_at_first_failure [where calc_list = "[''co2_flx'', ''carbAlk_adv'']"
        and fs = example_alk_files and outdir = "''o/''" and runname = "''r''"
        and p = "''o/r/flx/flx_gas-pco2.txt''", THEN conjunct1] m1
    by simp
  have sh: "path_join ''o'' [''r'', ''postproc_flxs''] = ''o/r/postproc_flxs''"
    by (simp add: path_defs)
  have b1: "co2_block example_gas_files ''o'' ''r'' True ''o/r/postproc_flxs''
          [''co2_flx'', ''carbAlk_adv'', ''sumCat_adv'', ''sld_flx''] empty_store =
        (fst (co2_block example_gas_files ''o'' ''r'' True ''o/r/postproc_flxs''
             [''co2_flx'', ''carbAlk_adv'', ''sumCat_adv'', ''sld_flx''] empty_store), None)"
    using example_gas_co2_block by (simp add: prod_eq_iff)
  have m2: "missing_input example_gas_files ''o'' ''r'' ''flx_co2sp'' ''ALK''
              ''o/r/flx/flx_co2sp-ALK.txt''"
    by (simp add: missing_input_def path_defs example_gas_files_def)
  show "cflx_calc example_gas_files empty_store ''o'' ''r'' (Single ''cc'') True True ''postproc_flxs''
     [''co2_flx'', ''carbAlk_adv'', ''sumCat_adv'', ''sld_flx''] =
     (fst (co2_block example_gas_files ''o'' ''r'' True ''o/r/postproc_flxs''
             [''co2_flx'', ''carbAlk_adv'', ''sumCat_adv'', ''sld_flx''] empty_store),
      Some (FileNotFoundError ''o/r/flx/flx_co2sp-ALK.txt''))"
    using cflx_calc_stops_at_first_failure [where
        calc_list = "[''co2_flx'', ''carbAlk_adv'', ''sumCat_adv'', ''sld_flx'']"
        and fs = example_gas_files and outdir = "''o''" and runname = "''r''"
        and st = empty_store and convert_units = True and save_dir = "''postproc_flxs''"
        and ?st1.0 = "fst (co2_block example_gas_files ''o'' ''r'' True ''o/r/postproc_flxs''
             [''co2_flx'', ''carbAlk_adv'', ''sumCat_adv'', ''sld_flx''] empty_store)"
        and p = "''o/r/flx/flx_co2sp-ALK.txt''", THEN conjunct2, THEN conjunct1]
      b1 m2
    by (simp add: sh)
  show "fst (co2_block example_gas_files ''o'' ''r'' True ''o/r/postproc_flxs''
          [''co2_flx'', ''carbAlk_adv'', ''sumCat_adv'', ''sld_flx''] empty_store)
     ''o/r/postproc_flxs/co2_flxs.pkl'' \<noteq> None"
    using example_gas_co2_block by simp
  have fc: "find_cations example_aq_files ''o'' ''r'' ''flx_aq''
              [(''ca'', 2), (''mg'', 2), (''k'', 1), (''na'', 1)] = [] @ ''ca'' # []"
    by (simp add: find_cations_def path_defs example_aq_files_def)
  have m3: "missing_input example_aq_files ''o'' ''r'' ''flx_aq'' ''ca''
              ''o/r/flx/int_flx_aq-ca.txt''"
    by (simp add: missing_input_def read_defs example_aq_files_def example_cation_def)
  show "cflx_calc example_aq_files empty_store ''o'' ''r'' (Single ''cc'') True True ''postproc_flxs''
     [''sumCat_adv'', ''sld_flx''] =
     (empty_store, Some (FileNotFoundError ''o/r/flx/int_flx_aq-ca.txt''))"
    using cflx_calc_stops_at_first_failure [where calc_list = "[''sumCat_adv'', ''sld_flx'']"
        and fs = example_aq_files and outdir = "''o''" and runname = "''r''"
        and st = empty_store and convert_units = True and save_dir = "''postproc_flxs''"
        and ?st1.0 = empty_store and ?st2.0 = empty_store
        and pre = "[]" and cat = "''ca''" and post = "[]" and acc = "([], None)"
        and p = "''o/r/flx/int_flx_aq-ca.txt''",
        THEN conjunct2, THEN conjunct2, THEN conjunct1]
      fc m3
    by (simp add: no_block)
  have m4: "missing_input example_sld_files ''o'' ''r'' ''flx_sld'' ''gbas''
              ''o/r/flx/flx_sld-gbas.txt''"
    by (simp add: missing_input_def path_defs example_sld_files_def)
  have l4: "sld_loop example_sld_files ''o'' ''r'' ''o/r/postproc_flxs'' [''cc''] empty_store =
      (empty_store(''o/r/postproc_flxs/rockflx_cc.pkl'' \<mapsto>
         PklFrame (projr (sld_flx example_sld_files ''o'' ''r'' ''cc'' ''flx_sld'' True molar_mass_dict))),
       None)"
    by (simp add: example_sld_cc_table path_defs)
  have c4: "cflx_calc example_sld_files empty_store ''o'' ''r'' (Multiple [''cc'', ''gbas'']) True True
          ''postproc_flxs'' [''sld_flx''] =
     (empty_store(''o/r/postproc_flxs/rockflx_cc.pkl'' \<mapsto>
         PklFrame (projr (sld_flx example_sld_files ''o'' ''r'' ''cc'' ''flx_sld'' True molar_mass_dict))),
      Some (FileNotFoundError ''o/r/flx/flx_sld-gbas.txt''))"
    using cflx_calc_stops_at_first_failure [where calc_list = "[''sld_flx'']"
        and fs = example_sld_files and outdir = "''o''" and runname = "''r''"
        and st = empty_store and convert_units = True and save_dir = "''postproc_flxs''"
        and feedstock = "Multiple [''cc'', ''gbas'']"
        and ?st1.0 = empty_store and ?st2.0 = empty_store and ?st3.0 = empty_store
        and ?st4.0 = "empty_store(''o/r/postproc_flxs/rockflx_cc.pkl'' \<mapsto>
         PklFrame (projr (sld_flx example_sld_files ''o'' ''r'' ''cc'' ''flx_sld'' True molar_mass_dict)))"
        and fpre = "[''cc'']" and f = "''gbas''" and fpost = "[]"
        and p = "''o/r/flx/flx_sld-gbas.txt''",
        THEN conjunct2, THEN conjunct2, THEN conjunct2, THEN conjunct1]
      m4 l4
    by (simp add: no_block sh)
  show "snd (cflx_calc example_sld_files empty_store ''o'' ''r'' (Multiple [''cc'', ''gbas'']) True True
          ''postproc_flxs'' [''sld_flx'']) =
     Some (FileNotFoundError ''o/r/flx/flx_sld-gbas.txt'')"
    by (simp add: c4)
  show "saved_column
     (fst (cflx_calc example_sld_files empty_store ''o'' ''r'' (Multiple [''cc'', ''gbas'']) True True
             ''postproc_flxs'' [''sld_flx'']))
     ''o/r/postproc_flxs/rockflx_cc.pkl'' ''int_dust_ton_ha_yr'' = Some [Some 0, Some 1, Some 1.5]"
    by (simp add: c4 saved_column_def example_sld_cc_table)
  have g5: "get_data example_nodust_files ''o'' ''r'' ''flx_sld'' ''cc'' ''flx'' =
     Inr ([(''time'', [0, 1, 2]), (''cc'', [0, 0.004, 0.003]),
           (''adv'', [0, 0.001, 0.001]), (''rain'', [0, - 0.01, - 0.01])],
          [(''time'', [0, 1, 2]), (''cc'', [0, 0.004, 0.003]),
           (''adv'', [0, 0.001, 0.001]), (''rain'', [0, - 0.01, - 0.01])])"
    by (simp add: read_defs example_nodust_files_def example_sld_cc_def)
  have d5: "example_nodust_files (path_join ''o'' [''r'', ''flx'', ''dust.txt'']) = None"
    "path_join ''o'' [''r'', ''flx'', ''dust.txt''] = ''o/r/flx/dust.txt''"
    by (simp_all add: path_defs example_nodust_files_def)
  show "cflx_calc example_nodust_files empty_store ''o'' ''r'' (Single ''cc'') True True ''postproc_flxs''
     [''sld_flx''] = (empty_store, Some (FileNotFoundError ''o/r/flx/dust.txt''))"
    using cflx_calc_stops_at_first_failure [where calc_list = "[''sld_flx'']"
        and fs = example_nodust_files and outdir = "''o''" and runname = "''r''"
        and st = empty_store and convert_units = True and save_dir = "''postproc_flxs''"
        and feedstock = "Single ''cc''"
        and ?st1.0 = empty_store and ?st2.0 = empty_store and ?st3.0 = empty_store
        and ?st4.0 = empty_store
        and fpre = "[]" and f = "''cc''" and fpost = "[]"
        and p = "''o/r/flx/dust.txt''",
        THEN conjunct2, THEN conjunct2, THEN conjunct2, THEN conjunct1]
      g5 d5
    by (simp add: no_block)
  have u: "sumCat_adv example_gas_files ''o'' ''r'' ''flx_aq''
     [(''ca'', 2), (''mg'', 2), (''k'', 1), (''na'', 1)] True = Inl (UnboundLocalError ''outdfint'')"
    by (simp add: sumcat_defs example_gas_files_def)
  show "cflx_calc example_gas_files empty_store ''o'' ''r'' (Single ''cc'') True True ''postproc_flxs''
     [''sumCat_adv'', ''sld_flx''] = (empty_store, Some (UnboundLocalError ''outdfint''))"
    using cflx_calc_stops_at_first_failure [where calc_list = "[''sumCat_adv'', ''sld_flx'']"
        and fs = example_gas_files and outdir = "''o''" and runname = "''r''"
        and st = empty_store and convert_units = True and save_dir = "''postproc_flxs''"
        and ?st1.0 = empty_store and ?st2.0 = empty_store and e = "UnboundLocalError ''outdfint''",
        THEN conjunct2, THEN conjunct2, THEN conjunct2, THEN conjunct2, THEN conjunct2,
        THEN conjunct2, THEN conjunct1]
      u
    by (simp add: no_block)
qed

section \<open>The flags of the orchestrator\<close>

text \<open>
  C9. \<^verbatim>\<open>cflx_calc\<close> does not pass its \<^verbatim>\<open>dust_from_file\<close> and \<^verbatim>\<open>convert_units\<close> on to
  \<^verbatim>\<open>sld_flx\<close> and \<^verbatim>\<open>sumCat_adv\<close>: what it saves for a feedstock is the table of
  \<^verbatim>\<open>sld_flx\<close> with \<^verbatim>\<open>dust_from_file=True\<close>, what it saves for the cations are the tables
  of \<^verbatim>\<open>sumCat_adv\<close> with \<^verbatim>\<open>convert_units=True\<close>, whatever the caller gave; the value of
  \<^verbatim>\<open>dust_from_file\<close> changes nothing at all, and that of \<^verbatim>\<open>convert_units\<close> nothing
  unless \<^verbatim>\<open>co2_flx\<close> or \<^verbatim>\<open>carbAlk_adv\<close> is selected.
\<close>

theorem cflx_calc_fixed_flags:
  "cflx_calc fs st outdir runname feedstock dust_from_file convert_units save_dir calc_list =
     cflx_calc fs st outdir runname feedstock True convert_units save_dir calc_list \<and>
   cflx_calc fs st outdir runname (Single f) dust_from_file convert_units save_dir [''sld_flx''] =
     (case sld_flx fs outdir runname f ''flx_sld'' True molar_mass_dict of
        Inl e \<Rightarrow> (st, Some e)
      | Inr rockdf \<Rightarrow>
          (st(path_join (path_join outdir [runname, save_dir]) [''rockflx_'' @ f @ ''.pkl'']
                \<mapsto> PklFrame rockdf), None)) \<and>
   cflx_calc fs st outdir runname feedstock dust_from_file convert_units save_dir [''sumCat_adv''] =
     (case sumCat_adv fs outdir runname ''flx_aq''
             [(''ca'', 2), (''mg'', 2), (''k'', 1), (''na'', 1)] True of
        Inl e \<Rightarrow> (st, Some e)
      | Inr (sumCatdf, sumCatdict) \<Rightarrow>
          (save_cations (path_join outdir [runname, save_dir]) sumCatdict
             (st(path_join (path_join outdir [runname, save_dir]) [''cationflx_sum.pkl'']
                   \<mapsto> PklRows sumCatdf)), None)) \<and>
   (''co2_flx'' \<notin> set calc_list \<and> ''carbAlk_adv'' \<notin> set calc_list \<longrightarrow>
      cflx_calc fs st outdir runname feedstock dust_from_file convert_units save_dir calc_list =
      cflx_calc fs st outdir runname feedstock dust_from_file' convert_units' save_dir calc_list)"
proof (intro conjI impI)
  show "cflx_calc fs st outdir runname feedstock dust_from_file convert_units save_dir calc_list =
     cflx_calc fs st outdir runname feedstock True convert_units save_dir calc_list"
    by (simp add: cflx_calc_def)
  show "cflx_calc fs st outdir runname (Single f) dust_from_file convert_units save_dir [''sld_flx''] =
     (case sld_flx fs outdir runname f ''flx_sld'' True molar_mass_dict of
        Inl e \<Rightarrow> (st, Some e)
      | Inr rockdf \<Rightarrow>
          (st(path_join (path_join outdir [runname, save_dir]) [''rockflx_'' @ f @ ''.pkl'']
                \<mapsto> PklFrame rockdf), None))"
    by (simp add: block_defs Let_def split: sum.splits)
  show "cflx_calc fs st outdir runname feedstock dust_from_file convert_units save_dir [''sumCat_adv''] =
     (case sumCat_adv fs outdir runname ''flx_aq''
             [(''ca'', 2), (''mg'', 2), (''k'', 1), (''na'', 1)] True of
        Inl e \<Rightarrow> (st, Some e)
      | Inr (sumCatdf, sumCatdict) \<Rightarrow>
          (save_cations (path_join outdir [runname, save_dir]) sumCatdict
             (st(path_join (path_join outdir [runname, save_dir]) [''cationflx_sum.pkl'']
                   \<mapsto> PklRows sumCatdf)), None))"
    by (simp add: block_defs Let_def split: sum.splits prod.splits)
next
  assume "''co2_flx'' \<notin> set calc_list \<and> ''carbAlk_adv'' \<notin> set calc_list"
  then show "cflx_calc fs st outdir runname feedstock dust_from_file convert_units save_dir calc_list =
      cflx_calc fs st outdir runname feedstock dust_from_file' convert_units' save_dir calc_list"
    by (simp add: cflx_calc_def co2_block_def carbAlk_block_def)
qed

lemma example_sld_cc_rain:
  "result_column ''int_dust_ton_ha_yr''
     (sld_flx example_sld_files ''o'' ''r'' ''cc'' ''flx_sld'' False molar_mass_dict) =
     Some [Some 0, Some 0.0100089, Some 0.0200178]"
  by (simp add: sld_defs read_defs frame_defs unit_defs example_sld_files_def example_sld_cc_def
      result_column_def)

theorem cflx_calc_fixed_flags_witness:
  "saved_column
     (fst (cflx_calc example_sld_files empty_store ''o'' ''r'' (Single ''cc'') False False
             ''postproc_flxs'' [''sld_flx'']))
     ''o/r/postproc_flxs/rockflx_cc.pkl'' ''int_dust_ton_ha_yr'' = Some [Some 0, Some 1, Some 1.5] \<and>
   result_column ''int_dust_ton_ha_yr''
     (sld_flx example_sld_files ''o'' ''r'' ''cc'' ''flx_sld'' True molar_mass_dict) =
     Some [Some 0, Some 1, Some 1.5] \<and>
   result_column ''int_dust_ton_ha_yr''
     (sld_flx example_sld_files ''o'' ''r'' ''cc'' ''flx_sld'' False molar_mass_dict) =
     Some [Some 0, Some 0.0100089, Some 0.0200178] \<and>
   cflx_calc example_sld_files empty_store ''o'' ''r'' (Single ''cc'') False False
     ''postproc_flxs'' [''sumCat_adv'', ''sld_flx''] =
   cflx_calc example_sld_files empty_store ''o'' ''r'' (Single ''cc'') True True
     ''postproc_flxs'' [''sumCat_adv'', ''sld_flx'']"
proof (intro conjI)
  show "saved_column
     (fst (cflx_calc example_sld_files empty_store ''o'' ''r'' (Single ''cc'') False False
             ''postproc_flxs'' [''sld_flx'']))
     ''o/r/postproc_flxs/rockflx_cc.pkl'' ''int_dust_ton_ha_yr'' = Some [Some 0, Some 1, Some 1.5]"
    using cflx_calc_fixed_flags [where fs = example_sld_files
        and st = empty_store and outdir = "''o''" and runname = "''r''" and f = "''cc''"
        and dust_from_file = False and convert_units = False and save_dir = "''postproc_flxs''",
        THEN conjunct2, THEN conjunct1]
    by (simp add: example_sld_cc_table saved_column_def path_defs)
  show "result_column ''int_dust_ton_ha_yr''
     (sld_flx example_sld_files ''o'' ''r'' ''cc'' ''flx_sld'' True molar_mass_dict) =
     Some [Some 0, Some 1, Some 1.5]"
    by (simp add: example_sld_cc_table result_column_def)
  show "result_column ''int_dust_ton_ha_yr''
     (sld_flx example_sld_files ''o'' ''r'' ''cc'' ''flx_sld'' False molar_mass_dict) =
     Some [Some 0, Some 0.0100089, Some 0.0200178]"
    by (rule example_sld_cc_rain)
  show "cflx_calc example_sld_files empty_store ''o'' ''r'' (Single ''cc'') False False
     ''postproc_flxs'' [''sumCat_adv'', ''sld_flx''] =
   cflx_calc example_sld_files empty_store ''o'' ''r'' (Single ''cc'') True True
     ''postproc_flxs'' [''sumCat_adv'', ''sld_flx'']"
    using cflx_calc_fixed_flags [where fs = example_sld_files and st = empty_store
        and outdir = "''o''" and runname = "''r''" and feedstock = "Single ''cc''"
        and dust_from_file = False and convert_units = False and save_dir = "''postproc_flxs''"
        and calc_list = "[''sumCat_adv'', ''sld_flx'']" and dust_from_file' = True
        and convert_units' = True, THEN conjunct2, THEN conjunct2, THEN conjunct2]
    by simp
qed

section \<open>The dust of a feedstock that \<^verbatim>\<open>dust.txt\<close> does not name\<close>

lemma to_numeric_Inr: "to_numeric ts = Inr xs \<Longrightarrow> length xs = length ts \<and> Text s \<notin> set ts"
  by (induction ts arbitrary: xs rule: to_numeric.induct) (auto split: sum.splits)

lemma df_map_numeric_no_text:
  "df_map_numeric raw = Inr f \<Longrightarrow> filter (\<lambda>cv. list_ex (\<lambda>t. t = Text s) (snd cv)) raw = []"
  by (induction raw arbitrary: f) (auto split: sum.splits simp: list_ex_iff dest: to_numeric_Inr)

lemma df_map_numeric_lookup:
  "df_map_numeric raw = Inr f \<Longrightarrow> map_of f c = Some v \<Longrightarrow>
   \<exists>ts. map_of raw c = Some ts \<and> to_numeric ts = Inr v"
  by (induction raw arbitrary: f) (auto split: sum.splits if_splits)

lemma map_of_filter_names:
  "map_of (filter (\<lambda>cv. fst cv \<notin> S) df) c = (if c \<in> S then None else map_of df c)"
  by (induction df) auto

lemma feedstock_dust_index_fallback:
  assumes "df_map_numeric others = Inr dfnum" "Text feedstock \<notin> set sp1" "Text feedstock \<notin> set sp2"
  shows "feedstock_dust_index feedstock (others @ [(''dustsp1'', sp1), (''dustsp2'', sp2)]) = ''1''"
  using df_map_numeric_no_text[OF assms(1), of feedstock] assms(2,3)
  by (simp add: feedstock_dust_index_def list_ex_iff)

lemma length_cumsum_from: "length (cumsum_from s ds) = length ds"
  by (induction ds arbitrary: s) auto

lemma length_trapezoid_steps: "length (trapezoid_steps y x) = min (length y) (length x) - 1"
  by (induction y x rule: trapezoid_steps.induct) auto

lemma length_fill_gap: "length (fill_gap a k vs) = k + length vs"
  by (induction a k vs rule: fill_gap.induct) auto

lemma length_interpolate: "length (interpolate vs) = length vs"
  by (induction vs rule: interpolate.induct) (auto simp: length_fill_gap)

lemma length_filter_zip_fst:
  "length xs = length ys \<Longrightarrow>
   length (filter (\<lambda>r. P (fst r)) (zip xs ys)) = length (filter P xs)"
  by (induction xs ys rule: list_induct2) auto

lemma length_filter_concat_replicate:
  "length (filter P (concat (map (\<lambda>k. replicate (m k) k) ks))) =
   sum_list (map (\<lambda>k. if P k then m k else 0) ks)"
  by (induction ks) auto

lemma count_keys_sum:
  assumes "distinct ks" "set l \<subseteq> set ks"
  shows "sum_list (map (\<lambda>k. if k \<in> set l then max 1 (count_list l k) else 0) ks) = length l"
proof -
  have "(\<lambda>k. if k \<in> set l then max 1 (count_list l k) else 0) = count_list l"
  proof
    fix k show "(if k \<in> set l then max 1 (count_list l k) else 0) = count_list l k"
      using count_list_0_iff[of l k] by (cases "count_list l k") auto
  qed
  then have "sum_list (map (\<lambda>k. if k \<in> set l then max 1 (count_list l k) else 0) ks) =
             sum_list (map (count_list l) ks)" by simp
  also have "\<dots> = sum (count_list l) (set ks)"
    using assms(1) by (simp add: sum_list_distinct_conv_sum_set)
  also have "\<dots> = length l"
    using assms(2) by (intro sum_count_set) auto
  finally show ?thesis .
qed

lemma length_merge_interpolate: "length (merge_interpolate df_time nodup) = length df_time"
proof -
  define ks where "ks = sort (remdups (df_time @ map fst nodup))"
  have fst_merged: "map fst (merge_outer df_time nodup) =
      concat (map (\<lambda>k. replicate (max 1 (count_list df_time k)) k) ks)"
    by (simp add: merge_outer_def ks_def map_concat comp_def)
  have "length (merge_interpolate df_time nodup) =
        length (filter (\<lambda>k. k \<in> set df_time) (map fst (merge_outer df_time nodup)))"
    by (simp add: merge_interpolate_def Let_def length_interpolate
        length_filter_zip_fst[where P = "\<lambda>k. k \<in> set df_time"])
  also have "\<dots> = sum_list (map (\<lambda>k. if k \<in> set df_time then max 1 (count_list df_time k) else 0) ks)"
    unfolding fst_merged by (rule length_filter_concat_replicate)
  also have "\<dots> = length df_time"
    by (rule count_keys_sum) (auto simp: ks_def)
  finally show ?thesis .
qed

lemma nrows_finite_frame: "nrows (finite_frame df) = nrows df"
  by (cases df) (auto simp: nrows_def finite_frame_def)

lemma nrows_times_col:
  assumes "rect df" "map_of df ''time'' = Some tcol"
  shows "nrows (apply_cols (times_col names tcol) df) = nrows df"
proof (cases df)
  case Nil
  then show ?thesis by (simp add: apply_cols_def nrows_def)
next
  case (Cons cv rest)
  have l1: "length tcol = nrows df" using assms by (rule rect_length)
  have l2: "length (snd cv) = length tcol" using Cons l1 by (simp add: nrows_def)
  have "nrows (apply_cols (times_col names tcol) df) = length (times_col names tcol (fst cv) (snd cv))"
    unfolding Cons by (simp add: apply_cols_def nrows_def)
  also have "\<dots> = length tcol" using l2 by (simp add: times_col_def)
  finally show ?thesis using l1 by simp
qed

lemma dust_columns_fallback:
  assumes dust: "fs (path_join outdir [runname, ''flx'', ''dust.txt'']) = Some dfdust0"
    and sp: "map_of dfdust0 ''dustsp1'' = Some sp1" "map_of dfdust0 ''dustsp2'' = Some sp2"
    and absent: "Text feedstock \<notin> set sp1" "Text feedstock \<notin> set sp2"
    and num: "df_map_numeric (filter (\<lambda>cv. fst cv \<notin> set [''dustsp1'', ''dustsp2'']) dfdust0) = Inr dfnum"
    and cols: "map_of dfnum ''dust1_g_m2_yr'' = Some rate" "map_of dfnum ''time'' = Some t"
  shows "dust_columns fs outdir runname feedstock = Inr (nrows dfdust0, rate, t)"
  using dust sp num cols feedstock_dust_index_fallback[OF num absent]
  by (simp add: dust_columns_def preprocess_txt_raw_def Let_def)

lemma numeric_column_length:
  assumes num: "df_map_numeric (filter (\<lambda>cv. fst cv \<notin> S) dfdust0) = Inr dfnum"
    and col: "map_of dfnum c = Some v" and r: "rect dfdust0"
  shows "length v = nrows dfdust0"
proof -
  from df_map_numeric_lookup[OF num col] obtain ts where
    ts: "map_of (filter (\<lambda>cv. fst cv \<notin> S) dfdust0) c = Some ts" "to_numeric ts = Inr v" by blast
  from ts(1) have "map_of dfdust0 c = Some ts"
    by (simp add: map_of_filter_names split: if_splits)
  then have "length ts = nrows dfdust0" using r by (intro rect_length)
  then show ?thesis using to_numeric_Inr[OF ts(2)] by simp
qed

lemma match_dust_length:
  assumes "rect df" "map_of df ''time'' = Some df_time" "n = nrows df \<longrightarrow> length I = n"
  shows "\<exists>intdust. match_dust n t I df = Inr intdust \<and> length intdust = nrows df"
  using assms rect_length[OF assms(1,2)]
  by (auto simp: match_dust_def length_merge_interpolate)

text \<open>
  C10. When \<^verbatim>\<open>dust.txt\<close> names the feedstock in neither \<^verbatim>\<open>dustsp1\<close> nor \<^verbatim>\<open>dustsp2\<close>,
  \<^verbatim>\<open>sld_flx\<close> with \<^verbatim>\<open>dust_from_file=True\<close> does not raise: it takes
  \<^verbatim>\<open>dust1_g_m2_yr\<close> as the dust rate of the feedstock. On a well-formed run
  (\<^verbatim>\<open>dust.txt\<close> rectangular, with a row, numeric besides the two species columns, with
  the columns \<^verbatim>\<open>time\<close> and \<^verbatim>\<open>dust1_g_m2_yr\<close>; the two flux tables rectangular, of the
  same number of rows, with the columns \<^verbatim>\<open>time\<close>, \<^verbatim>\<open>adv\<close> and the feedstock's; the
  feedstock among the molar masses) it returns a table whose \<open>int_dust_ton_ha_yr\<close> is
  the integral of \<^verbatim>\<open>dust1_g_m2_yr\<close>, matched to the rows of the flux table, and whose
  fractions are computed from it: in each row, with \<open>a\<close> the advected and \<open>s\<close> the
  dissolved mass (the integrated flux times the time, the molar mass and 0.01) and
  \<open>d\<close> the integrated dust, when \<open>d\<close> is a number other than zero, the fractions are
  \<open>a / d\<close>, \<open>(d - a - s) / d\<close>, \<open>s / (d - a)\<close> (not a number when \<open>d = a\<close>) and \<open>s / d\<close>.
\<close>

theorem sld_flx_unnamed_feedstock_uses_dust1:
  assumes dust: "fs (path_join outdir [runname, ''flx'', ''dust.txt'']) = Some dfdust0"
    and sp: "map_of dfdust0 ''dustsp1'' = Some sp1" "map_of dfdust0 ''dustsp2'' = Some sp2"
    and absent: "Text feedstock \<notin> set sp1" "Text feedstock \<notin> set sp2"
    and num: "df_map_numeric (filter (\<lambda>cv. fst cv \<notin> set [''dustsp1'', ''dustsp2'']) dfdust0) = Inr dfnum"
    and cols: "map_of dfnum ''dust1_g_m2_yr'' = Some rate" "map_of dfnum ''time'' = Some t"
    and wf_dust: "rect dfdust0" "0 < nrows dfdust0"
    and gd: "get_data fs outdir runname var_fn feedstock ''flx'' = Inr (df, dfint)"
    and wf: "flux_tables_ok df dfint feedstock"
    and mm: "map_of molar_mass_dict feedstock = Some mm"
  shows "dust_columns fs outdir runname feedstock = Inr (nrows dfdust0, rate, t) \<and>
         (\<exists>out I intdust.
            sld_flx fs outdir runname feedstock var_fn True molar_mass_dict = Inr out \<and>
            cumulative_trapezoid rate t = Inr I \<and>
            match_dust (nrows dfdust0) t I df = Inr intdust \<and>
            map_of out ''int_dust_ton_ha_yr'' = Some intdust \<and>
            has_cols out [''fraction_sld_advected'', ''fraction_sld_remaining'',
                          ''fraction_remaining_dissolved'', ''fraction_total_dissolved''] \<and>
            (\<forall>i<nrows df.
               value_at out ''adv'' i =
                 Some (val dfint ''adv'' i * val dfint ''time'' i * mm * (1 / 100)) \<and>
               value_at out ''total_dissolution'' i =
                 Some (val dfint feedstock i * val dfint ''time'' i * mm * (1 / 100)) \<and>
               (\<forall>d a s. intdust ! i = Some d \<and> d \<noteq> 0 \<and>
                  a = val dfint ''adv'' i * val dfint ''time'' i * mm * (1 / 100) \<and>
                  s = val dfint feedstock i * val dfint ''time'' i * mm * (1 / 100) \<longrightarrow>
                  value_at out ''fraction_sld_advected'' i = Some (a / d) \<and>
                  value_at out ''fraction_sld_remaining'' i = Some ((d - a - s) / d) \<and>
                  value_at out ''fraction_remaining_dissolved'' i =
                    (if d - a = 0 then None else Some (s / (d - a))) \<and>
                  value_at out ''fraction_total_dissolved'' i = Some (s / d))))"
proof -
  have dc: "dust_columns fs outdir runname feedstock = Inr (nrows dfdust0, rate, t)"
    using dust sp absent num cols by (rule dust_columns_fallback)
  have r: "rect df" "rect dfint" and n: "nrows dfint = nrows df"
    using wf by (simp_all add: flux_tables_ok_def)
  from wf obtain df_time tcol adv fsc where c:
    "map_of df ''time'' = Some df_time" "map_of dfint ''time'' = Some tcol"
    "map_of dfint ''adv'' = Some adv" "map_of dfint feedstock = Some fsc"
    unfolding flux_tables_ok_def has_cols_Cons by blast
  have lc: "length tcol = nrows df" "length adv = nrows df" "length fsc = nrows df"
    using c rect_length[OF r(2)] n by simp_all
  define dfint' where "dfint' = apply_cols (times_col [''time''] tcol) dfint"
  have mt: "mul_by_time [''time''] dfint = Inr dfint'"
    using c by (simp add: mul_by_time_def dfint'_def)
  have lr: "length rate = nrows dfdust0" "length t = nrows dfdust0"
    using numeric_column_length[OF num _ wf_dust(1)] cols by auto
  define I where "I = 0 # cumsum_from 0 (trapezoid_steps rate t)"
  have ct: "cumulative_trapezoid rate t = Inr I"
    using lr wf_dust(2) by (auto simp: cumulative_trapezoid_def I_def)
  have lI: "length I = nrows dfdust0"
    using lr wf_dust(2) by (simp add: I_def length_cumsum_from length_trapezoid_steps)
  from match_dust_length[OF r(1) c(1), of "nrows dfdust0" I t] lI obtain intdust where
    md: "match_dust (nrows dfdust0) t I df = Inr intdust" and li: "length intdust = nrows df"
    by auto
  define dfint1 where "dfint1 = assign ''int_dust_ton_ha_yr'' intdust (finite_frame dfint')"
  have nr: "nrows (finite_frame dfint') = nrows df"
    using nrows_times_col[OF r(2) c(2)] n by (simp add: nrows_finite_frame dfint'_def)
  have aid: "add_int_dust fs outdir runname feedstock True molar_mass_dict df dfint' = Inr dfint1"
    using dc ct md li nr by (simp add: add_int_dust_def dust_from_txt_def assign_values_def dfint1_def)
  have neq: "feedstock \<noteq> ''time''" "feedstock \<noteq> ''int_dust_ton_ha_yr''" "feedstock \<noteq> ''adv''"
    "feedstock \<noteq> ''dust_minus_adv''" "feedstock \<noteq> ''total_dissolution''"
    "feedstock \<noteq> ''fraction_sld_advected''" "feedstock \<noteq> ''fraction_sld_remaining''"
    "feedstock \<noteq> ''fraction_remaining_dissolved''" "feedstock \<noteq> ''fraction_total_dissolved''"
    using molar_mass_key_not_reserved[OF mm] by auto
  have look: "map_of dfint1 ''time'' = Some (map Some tcol)"
    "map_of dfint1 ''int_dust_ton_ha_yr'' = Some intdust"
    "map_of dfint1 ''adv'' = Some (map Some (map2 (*) adv tcol))"
    "map_of dfint1 feedstock = Some (map Some (map2 (*) fsc tcol))"
    using c neq
    by (simp_all add: dfint1_def dfint'_def map_of_assign map_of_finite_frame map_of_apply_cols
        times_col_def)
  define A where "A = map (map_option (\<lambda>v. v * mm * conv_factor)) (map Some (map2 (*) adv tcol))"
  define F where "F = map (map_option (\<lambda>v. v * mm * conv_factor)) (map Some (map2 (*) fsc tcol))"
  define out where "out =
        [(''time'', map Some tcol), (''int_dust_ton_ha_yr'', intdust), (''adv'', A), (feedstock, F),
         (''dust_minus_adv'', map2 osub intdust A), (''total_dissolution'', F),
         (''fraction_sld_advected'', map2 odiv A intdust),
         (''fraction_sld_remaining'', map2 odiv (map2 osub (map2 osub intdust A) F) intdust),
         (''fraction_remaining_dissolved'', map2 odiv F (map2 osub intdust A)),
         (''fraction_total_dissolved'', map2 odiv F intdust)]"
  have fr: "sld_fractions feedstock molar_mass_dict dfint1 = Inr out"
    unfolding out_def by (rule sld_fractions_eval[OF look mm A_def F_def])
  have o1: "map_of out ''int_dust_ton_ha_yr'' = Some intdust"
    by (simp add: out_def)
  have o2: "has_cols out [''fraction_sld_advected'', ''fraction_sld_remaining'',
                          ''fraction_remaining_dissolved'', ''fraction_total_dissolved'']"
    by (simp add: out_def has_cols_def columns_def)
  have ok: "sld_flx fs outdir runname feedstock var_fn True molar_mass_dict = Inr out"
    using gd mt aid fr by (simp add: sld_flx_def)
  have lA: "length A = nrows df" "length F = nrows df"
    using lc by (simp_all add: A_def F_def)
  have rows: "value_at out ''adv'' i =
                 Some (val dfint ''adv'' i * val dfint ''time'' i * mm * (1 / 100)) \<and>
               value_at out ''total_dissolution'' i =
                 Some (val dfint feedstock i * val dfint ''time'' i * mm * (1 / 100)) \<and>
               (\<forall>d a s. intdust ! i = Some d \<and> d \<noteq> 0 \<and>
                  a = val dfint ''adv'' i * val dfint ''time'' i * mm * (1 / 100) \<and>
                  s = val dfint feedstock i * val dfint ''time'' i * mm * (1 / 100) \<longrightarrow>
                  value_at out ''fraction_sld_advected'' i = Some (a / d) \<and>
                  value_at out ''fraction_sld_remaining'' i = Some ((d - a - s) / d) \<and>
                  value_at out ''fraction_remaining_dissolved'' i =
                    (if d - a = 0 then None else Some (s / (d - a))) \<and>
                  value_at out ''fraction_total_dissolved'' i = Some (s / d))"
    if i: "i < nrows df" for i
  proof -
    have v: "val dfint ''adv'' i = adv ! i" "val dfint ''time'' i = tcol ! i"
      "val dfint feedstock i = fsc ! i"
      using c lc i by (simp_all add: val_eq)
    have cf: "conv_factor = 1 / 100" by (simp add: unit_defs)
    have Ai: "A ! i = Some (adv ! i * tcol ! i * mm * (1 / 100))"
      using i lc by (simp add: A_def cf)
    have Fi: "F ! i = Some (fsc ! i * tcol ! i * mm * (1 / 100))"
      using i lc by (simp add: F_def cf)
    have a: "value_at out ''adv'' i = Some (adv ! i * tcol ! i * mm * (1 / 100))"
      using i lA Ai by (simp add: out_def value_at_Cons)
    have s: "value_at out ''total_dissolution'' i = Some (fsc ! i * tcol ! i * mm * (1 / 100))"
      using i lA Fi neq by (simp add: out_def value_at_Cons)
    have fr: "value_at out ''fraction_sld_advected'' i = Some (a / d) \<and>
                  value_at out ''fraction_sld_remaining'' i = Some ((d - a - s) / d) \<and>
                  value_at out ''fraction_remaining_dissolved'' i =
                    (if d - a = 0 then None else Some (s / (d - a))) \<and>
                  value_at out ''fraction_total_dissolved'' i = Some (s / d)"
      if h: "intdust ! i = Some d" "d \<noteq> 0"
        "a = adv ! i * tcol ! i * mm * (1 / 100)" "s = fsc ! i * tcol ! i * mm * (1 / 100)"
      for d a s
    proof -
      have Ai': "A ! i = Some a" and Fi': "F ! i = Some s" using Ai Fi h by simp_all
      show ?thesis
        using i lA li Ai' Fi' h(1,2) neq
        by (simp add: out_def value_at_Cons)
    qed
    show ?thesis unfolding v using a s fr by blast
  qed
  from dc ok ct md o1 o2 rows show ?thesis by blast
qed

lemma example_amnt_get_data:
  "get_data example_sld_files ''o'' ''r'' ''flx_sld'' ''amnt'' ''flx'' =
     Inr ([(''time'', [0, 1, 1, 2]), (''amnt'', [0, 0.004, 0.004, 0.003]),
           (''adv'', [0, 0.001, 0.001, 0.001]), (''rain'', [0, - 0.01, - 0.01, - 0.01])],
          [(''time'', [0, 1, 1, 2]), (''amnt'', [0, 0.004, 0.004, 0.003]),
           (''adv'', [0, 0.001, 0.001, 0.001]), (''rain'', [0, - 0.01, - 0.01, - 0.01])])"
  by (simp add: read_defs example_sld_files_def example_sld_amnt_def)

theorem sld_flx_unnamed_feedstock_uses_dust1_witness:
  "Text ''amnt'' \<notin> set [Text ''cc'', Text ''cc'', Text ''cc'', Text ''cc''] \<and>
   Text ''amnt'' \<notin> set [Text ''gbas'', Text ''gbas'', Text ''gbas'', Text ''gbas''] \<and>
   dust_columns example_sld_files ''o'' ''r'' ''amnt'' = Inr (4, [100, 100, 50, 50], [0, 1, 1, 2]) \<and>
   (\<exists>out I intdust.
      sld_flx example_sld_files ''o'' ''r'' ''amnt'' ''flx_sld'' True molar_mass_dict = Inr out \<and>
      cumulative_trapezoid [100, 100, 50, 50] [0, 1, 1, 2] = Inr I \<and>
      match_dust 4 [0, 1, 1, 2] I
        [(''time'', [0, 1, 1, 2]), (''amnt'', [0, 0.004, 0.004, 0.003]),
         (''adv'', [0, 0.001, 0.001, 0.001]), (''rain'', [0, - 0.01, - 0.01, - 0.01])] = Inr intdust \<and>
      map_of out ''int_dust_ton_ha_yr'' = Some intdust \<and>
      has_cols out [''fraction_sld_advected'', ''fraction_sld_remaining'',
                    ''fraction_remaining_dissolved'', ''fraction_total_dissolved''] \<and>
      intdust = [Some 0, Some 1, Some 1, Some 1.5] \<and>
      value_at out ''adv'' 3 = Some 0.00160086 \<and>
      value_at out ''total_dissolution'' 3 = Some 0.00480258 \<and>
      value_at out ''fraction_sld_advected'' 3 = Some (0.00160086 / 1.5) \<and>
      value_at out ''fraction_sld_remaining'' 3 = Some ((1.5 - 0.00160086 - 0.00480258) / 1.5) \<and>
      value_at out ''fraction_remaining_dissolved'' 3 = Some (0.00480258 / (1.5 - 0.00160086)) \<and>
      value_at out ''fraction_total_dissolved'' 3 = Some (0.00480258 / 1.5))"
proof -
  have dust: "example_sld_files (path_join ''o'' [''r'', ''flx'', ''dust.txt'']) = Some example_dust"
    by (simp add: example_sld_files_def path_defs)
  have sp: "map_of example_dust ''dustsp1'' = Some [Text ''cc'', Text ''cc'', Text ''cc'', Text ''cc'']"
    "map_of example_dust ''dustsp2'' = Some [Text ''gbas'', Text ''gbas'', Text ''gbas'', Text ''gbas'']"
    by (simp_all add: example_dust_def)
  have absent: "Text ''amnt'' \<notin> set [Text ''cc'', Text ''cc'', Text ''cc'', Text ''cc'']"
    "Text ''amnt'' \<notin> set [Text ''gbas'', Text ''gbas'', Text ''gbas'', Text ''gbas'']"
    by simp_all
  have num: "df_map_numeric (filter (\<lambda>cv. fst cv \<notin> set [''dustsp1'', ''dustsp2'']) example_dust) =
      Inr [(''time'', [0, 1, 1, 2]), (''dust1_g_m2_yr'', [100, 100, 50, 50]),
           (''dust2_g_m2_yr'', [0, 0, 0, 0])]"
    by (simp add: example_dust_def)
  have cols: "map_of [(''time'', [0, 1, 1, 2]), (''dust1_g_m2_yr'', [100, 100, 50, 50]),
           (''dust2_g_m2_yr'', [0, 0, 0, 0])] ''dust1_g_m2_yr'' = Some [100, 100, 50, 50 :: real]"
    "map_of [(''time'', [0, 1, 1, 2]), (''dust1_g_m2_yr'', [100, 100, 50, 50]),
           (''dust2_g_m2_yr'', [0, 0, 0, 0])] ''time'' = Some [0, 1, 1, 2 :: real]"
    by simp_all
  have wf_dust: "rect example_dust" "0 < nrows example_dust"
    by (simp_all add: rect_def nrows_def example_dust_def)
  have n4: "nrows example_dust = 4"
    by (simp add: nrows_def example_dust_def)
  define tab :: frame where "tab =
       [(''time'', [0, 1, 1, 2]), (''amnt'', [0, 0.004, 0.004, 0.003]),
        (''adv'', [0, 0.001, 0.001, 0.001]), (''rain'', [0, - 0.01, - 0.01, - 0.01])]"
  have wf: "flux_tables_ok tab tab ''amnt''"
    by (simp add: tab_def flux_tables_ok_def rect_def nrows_def has_cols_def columns_def)
  have mm: "map_of molar_mass_dict ''amnt'' = Some 80.043"
    by (simp add: molar_mass_dict_def)
  have gd: "get_data example_sld_files ''o'' ''r'' ''flx_sld'' ''amnt'' ''flx'' = Inr (tab, tab)"
    unfolding tab_def by (rule example_amnt_get_data)
  from sld_flx_unnamed_feedstock_uses_dust1 [OF dust sp absent num cols wf_dust gd wf mm]
  obtain out I intdust where
    dc: "dust_columns example_sld_files ''o'' ''r'' ''amnt'' =
           Inr (nrows example_dust, [100, 100, 50, 50], [0, 1, 1, 2])"
    and ok: "sld_flx example_sld_files ''o'' ''r'' ''amnt'' ''flx_sld'' True molar_mass_dict = Inr out"
    and ct: "cumulative_trapezoid [100, 100, 50, 50] [0, 1, 1, 2] = Inr I"
    and md: "match_dust (nrows example_dust) [0, 1, 1, 2] I tab = Inr intdust"
    and o1: "map_of out ''int_dust_ton_ha_yr'' = Some intdust"
    and o2: "has_cols out [''fraction_sld_advected'', ''fraction_sld_remaining'',
                    ''fraction_remaining_dissolved'', ''fraction_total_dissolved'']"
    and rows: "\<forall>i<nrows tab.
               value_at out ''adv'' i =
                 Some (val tab ''adv'' i * val tab ''time'' i * 80.043 * (1 / 100)) \<and>
               value_at out ''total_dissolution'' i =
                 Some (val tab ''amnt'' i * val tab ''time'' i * 80.043 * (1 / 100)) \<and>
               (\<forall>d a s. intdust ! i = Some d \<and> d \<noteq> 0 \<and>
                  a = val tab ''adv'' i * val tab ''time'' i * 80.043 * (1 / 100) \<and>
                  s = val tab ''amnt'' i * val tab ''time'' i * 80.043 * (1 / 100) \<longrightarrow>
                  value_at out ''fraction_sld_advected'' i = Some (a / d) \<and>
                  value_at out ''fraction_sld_remaining'' i = Some ((d - a - s) / d) \<and>
                  value_at out ''fraction_remaining_dissolved'' i =
                    (if d - a = 0 then None else Some (s / (d - a))) \<and>
                  value_at out ''fraction_total_dissolved'' i = Some (s / d))"
    by blast
  have I: "I = [0, 100, 100, 150]"
    using ct by (simp add: cumulative_trapezoid_def)
  have nt: "nrows tab = 4" by (simp add: tab_def nrows_def)
  have id: "intdust = [Some 0, Some 1, Some 1, Some 1.5]"
    using md by (simp add: match_dust_def n4 nt I)
  have lt: "3 < nrows tab" by (simp add: nt)
  note R = rows[rule_format, OF lt]
  have r3: "value_at out ''adv'' 3 = Some 0.00160086"
    "value_at out ''total_dissolution'' 3 = Some 0.00480258"
    using R[THEN conjunct1] R[THEN conjunct2, THEN conjunct1]
    by (simp_all add: tab_def val_def)
  have "value_at out ''fraction_sld_advected'' 3 = Some (0.00160086 / 1.5) \<and>
    value_at out ''fraction_sld_remaining'' 3 = Some ((1.5 - 0.00160086 - 0.00480258) / 1.5) \<and>
    value_at out ''fraction_remaining_dissolved'' 3 =
      (if (1.5 :: real) - 0.00160086 = 0 then None else Some (0.00480258 / (1.5 - 0.00160086))) \<and>
    value_at out ''fraction_total_dissolved'' 3 = Some (0.00480258 / 1.5)"
    by (rule R[THEN conjunct2, THEN conjunct2, rule_format, of "1.5" "0.00160086" "0.00480258"])
       (simp add: id tab_def val_def)
  then have fr: "value_at out ''fraction_sld_advected'' 3 = Some (0.00160086 / 1.5)"
    "value_at out ''fraction_sld_remaining'' 3 = Some ((1.5 - 0.00160086 - 0.00480258) / 1.5)"
    "value_at out ''fraction_remaining_dissolved'' 3 = Some (0.00480258 / (1.5 - 0.00160086))"
    "value_at out ''fraction_total_dissolved'' 3 = Some (0.00480258 / 1.5)"
    by simp_all
  show ?thesis
    using absent dc[unfolded n4] ok ct md[unfolded n4 tab_def] o1 o2 id r3 fr by blast
qed

section \<open>Repeated times in \<^verbatim>\<open>dust.txt\<close>\<close>

lemma drop_duplicates_first_unseen:
  "k \<in> set seen \<Longrightarrow> k \<notin> fst ` set (drop_duplicates_first seen ps)"
  by (induction ps arbitrary: seen) auto

lemma distinct_drop_duplicates_first: "distinct (map fst (drop_duplicates_first seen ps))"
proof (induction ps arbitrary: seen)
  case Nil
  then show ?case by simp
next
  case (Cons r rs)
  have "fst r \<notin> fst ` set (drop_duplicates_first (fst r # seen) rs)"
    by (rule drop_duplicates_first_unseen) simp
  with Cons show ?case by simp
qed

lemma map_of_drop_duplicates_first:
  "map_of (drop_duplicates_first seen ps) k = (if k \<in> set seen then None else map_of ps k)"
proof (induction ps arbitrary: seen)
  case Nil
  then show ?case by simp
next
  case (Cons r rs)
  then show ?case by (cases r) auto
qed

lemma dust_columns_Inr:
  assumes "dust_columns fs outdir runname feedstock = Inr (n, rate, t)"
  shows "\<exists>dfdust0 ts. fs (path_join outdir [runname, ''flx'', ''dust.txt'']) = Some dfdust0 \<and>
           n = nrows dfdust0 \<and> map_of dfdust0 ''time'' = Some ts \<and> to_numeric ts = Inr t"
proof -
  from assms obtain dfdust0 where f: "fs (path_join outdir [runname, ''flx'', ''dust.txt'']) = Some dfdust0"
    by (auto simp: dust_columns_def preprocess_txt_raw_def Let_def
        split: option.splits)
  from assms f obtain dfnum where
    num: "df_map_numeric (filter (\<lambda>cv. fst cv \<notin> set [''dustsp1'', ''dustsp2'']) dfdust0) = Inr dfnum"
    and tm: "map_of dfnum ''time'' = Some t" and n: "n = nrows dfdust0"
    by (auto simp: dust_columns_def preprocess_txt_raw_def Let_def
        split: option.splits sum.splits)
  from df_map_numeric_lookup[OF num tm] obtain ts where
    "map_of (filter (\<lambda>cv. fst cv \<notin> set [''dustsp1'', ''dustsp2'']) dfdust0) ''time'' = Some ts"
    "to_numeric ts = Inr t" by blast
  then have "map_of dfdust0 ''time'' = Some ts" "to_numeric ts = Inr t"
    using map_of_filter_names[of "set [''dustsp1'', ''dustsp2'']" dfdust0 "''time''"]
    by (simp_all split: if_splits)
  with f n show ?thesis by blast
qed

text \<open>
  C3, as the code has it. Whenever \<^verbatim>\<open>sld_flx\<close> with \<^verbatim>\<open>dust_from_file=True\<close> returns a
  table, the cumulative trapezoidal integral was taken over all rows of \<^verbatim>\<open>dust.txt\<close>,
  rows with a repeated time included: \<open>t\<close> is the whole time column of the file and
  \<open>rate\<close> the whole dust column. When \<^verbatim>\<open>dust.txt\<close> has as many rows as the flux table,
  \<open>int_dust_ton_ha_yr\<close> is that integral over 100 and no row is dropped. Only when the
  row counts differ are the rows with a repeated time dropped, the first of them kept,
  and that after the integration: the rows merged with the flux table carry the
  integral of all rows.
\<close>

theorem sld_flx_integrates_all_rows:
  assumes ok: "sld_flx fs outdir runname feedstock var_fn True molar_mass_dict = Inr out"
    and gd: "get_data fs outdir runname var_fn feedstock ''flx'' = Inr (df, dfint)"
  shows "\<exists>dfdust0 ts rate t I.
           fs (path_join outdir [runname, ''flx'', ''dust.txt'']) = Some dfdust0 \<and>
           map_of dfdust0 ''time'' = Some ts \<and> to_numeric ts = Inr t \<and>
           dust_columns fs outdir runname feedstock = Inr (nrows dfdust0, rate, t) \<and>
           cumulative_trapezoid rate t = Inr I \<and>
           I = 0 # cumsum_from 0 (trapezoid_steps rate t) \<and>
           (nrows dfdust0 = nrows df \<longrightarrow>
              map_of out ''int_dust_ton_ha_yr'' = Some (map (\<lambda>v. Some (v / 100)) I)) \<and>
           (nrows dfdust0 \<noteq> nrows df \<longrightarrow>
              (\<exists>df_time. map_of df ''time'' = Some df_time \<and>
                 map_of out ''int_dust_ton_ha_yr'' =
                   Some (merge_interpolate df_time (drop_duplicates_first [] (zip t I))))) \<and>
           distinct (map fst (drop_duplicates_first [] (zip t I))) \<and>
           map_of (drop_duplicates_first [] (zip t I)) = map_of (zip t I)"
proof -
  from sld_flx_Inr_fractions[OF ok] gd obtain dfint' dfint1 where
    aid: "add_int_dust fs outdir runname feedstock True molar_mass_dict df dfint' = Inr dfint1"
    and fr: "sld_fractions feedstock molar_mass_dict dfint1 = Inr out"
    by auto
  from aid obtain intdust where
    dft: "dust_from_txt fs outdir runname feedstock df = Inr intdust"
    and d1: "dfint1 = assign ''int_dust_ton_ha_yr'' intdust (finite_frame dfint')"
    by (auto simp: add_int_dust_def assign_values_def split: sum.splits if_splits)
  from dft obtain n rate t I where
    dc: "dust_columns fs outdir runname feedstock = Inr (n, rate, t)"
    and ct: "cumulative_trapezoid rate t = Inr I"
    and md: "match_dust n t I df = Inr intdust"
    by (auto simp: dust_from_txt_def split: sum.splits prod.splits)
  from dust_columns_Inr[OF dc] obtain dfdust0 ts where
    f: "fs (path_join outdir [runname, ''flx'', ''dust.txt'']) = Some dfdust0"
    and n: "n = nrows dfdust0" and ts: "map_of dfdust0 ''time'' = Some ts" "to_numeric ts = Inr t"
    by blast
  have I: "I = 0 # cumsum_from 0 (trapezoid_steps rate t)"
    using ct by (auto simp: cumulative_trapezoid_def split: if_splits)
  from sld_fractions_Inr_cols[OF fr] obtain T D A0 F0 mm where c:
    "map_of dfint1 ''time'' = Some T" "map_of dfint1 ''int_dust_ton_ha_yr'' = Some D"
    "map_of dfint1 ''adv'' = Some A0" "map_of dfint1 feedstock = Some F0"
    "map_of molar_mass_dict feedstock = Some mm" by blast
  have D: "D = intdust" using c(2) by (simp add: d1 map_of_assign)
  have o: "map_of out ''int_dust_ton_ha_yr'' = Some intdust"
    using sld_fractions_eval[OF c refl refl] fr D by simp
  have eq: "nrows dfdust0 = nrows df \<longrightarrow>
              map_of out ''int_dust_ton_ha_yr'' = Some (map (\<lambda>v. Some (v / 100)) I)"
    using md o n by (auto simp: match_dust_def)
  have ne: "nrows dfdust0 \<noteq> nrows df \<longrightarrow>
              (\<exists>df_time. map_of df ''time'' = Some df_time \<and>
                 map_of out ''int_dust_ton_ha_yr'' =
                   Some (merge_interpolate df_time (drop_duplicates_first [] (zip t I))))"
    using md o n by (auto simp: match_dust_def split: option.splits if_splits)
  have kf: "distinct (map fst (drop_duplicates_first [] (zip t I)))"
    "map_of (drop_duplicates_first [] (zip t I)) = map_of (zip t I)"
    by (rule distinct_drop_duplicates_first) (rule ext, simp add: map_of_drop_duplicates_first)
  from f ts dc[unfolded n] ct I eq ne kf show ?thesis by blast
qed

lemma example_cc_get_data:
  "get_data example_sld_files ''o'' ''r'' ''flx_sld'' ''cc'' ''flx'' =
     Inr ([(''time'', [0, 1, 2]), (''cc'', [0, 0.004, 0.003]),
           (''adv'', [0, 0.001, 0.001]), (''rain'', [0, - 0.01, - 0.01])],
          [(''time'', [0, 1, 2]), (''cc'', [0, 0.004, 0.003]),
           (''adv'', [0, 0.001, 0.001]), (''rain'', [0, - 0.01, - 0.01])])"
  by (simp add: read_defs example_sld_files_def example_sld_cc_def)

text \<open>
  C3, as the claim states it, fails. In the run of two years the dust rate is 100 until
  the time 1 and 50 from the time 1 on. Keeping the first row of the time 1 and then
  integrating would give 0, 100, 175 g/m2; \<^verbatim>\<open>sld_flx\<close> returns 0, 1, 1.5 ton/ha for
  \<^verbatim>\<open>cc\<close> (three flux rows), and for \<^verbatim>\<open>amnt\<close> (four flux rows) it keeps both rows of
  the time 1.
\<close>

theorem sld_flx_keep_first_counterexample:
  "dust_columns example_sld_files ''o'' ''r'' ''cc'' = Inr (4, [100, 100, 50, 50], [0, 1, 1, 2]) \<and>
   keep_first_then_integrate [100, 100, 50, 50] [0, 1, 1, 2] = Inr [0, 100, 175] \<and>
   result_column ''int_dust_ton_ha_yr''
     (sld_flx example_sld_files ''o'' ''r'' ''cc'' ''flx_sld'' True molar_mass_dict) =
     Some [Some 0, Some 1, Some 1.5] \<and>
   result_column ''int_dust_ton_ha_yr''
     (sld_flx example_sld_files ''o'' ''r'' ''cc'' ''flx_sld'' True molar_mass_dict) \<noteq>
     Some [Some 0, Some 1, Some 1.75] \<and>
   result_column ''int_dust_ton_ha_yr''
     (sld_flx example_sld_files ''o'' ''r'' ''amnt'' ''flx_sld'' True molar_mass_dict) =
     Some [Some 0, Some 1, Some 1, Some 1.5]"
proof (intro conjI)
  show "dust_columns example_sld_files ''o'' ''r'' ''cc'' = Inr (4, [100, 100, 50, 50], [0, 1, 1, 2])"
    by (simp add: sld_defs read_defs frame_defs example_sld_files_def example_dust_def)
  show "keep_first_then_integrate [100, 100, 50, 50] [0, 1, 1, 2] = Inr [0, 100, 175]"
    by (simp add: keep_first_then_integrate_def cumulative_trapezoid_def)
  show "result_column ''int_dust_ton_ha_yr''
     (sld_flx example_sld_files ''o'' ''r'' ''cc'' ''flx_sld'' True molar_mass_dict) =
     Some [Some 0, Some 1, Some 1.5]"
    by (simp add: example_sld_cc_table result_column_def)
  show "result_column ''int_dust_ton_ha_yr''
     (sld_flx example_sld_files ''o'' ''r'' ''cc'' ''flx_sld'' True molar_mass_dict) \<noteq>
     Some [Some 0, Some 1, Some 1.75]"
    by (simp add: example_sld_cc_table result_column_def)
  show "result_column ''int_dust_ton_ha_yr''
     (sld_flx example_sld_files ''o'' ''r'' ''amnt'' ''flx_sld'' True molar_mass_dict) =
     Some [Some 0, Some 1, Some 1, Some 1.5]"
    by (simp add: sld_defs read_defs frame_defs unit_defs example_sld_files_def
        example_sld_amnt_def example_dust_def result_column_def)
qed

theorem sld_flx_integrates_all_rows_witness:
  "get_data example_sld_files ''o'' ''r'' ''flx_sld'' ''cc'' ''flx'' =
     Inr ([(''time'', [0, 1, 2]), (''cc'', [0, 0.004, 0.003]),
           (''adv'', [0, 0.001, 0.001]), (''rain'', [0, - 0.01, - 0.01])],
          [(''time'', [0, 1, 2]), (''cc'', [0, 0.004, 0.003]),
           (''adv'', [0, 0.001, 0.001]), (''rain'', [0, - 0.01, - 0.01])]) \<and>
   (\<exists>out I. sld_flx example_sld_files ''o'' ''r'' ''cc'' ''flx_sld'' True molar_mass_dict = Inr out \<and>
      dust_columns example_sld_files ''o'' ''r'' ''cc'' = Inr (4, [100, 100, 50, 50], [0, 1, 1, 2]) \<and>
      cumulative_trapezoid [100, 100, 50, 50] [0, 1, 1, 2] = Inr I \<and>
      I = [0, 100, 100, 150] \<and>
      map_of out ''int_dust_ton_ha_yr'' =
        Some (merge_interpolate [0, 1, 2] (drop_duplicates_first [] (zip [0, 1, 1, 2] I))) \<and>
      map_of out ''int_dust_ton_ha_yr'' = Some [Some 0, Some 1, Some 1.5])"
proof -
  define out where "out = projr (sld_flx example_sld_files ''o'' ''r'' ''cc'' ''flx_sld'' True molar_mass_dict)"
  have ok: "sld_flx example_sld_files ''o'' ''r'' ''cc'' ''flx_sld'' True molar_mass_dict = Inr out"
    by (simp add: out_def example_sld_cc_table)
  have dcx: "dust_columns example_sld_files ''o'' ''r'' ''cc'' = Inr (4, [100, 100, 50, 50], [0, 1, 1, 2])"
    by (simp add: sld_defs read_defs frame_defs example_sld_files_def example_dust_def)
  have n3: "nrows [(''time'', [0, 1, 2 :: real]), (''cc'', [0, 0.004, 0.003]),
           (''adv'', [0, 0.001, 0.001]), (''rain'', [0, - 0.01, - 0.01])] = 3"
    by (simp add: nrows_def)
  from sld_flx_integrates_all_rows [OF ok example_cc_get_data]
  obtain dfdust0 :: raw_frame and rate t I where
    dc: "dust_columns example_sld_files ''o'' ''r'' ''cc'' = Inr (nrows dfdust0, rate, t)"
    and ct: "cumulative_trapezoid rate t = Inr I"
    and I: "I = 0 # cumsum_from 0 (trapezoid_steps rate t)"
    and ne: "nrows dfdust0 \<noteq> nrows [(''time'', [0, 1, 2 :: real]), (''cc'', [0, 0.004, 0.003]),
           (''adv'', [0, 0.001, 0.001]), (''rain'', [0, - 0.01, - 0.01])] \<longrightarrow>
              (\<exists>df_time. map_of [(''time'', [0, 1, 2 :: real]), (''cc'', [0, 0.004, 0.003]),
           (''adv'', [0, 0.001, 0.001]), (''rain'', [0, - 0.01, - 0.01])] ''time'' = Some df_time \<and>
                 map_of out ''int_dust_ton_ha_yr'' =
                   Some (merge_interpolate df_time (drop_duplicates_first [] (zip t I))))"
    by blast
  from dc dcx have v: "nrows dfdust0 = 4" "rate = [100, 100, 50, 50]" "t = [0, 1, 1, 2]" by simp_all
  have I4: "I = [0, 100, 100, 150]" unfolding I v by simp
  from ne have m: "map_of out ''int_dust_ton_ha_yr'' =
        Some (merge_interpolate [0, 1, 2] (drop_duplicates_first [] (zip [0, 1, 1, 2] I)))"
    unfolding v n3 by simp
  have e: "map_of out ''int_dust_ton_ha_yr'' = Some [Some 0, Some 1, Some 1.5]"
    by (simp add: out_def example_sld_cc_table)
  show ?thesis
    using example_cc_get_data ok dcx ct[unfolded v] I4 m e by blast
qed

section \<open>The fractions of a row add up to one\<close>

lemma rect_times_col:
  assumes "rect df" "map_of df ''time'' = Some tcol"
    and "map_of (apply_cols (times_col names tcol) df) c = Some v"
  shows "length v = nrows df"
proof -
  from assms(3) obtain v0 where v0: "map_of df c = Some v0" "v = times_col names tcol c v0"
    by (auto simp: map_of_apply_cols)
  have "length v0 = nrows df" "length tcol = nrows df"
    using assms(1,2) v0(1) by (auto intro: rect_length)
  then show ?thesis by (simp add: v0(2) times_col_def)
qed

lemma add_int_dust_Inr:
  assumes aid: "add_int_dust fs outdir runname feedstock dust_from_file mm_dict df dfint' = Inr dfint1"
    and len: "\<And>c v. map_of dfint' c = Some v \<Longrightarrow> length v = nrows dfint'"
  shows "\<exists>X. dfint1 = assign ''int_dust_ton_ha_yr'' X (finite_frame dfint') \<and> length X = nrows dfint'"
proof (cases dust_from_file)
  case True
  with aid show ?thesis
    by (auto simp: add_int_dust_def assign_values_def nrows_finite_frame split: sum.splits if_splits)
next
  case False
  with aid obtain rain mm where "map_of dfint' ''rain'' = Some rain"
    "dfint1 = assign ''int_dust_ton_ha_yr'' (map (\<lambda>v. Some (- 1 * v * mm * conv_factor)) rain)
       (finite_frame dfint')"
    by (auto simp: add_int_dust_def split: option.splits)
  with len[of "''rain''" rain] show ?thesis by auto
qed

text \<open>
  C6. In every row of the table \<^verbatim>\<open>sld_flx\<close> returns (with either source of the dust,
  the molar masses of the module, a rectangular integrated flux file) whose
  \<open>int_dust_ton_ha_yr\<close> is a positive \<open>d\<close>, the advected mass \<open>a\<close> and the dissolved mass
  \<open>t\<close> are finite, the fractions are \<open>a / d\<close>, \<open>(d - a - t) / d\<close> and \<open>t / d\<close> over the same
  \<open>d\<close>, and
  \<open>fraction_sld_advected + fraction_sld_remaining + total_dissolution / int_dust_ton_ha_yr = 1\<close>.
\<close>

theorem sld_flx_fractions_sum_to_one:
  assumes ok: "sld_flx fs outdir runname feedstock var_fn dust_from_file molar_mass_dict = Inr out"
    and gd: "get_data fs outdir runname var_fn feedstock ''flx'' = Inr (df, dfint)"
    and r: "rect dfint"
    and d: "value_at out ''int_dust_ton_ha_yr'' i = Some d" and pos: "0 < d"
  shows "\<exists>a t. value_at out ''adv'' i = Some a \<and> value_at out ''total_dissolution'' i = Some t \<and>
           value_at out ''fraction_sld_advected'' i = Some (a / d) \<and>
           value_at out ''fraction_sld_remaining'' i = Some ((d - a - t) / d) \<and>
           value_at out ''fraction_total_dissolved'' i = Some (t / d) \<and>
           a / d + (d - a - t) / d + t / d = 1"
proof -
  from sld_flx_Inr_fractions[OF ok] gd obtain dfint' dfint1 where
    mt: "mul_by_time [''time''] dfint = Inr dfint'"
    and aid: "add_int_dust fs outdir runname feedstock dust_from_file molar_mass_dict df dfint' = Inr dfint1"
    and fr: "sld_fractions feedstock molar_mass_dict dfint1 = Inr out"
    by auto
  from mt obtain tcol where tc: "map_of dfint ''time'' = Some tcol"
    and d': "dfint' = apply_cols (times_col [''time''] tcol) dfint"
    by (auto simp: mul_by_time_def split: option.splits)
  have nr: "nrows dfint' = nrows dfint"
    unfolding d' using r tc by (rule nrows_times_col)
  have len: "length v = nrows dfint'" if "map_of dfint' c = Some v" for c v
    using rect_times_col[OF r tc that[unfolded d']] nr by simp
  have "\<exists>X. dfint1 = assign ''int_dust_ton_ha_yr'' X (finite_frame dfint') \<and>
           length X = nrows dfint'"
    by (rule add_int_dust_Inr[OF aid]) (rule len)
  then obtain X where
    d1: "dfint1 = assign ''int_dust_ton_ha_yr'' X (finite_frame dfint')"
    and lX: "length X = nrows dfint'" by blast
  from sld_fractions_Inr_cols[OF fr] obtain T D A0 F0 mm where c:
    "map_of dfint1 ''time'' = Some T" "map_of dfint1 ''int_dust_ton_ha_yr'' = Some D"
    "map_of dfint1 ''adv'' = Some A0" "map_of dfint1 feedstock = Some F0"
    "map_of molar_mass_dict feedstock = Some mm" by blast
  have neq: "feedstock \<noteq> ''time''" "feedstock \<noteq> ''int_dust_ton_ha_yr''" "feedstock \<noteq> ''adv''"
    "feedstock \<noteq> ''dust_minus_adv''" "feedstock \<noteq> ''total_dissolution''"
    using molar_mass_key_not_reserved[OF c(5)] by auto
  have D: "D = X" using c(2) by (simp add: d1 map_of_assign)
  from c(3) obtain advc where advc: "map_of dfint' ''adv'' = Some advc" "A0 = map Some advc"
    by (auto simp: d1 map_of_assign map_of_finite_frame)
  from c(4) neq obtain fsc where fsc: "map_of dfint' feedstock = Some fsc" "F0 = map Some fsc"
    by (auto simp: d1 map_of_assign map_of_finite_frame)
  define A where "A = map (map_option (\<lambda>v. v * mm * conv_factor)) A0"
  define F where "F = map (map_option (\<lambda>v. v * mm * conv_factor)) F0"
  have out: "out = [(''time'', T), (''int_dust_ton_ha_yr'', D), (''adv'', A), (feedstock, F),
         (''dust_minus_adv'', map2 osub D A), (''total_dissolution'', F),
         (''fraction_sld_advected'', map2 odiv A D),
         (''fraction_sld_remaining'', map2 odiv (map2 osub (map2 osub D A) F) D),
         (''fraction_remaining_dissolved'', map2 odiv F (map2 osub D A)),
         (''fraction_total_dissolved'', map2 odiv F D)]"
    using sld_fractions_eval[OF c A_def F_def] fr by simp
  have i: "i < nrows dfint'"
    using d lX D by (auto simp: out value_at_Cons split: if_splits)
  have la: "length advc = nrows dfint'" "length fsc = nrows dfint'"
    using len advc(1) fsc(1) by auto
  have a: "value_at out ''adv'' i = Some (advc ! i * mm * conv_factor)"
    using i la neq by (simp add: out value_at_Cons A_def advc(2))
  have t: "value_at out ''total_dissolution'' i = Some (fsc ! i * mm * conv_factor)"
    using i la neq by (simp add: out value_at_Cons F_def fsc(2))
  from sld_flx_fractions_row[OF ok d pos a t] a t show ?thesis by blast
qed

theorem sld_flx_fractions_sum_to_one_witness:
  "rect [(''time'', [0, 1, 2 :: real]), (''cc'', [0, 0.004, 0.003]),
         (''adv'', [0, 0.001, 0.001]), (''rain'', [0, - 0.01, - 0.01])] \<and>
   (\<exists>out a t.
      sld_flx example_sld_files ''o'' ''r'' ''cc'' ''flx_sld'' True molar_mass_dict = Inr out \<and>
      value_at out ''int_dust_ton_ha_yr'' 1 = Some 1 \<and>
      value_at out ''adv'' 1 = Some a \<and> value_at out ''total_dissolution'' 1 = Some t \<and>
      value_at out ''fraction_sld_advected'' 1 = Some (a / 1) \<and>
      value_at out ''fraction_sld_remaining'' 1 = Some ((1 - a - t) / 1) \<and>
      value_at out ''fraction_total_dissolved'' 1 = Some (t / 1) \<and>
      a / 1 + (1 - a - t) / 1 + t / 1 = 1)"
proof -
  define out where
    "out = projr (sld_flx example_sld_files ''o'' ''r'' ''cc'' ''flx_sld'' True molar_mass_dict)"
  have ok: "sld_flx example_sld_files ''o'' ''r'' ''cc'' ''flx_sld'' True molar_mass_dict = Inr out"
    by (simp add: out_def example_sld_cc_table)
  have r: "rect [(''time'', [0, 1, 2 :: real]), (''cc'', [0, 0.004, 0.003]),
         (''adv'', [0, 0.001, 0.001]), (''rain'', [0, - 0.01, - 0.01])]"
    by (simp add: rect_def nrows_def)
  have d: "value_at out ''int_dust_ton_ha_yr'' 1 = Some 1"
    by (simp add: out_def example_sld_cc_table value_at_def)
  have pos: "(0 :: real) < 1" by simp
  from sld_flx_fractions_sum_to_one [OF ok example_cc_get_data r d pos] r ok d
  show ?thesis by blast
qed

section \<open>The unit factor in the assemblers\<close>











lemma nrows_Cons: "nrows ((c, v) # r) = length v"
  by (simp add: nrows_def)











end
